theory Spec2Isabelle
  imports Main "HOL-Library.Sublist"
begin

section \<open>Application types\<close>

text \<open>
  The application types of \<^verbatim>\<open>types.ts\<close> (Profile, FamilyTree, CirclePost and their parts)
  are imported by every module but are declared in a file that is not among the sources.
  Their fields are recovered from the mappers, which build and read every one of them, from
  \<^verbatim>\<open>database.types.ts\<close> and from the column comments of the SQL migration.
  Field names carry a short prefix because record fields share one name space.
\<close>

datatype GenderCodeEnum = M | F | U

datatype MediaKindEnum = photo | video | audio | document

text \<open>Modelled from the spec: the element type of a profile's timeline (a life event: id,
  type, date, place, optional spouse name, attached media references), declared in the
  missing \<^verbatim>\<open>types.ts\<close>; the migration gives the same shape
  \<^verbatim>\<open>[{ id, type, date, place, spouseName, media[] }]\<close>.\<close>
record LifeEvent =
  ev_id :: string
  ev_type :: string
  ev_date :: string
  ev_place :: string
  ev_spouseName :: "string option"
  ev_media :: "string list"

text \<open>Modelled from the spec: the element type of a profile's memories (free-text notes with
  timestamps), declared in the missing \<^verbatim>\<open>types.ts\<close>; the migration gives
  \<^verbatim>\<open>[{ id, type, content, timestamp }]\<close>.\<close>
record Memory =
  mem_id :: string
  mem_type :: string
  mem_content :: string
  mem_timestamp :: string

text \<open>The JSON object \<^verbatim>\<open>{ text: string; sources: unknown[] }\<close> of
  \<^verbatim>\<open>historical_context\<close>; a source is a grounding source
  \<^verbatim>\<open>{ web?: { uri, title } }\<close>.\<close>
record HistoricalContext =
  hc_text :: string
  hc_sources :: "(string \<times> string) option list"

text \<open>Modelled from the spec: the Person entity (\<^verbatim>\<open>Profile\<close> of the missing
  \<^verbatim>\<open>types.ts\<close>). The fields and which of them are optional are those that
  \<^verbatim>\<open>rowToProfile\<close> produces: \<^verbatim>\<open>gender\<close>, \<^verbatim>\<open>deathYear\<close> and
  \<^verbatim>\<open>historicalContext\<close> may be undefined (\<open>None\<close>), every other field is present.\<close>
record Profile =
  p_id :: string
  p_userId :: string
  p_name :: string
  p_gender :: "GenderCodeEnum option"
  p_birthYear :: string
  p_deathYear :: "string option"
  p_imageUrl :: string
  p_summary :: string
  p_historicalContext :: "HistoricalContext option"
  p_isMemorial :: bool
  p_parentIds :: "string list"
  p_childIds :: "string list"
  p_spouseIds :: "string list"
  p_timeline :: "LifeEvent list"
  p_memories :: "Memory list"
  p_sources :: "string list"

text \<open>Modelled from the spec: the Tree entity (\<^verbatim>\<open>FamilyTree\<close>), with the fields read by
  \<^verbatim>\<open>treeToInsert\<close> and built by \<^verbatim>\<open>rowToTree\<close>. An unset home person is the empty
  string: \<^verbatim>\<open>rowToTree\<close> maps a null column to \<^verbatim>\<open>''\<close>.\<close>
record FamilyTree =
  t_id :: string
  t_userId :: string
  t_name :: string
  t_createdAt :: string
  t_homePersonId :: string
  t_memberIds :: "string list"

text \<open>Modelled from the spec: an attachment of a post (a media reference).\<close>
record CircleAttachment =
  att_id :: string
  att_url :: string

text \<open>Modelled from the spec: the Post entity (\<^verbatim>\<open>CirclePost\<close>), with the fields read by
  \<^verbatim>\<open>postToInsert\<close> and built by \<^verbatim>\<open>rowToPost\<close>.\<close>
record CirclePost =
  c_id :: string
  c_userId :: string
  c_createdAt :: string
  c_authorLabel :: string
  c_body :: string
  c_attachments :: "CircleAttachment list"
  c_taggedProfileIds :: "string list"

section \<open>Row shapes (lib/database.types.ts)\<close>

text \<open>An insert shape is the row shape without \<^verbatim>\<open>created_at\<close> and
  \<^verbatim>\<open>updated_at\<close>; the row is the insert shape extended by the two columns.\<close>

record TreeInsert =
  tr_id :: string
  tr_user_id :: string
  tr_name :: string
  tr_home_person_id :: "string option"
  tr_member_ids :: "string list"

record TreeRow = TreeInsert +
  tr_created_at :: string
  tr_updated_at :: string

record ProfileInsert =
  pr_id :: string
  pr_user_id :: string
  pr_tree_id :: "string option"
  pr_name :: string
  pr_gender :: "GenderCodeEnum option"
  pr_birth_year :: "string option"
  pr_death_year :: "string option"
  pr_image_url :: "string option"
  pr_summary :: "string option"
  pr_historical_context :: "HistoricalContext option"
  pr_is_memorial :: bool
  pr_parent_ids :: "string list"
  pr_child_ids :: "string list"
  pr_spouse_ids :: "string list"
  pr_timeline :: "LifeEvent list"
  pr_memories :: "Memory list"
  pr_sources :: "string list"

record ProfileRow = ProfileInsert +
  pr_created_at :: string
  pr_updated_at :: string

record PostInsert =
  po_id :: string
  po_user_id :: string
  po_author_label :: string
  po_body :: string
  po_attachments :: "CircleAttachment list"

record PostRow = PostInsert +
  po_created_at :: string
  po_updated_at :: string

record PostPersonRow =
  pp_post_id :: string
  pp_profile_id :: string
  pp_user_id :: string

record MediaInsert =
  m_user_id :: string
  m_name :: string
  m_kind :: MediaKindEnum
  m_storage_path :: string
  m_public_url :: "string option"
  m_mime :: "string option"
  m_size :: "nat option"

record MediaRow = MediaInsert +
  m_id :: string
  m_created_at :: string
  m_updated_at :: string

record MediaPersonRow =
  mp_media_id :: string
  mp_profile_id :: string
  mp_user_id :: string

record MediaItem =
  mi_id :: string
  mi_name :: string
  mi_kind :: MediaKindEnum
  mi_url :: string
  mi_mime :: "string option"
  mi_size :: "nat option"
  mi_createdAt :: string

section \<open>JavaScript operators on optional values\<close>

text \<open>\<^verbatim>\<open>a ?? b\<close>: \<open>b\<close> when \<open>a\<close> is null or undefined.\<close>
definition nullish :: "'a option \<Rightarrow> 'a \<Rightarrow> 'a" where
  "nullish a b = (case a of None \<Rightarrow> b | Some v \<Rightarrow> v)"

text \<open>\<^verbatim>\<open>s || null\<close> on a string: the empty string is falsy.\<close>
definition orNull :: "string \<Rightarrow> string option" where
  "orNull s = (if s = [] then None else Some s)"

text \<open>\<^verbatim>\<open>s || null\<close> on an optional string: undefined and the empty string are falsy.\<close>
definition optOrNull :: "string option \<Rightarrow> string option" where
  "optOrNull s = (case s of None \<Rightarrow> None | Some v \<Rightarrow> orNull v)"

section \<open>Mappers (lib/mappers.ts)\<close>

definition rowToTree :: "TreeRow \<Rightarrow> FamilyTree" where
  "rowToTree row =
     \<lparr> t_id = tr_id row,
       t_userId = tr_user_id row,
       t_name = tr_name row,
       t_createdAt = tr_created_at row,
       t_homePersonId = nullish (tr_home_person_id row) [],
       t_memberIds = tr_member_ids row \<rparr>"

definition treeToInsert :: "FamilyTree \<Rightarrow> TreeInsert" where
  "treeToInsert t =
     \<lparr> tr_id = t_id t,
       tr_user_id = t_userId t,
       tr_name = t_name t,
       tr_home_person_id = orNull (t_homePersonId t),
       tr_member_ids = t_memberIds t \<rparr>"

text \<open>The array and JSON columns of a row are never null (\<^verbatim>\<open>string[]\<close>,
  \<^verbatim>\<open>unknown[]\<close>, \<^verbatim>\<open>boolean\<close> in \<^verbatim>\<open>ProfileRow\<close>), so their
  \<^verbatim>\<open>?? []\<close> defaults are the identity; the casts to and from \<^verbatim>\<open>unknown[]\<close>
  do nothing at run time.\<close>
definition rowToProfile :: "ProfileRow \<Rightarrow> Profile" where
  "rowToProfile row =
     \<lparr> p_id = pr_id row,
       p_userId = pr_user_id row,
       p_name = pr_name row,
       p_gender = pr_gender row,
       p_birthYear = nullish (pr_birth_year row) [],
       p_deathYear = pr_death_year row,
       p_imageUrl = nullish (pr_image_url row) [],
       p_summary = nullish (pr_summary row) [],
       p_historicalContext = pr_historical_context row,
       p_isMemorial = pr_is_memorial row,
       p_parentIds = pr_parent_ids row,
       p_childIds = pr_child_ids row,
       p_spouseIds = pr_spouse_ids row,
       p_timeline = pr_timeline row,
       p_memories = pr_memories row,
       p_sources = pr_sources row \<rparr>"

text \<open>\<^verbatim>\<open>treeId\<close> is optional. The defaults \<^verbatim>\<open>?? false\<close> and \<^verbatim>\<open>?? []\<close> guard fields
  that a profile always has, so they are the identity.\<close>
definition profileToInsert :: "Profile \<Rightarrow> string option \<Rightarrow> ProfileInsert" where
  "profileToInsert p treeId =
     \<lparr> pr_id = p_id p,
       pr_user_id = p_userId p,
       pr_tree_id = treeId,
       pr_name = p_name p,
       pr_gender = p_gender p,
       pr_birth_year = orNull (p_birthYear p),
       pr_death_year = optOrNull (p_deathYear p),
       pr_image_url = orNull (p_imageUrl p),
       pr_summary = orNull (p_summary p),
       pr_historical_context = p_historicalContext p,
       pr_is_memorial = p_isMemorial p,
       pr_parent_ids = p_parentIds p,
       pr_child_ids = p_childIds p,
       pr_spouse_ids = p_spouseIds p,
       pr_timeline = p_timeline p,
       pr_memories = p_memories p,
       pr_sources = p_sources p \<rparr>"

text \<open>\<^verbatim>\<open>taggedProfileIds\<close> is injected from the \<^verbatim>\<open>post_people\<close> join.\<close>
definition rowToPost :: "PostRow \<Rightarrow> string list \<Rightarrow> CirclePost" where
  "rowToPost row taggedProfileIds =
     \<lparr> c_id = po_id row,
       c_userId = po_user_id row,
       c_createdAt = po_created_at row,
       c_authorLabel = po_author_label row,
       c_body = po_body row,
       c_attachments = po_attachments row,
       c_taggedProfileIds = taggedProfileIds \<rparr>"

definition postToInsert :: "CirclePost \<Rightarrow> PostInsert" where
  "postToInsert p =
     \<lparr> po_id = c_id p,
       po_user_id = c_userId p,
       po_author_label = c_authorLabel p,
       po_body = c_body p,
       po_attachments = c_attachments p \<rparr>"

text \<open>The row the store holds for an inserted profile: the insert shape with the two
  timestamp columns the database fills in.\<close>
definition storedProfileRow :: "ProfileInsert \<Rightarrow> string \<Rightarrow> string \<Rightarrow> ProfileRow" where
  "storedProfileRow ins created updated =
     ProfileInsert.extend ins (ProfileRow.fields created updated)"


section \<open>Exceptions, console and template literals\<close>

datatype exn = Error string | AuthenticationError string | ParseError string

text \<open>The message of an exception, as \<^verbatim>\<open>console.error\<close> prints it after a prefix.\<close>
fun message :: "exn \<Rightarrow> string" where
  "message (Error m) = m"
| "message (AuthenticationError m) = m"
| "message (ParseError m) = m"

definition digit :: "nat \<Rightarrow> char" where
  "digit d = ''0123456789'' ! d"

text \<open>\<^verbatim>\<open>`${n}`\<close> for a non-negative integer: its decimal digits.\<close>
fun decimal :: "nat \<Rightarrow> string" where
  "decimal n = (if n < 10 then [digit n] else decimal (n div 10) @ [digit (n mod 10)])"

text \<open>The number a string of decimal digits denotes.\<close>
definition digitValue :: "char \<Rightarrow> nat" where
  "digitValue c = of_char c - 48"

definition number :: "string \<Rightarrow> nat" where
  "number s = foldl (\<lambda>n c. 10 * n + digitValue c) 0 s"

section \<open>The Supabase client\<close>

text \<open>
  The store is an external service. Awaiting a query gives \<^verbatim>\<open>{ data, error }\<close>; a
  query ending in \<^verbatim>\<open>.single()\<close> gives either an error or exactly one row. The store
  is a record of functions over a state \<open>'s\<close> the client cannot see, so it may answer any
  call in any way, also depending on every earlier call.
\<close>

record 'a PgResult =
  pg_data :: "'a option"
  pg_error :: "string option"

record Query =
  q_table :: string
  q_columns :: "string list"
  q_eq :: "(string \<times> string) list"
  q_order :: "(string \<times> bool) option"

text \<open>The patch \<^verbatim>\<open>update\<close> of \<^verbatim>\<open>updateTree\<close>: only the keys that were set.\<close>
record TreeUpdate =
  tu_home_person_id :: "string option"
  tu_member_ids :: "string list option"
  tu_name :: "string option"

datatype request =
    UpsertProfilesReq "ProfileInsert list"
  | InsertTreeReq TreeInsert
  | UpdateTreeReq string TreeUpdate
  | InsertPostReq PostInsert
  | InsertPostPeopleReq "PostPersonRow list"
  | DeleteReq string string
  | SelectReq Query
  | StorageUploadReq string string string bool
  | InsertMediaReq MediaInsert
  | InsertMediaPeopleReq "MediaPersonRow list"
  | StorageRemoveReq string "string list"
  | CreateSignedUrlReq string string nat

record 's Supabase =
  sb_upsertProfiles :: "'s \<Rightarrow> ProfileInsert list \<Rightarrow> ProfileRow list PgResult \<times> 's"
  sb_insertTree :: "'s \<Rightarrow> TreeInsert \<Rightarrow> (string + TreeRow) \<times> 's"
  sb_updateTree :: "'s \<Rightarrow> string \<Rightarrow> TreeUpdate \<Rightarrow> string option \<times> 's"
  sb_insertPost :: "'s \<Rightarrow> PostInsert \<Rightarrow> (string + PostRow) \<times> 's"
  sb_insertPostPeople :: "'s \<Rightarrow> PostPersonRow list \<Rightarrow> string option \<times> 's"
  sb_delete :: "'s \<Rightarrow> string \<Rightarrow> string \<Rightarrow> string option \<times> 's"
  sb_selectTrees :: "'s \<Rightarrow> Query \<Rightarrow> TreeRow list PgResult \<times> 's"
  sb_selectProfiles :: "'s \<Rightarrow> Query \<Rightarrow> ProfileRow list PgResult \<times> 's"
  sb_selectPosts :: "'s \<Rightarrow> Query \<Rightarrow> (PostRow \<times> string list) list PgResult \<times> 's"
  sb_storageUpload :: "'s \<Rightarrow> string \<Rightarrow> string \<Rightarrow> string option \<times> 's"
  sb_insertMedia :: "'s \<Rightarrow> MediaInsert \<Rightarrow> (string + MediaRow) \<times> 's"
  sb_insertMediaPeople :: "'s \<Rightarrow> MediaPersonRow list \<Rightarrow> string option \<times> 's"
  sb_storageRemove :: "'s \<Rightarrow> string list \<Rightarrow> 's"
  sb_createSignedUrl :: "'s \<Rightarrow> string \<Rightarrow> nat \<Rightarrow> (string option \<times> string option) \<times> 's"

text \<open>The network as the client drives it: the store's state and the requests sent so far,
  oldest first.\<close>
type_synonym 's net = "'s \<times> request list"

section \<open>repos/profileRepo.ts\<close>

definition CHUNK :: nat where
  "CHUNK = 200"

text \<open>The \<^verbatim>\<open>for (let i = 0; i < profiles.length; i += CHUNK)\<close> loop of
  \<^verbatim>\<open>upsertProfiles\<close>; \<^verbatim>\<open>profiles.slice(i, i + CHUNK)\<close> is
  \<open>take CHUNK (drop i profiles)\<close>.\<close>
function upsertProfiles_loop ::
  "'s Supabase \<Rightarrow> Profile list \<Rightarrow> string option \<Rightarrow> nat \<Rightarrow> Profile list \<Rightarrow> 's net
     \<Rightarrow> (exn + Profile list) \<times> 's net"
where
  "upsertProfiles_loop sb profiles treeId i results net =
     (if i < length profiles then
        (let chunk = take CHUNK (drop i profiles);
             rows = map (\<lambda>p. profileToInsert p treeId) chunk;
             (res, s') = sb_upsertProfiles sb (fst net) rows;
             net' = (s', snd net @ [UpsertProfilesReq rows])
         in case pg_error res of
              Some msg \<Rightarrow>
                (Inl (Error (''upsertProfiles (chunk '' @ decimal i @ ''): '' @ msg)), net')
            | None \<Rightarrow>
                upsertProfiles_loop sb profiles treeId (i + CHUNK)
                  (results @ map rowToProfile (nullish (pg_data res) [])) net')
      else (Inr results, net))"
  by pat_completeness auto
termination
  by (relation "measure (\<lambda>(sb, profiles, treeId, i, results, net). length profiles - i)")
     (auto simp: CHUNK_def)

definition upsertProfiles ::
  "'s Supabase \<Rightarrow> Profile list \<Rightarrow> string option \<Rightarrow> 's net \<Rightarrow> (exn + Profile list) \<times> 's net"
where
  "upsertProfiles sb profiles treeId net = upsertProfiles_loop sb profiles treeId 0 [] net"

text \<open>\<^verbatim>\<open>if (treeId)\<close>: an undefined or empty tree id adds no filter.\<close>
definition listProfiles ::
  "'s Supabase \<Rightarrow> string option \<Rightarrow> 's net \<Rightarrow> (exn + Profile list) \<times> 's net"
where
  "listProfiles sb treeId net =
     (let query = \<lparr> q_table = ''profiles'', q_columns = [''*''], q_eq = [], q_order = None \<rparr>;
          query = (case treeId of
                     None \<Rightarrow> query
                   | Some t \<Rightarrow> if t = [] then query else query\<lparr> q_eq := q_eq query @ [(''tree_id'', t)] \<rparr>);
          query = query\<lparr> q_order := Some (''name'', True) \<rparr>;
          (res, s') = sb_selectProfiles sb (fst net) query;
          net' = (s', snd net @ [SelectReq query])
      in case pg_error res of
           Some msg \<Rightarrow> (Inl (Error (''listProfiles: '' @ msg)), net')
         | None \<Rightarrow> (Inr (map rowToProfile (nullish (pg_data res) [])), net'))"

definition deleteProfile :: "'s Supabase \<Rightarrow> string \<Rightarrow> 's net \<Rightarrow> (exn + unit) \<times> 's net" where
  "deleteProfile sb profileId net =
     (let (err, s') = sb_delete sb (fst net) ''profiles'' profileId;
          net' = (s', snd net @ [DeleteReq ''profiles'' profileId])
      in case err of
           Some msg \<Rightarrow> (Inl (Error (''deleteProfile: '' @ msg)), net')
         | None \<Rightarrow> (Inr (), net'))"

section \<open>repos/treeRepo.ts\<close>

definition createTree :: "'s Supabase \<Rightarrow> FamilyTree \<Rightarrow> 's net \<Rightarrow> (exn + FamilyTree) \<times> 's net" where
  "createTree sb tree net =
     (let (res, s') = sb_insertTree sb (fst net) (treeToInsert tree);
          net' = (s', snd net @ [InsertTreeReq (treeToInsert tree)])
      in case res of
           Inl msg \<Rightarrow> (Inl (Error (''createTree: '' @ msg)), net')
         | Inr row \<Rightarrow> (Inr (rowToTree row), net'))"

definition listTrees :: "'s Supabase \<Rightarrow> 's net \<Rightarrow> (exn + FamilyTree list) \<times> 's net" where
  "listTrees sb net =
     (let query = \<lparr> q_table = ''trees'', q_columns = [''*''], q_eq = [],
                    q_order = Some (''created_at'', False) \<rparr>;
          (res, s') = sb_selectTrees sb (fst net) query;
          net' = (s', snd net @ [SelectReq query])
      in case pg_error res of
           Some msg \<Rightarrow> (Inl (Error (''listTrees: '' @ msg)), net')
         | None \<Rightarrow> (Inr (map rowToTree (nullish (pg_data res) [])), net'))"

text \<open>The argument \<^verbatim>\<open>patch\<close> of \<^verbatim>\<open>updateTree\<close>; a key that is undefined is
  left out of the update.\<close>
record TreePatch =
  tp_homePersonId :: "string option"
  tp_memberIds :: "string list option"
  tp_name :: "string option"

definition updateTree :: "'s Supabase \<Rightarrow> string \<Rightarrow> TreePatch \<Rightarrow> 's net \<Rightarrow> (exn + unit) \<times> 's net" where
  "updateTree sb ident patch net =
     (let update = \<lparr> tu_home_person_id = tp_homePersonId patch,
                     tu_member_ids = tp_memberIds patch,
                     tu_name = tp_name patch \<rparr>;
          (err, s') = sb_updateTree sb (fst net) ident update;
          net' = (s', snd net @ [UpdateTreeReq ident update])
      in case err of
           Some msg \<Rightarrow> (Inl (Error (''updateTree: '' @ msg)), net')
         | None \<Rightarrow> (Inr (), net'))"

section \<open>repos/postRepo.ts\<close>

text \<open>The mention rows of a post, one per tagged profile, for the saved row \<open>data\<close>.\<close>
definition mentionRows :: "CirclePost \<Rightarrow> PostRow \<Rightarrow> PostPersonRow list" where
  "mentionRows post data =
     map (\<lambda>profileId. \<lparr> pp_post_id = po_id data,
                         pp_profile_id = profileId,
                         pp_user_id = c_userId post \<rparr>)
         (c_taggedProfileIds post)"

text \<open>\<^verbatim>\<open>createPost\<close> returns the saved post together with what it wrote to the console.
  The mention rows are inserted only when the post tags someone; a failure of that insert
  is printed and nothing else.\<close>
definition createPost ::
  "'s Supabase \<Rightarrow> CirclePost \<Rightarrow> 's net \<Rightarrow> (exn + CirclePost) \<times> string list \<times> 's net"
where
  "createPost sb post net =
     (let (res, s1) = sb_insertPost sb (fst net) (postToInsert post);
          net1 = (s1, snd net @ [InsertPostReq (postToInsert post)])
      in case res of
           Inl msg \<Rightarrow> (Inl (Error (''createPost: '' @ msg)), [], net1)
         | Inr data \<Rightarrow>
             (if length (c_taggedProfileIds post) > 0 then
                (let mentions = mentionRows post data;
                     (mentionError, s2) = sb_insertPostPeople sb s1 mentions;
                     net2 = (s2, snd net1 @ [InsertPostPeopleReq mentions])
                 in case mentionError of
                      Some msg \<Rightarrow>
                        (Inr (rowToPost data (c_taggedProfileIds post)),
                         [''createPost mentions insert failed: '' @ msg], net2)
                    | None \<Rightarrow> (Inr (rowToPost data (c_taggedProfileIds post)), [], net2))
              else (Inr (rowToPost data (c_taggedProfileIds post)), [], net1)))"

text \<open>The nested select returns each post row with the profile ids of its
  \<^verbatim>\<open>post_people\<close> rows.\<close>
definition listPosts :: "'s Supabase \<Rightarrow> 's net \<Rightarrow> (exn + CirclePost list) \<times> 's net" where
  "listPosts sb net =
     (let query = \<lparr> q_table = ''posts'', q_columns = [''*'', ''post_people ( profile_id )''],
                    q_eq = [], q_order = Some (''created_at'', False) \<rparr>;
          (res, s') = sb_selectPosts sb (fst net) query;
          net' = (s', snd net @ [SelectReq query])
      in case pg_error res of
           Some msg \<Rightarrow> (Inl (Error (''listPosts: '' @ msg)), net')
         | None \<Rightarrow>
             (Inr (map (\<lambda>(row, taggedProfileIds). rowToPost row taggedProfileIds)
                       (nullish (pg_data res) [])), net'))"

definition deletePost :: "'s Supabase \<Rightarrow> string \<Rightarrow> 's net \<Rightarrow> (exn + unit) \<times> 's net" where
  "deletePost sb postId net =
     (let (err, s') = sb_delete sb (fst net) ''posts'' postId;
          net' = (s', snd net @ [DeleteReq ''posts'' postId])
      in case err of
           Some msg \<Rightarrow> (Inl (Error (''deletePost: '' @ msg)), net')
         | None \<Rightarrow> (Inr (), net'))"

section \<open>repos/mediaRepo.ts\<close>

definition BUCKET :: string where
  "BUCKET = ''media''"

definition SIGNED_URL_EXPIRY_SECONDS :: nat where
  "SIGNED_URL_EXPIRY_SECONDS = 60 * 60"

text \<open>The browser \<^verbatim>\<open>File\<close>: its name, MIME type and size.\<close>
record File =
  f_name :: string
  f_type :: string
  f_size :: nat

record UploadMediaOptions =
  o_userId :: string
  o_file :: File
  o_taggedProfileIds :: "string list option"

definition rowToMediaItem :: "MediaRow \<Rightarrow> string \<Rightarrow> MediaItem" where
  "rowToMediaItem row signedUrl =
     \<lparr> mi_id = m_id row,
       mi_name = m_name row,
       mi_kind = m_kind row,
       mi_url = signedUrl,
       mi_mime = m_mime row,
       mi_size = m_size row,
       mi_createdAt = m_created_at row \<rparr>"

definition inferKind :: "string \<Rightarrow> MediaKindEnum" where
  "inferKind mimeType =
     (if prefix ''image/'' mimeType then photo
      else if prefix ''video/'' mimeType then video
      else if prefix ''audio/'' mimeType then audio
      else document)"

text \<open>\<^verbatim>\<open>file.name.replace(/[^a-zA-Z0-9._-]/g, '_')\<close>.\<close>
definition sanitise :: "string \<Rightarrow> string" where
  "sanitise fileName =
     map (\<lambda>c. if c \<in> set ''abcdefghijklmnopqrstuvwxyzABCDEFGHIJKLMNOPQRSTUVWXYZ0123456789._-''
               then c else CHR ''_'') fileName"

text \<open>\<^verbatim>\<open>s || d\<close> on a string.\<close>
definition orElse :: "string \<Rightarrow> string \<Rightarrow> string" where
  "orElse s d = (if s = [] then d else s)"

text \<open>\<^verbatim>\<open>createSignedUrl\<close> answers \<^verbatim>\<open>{ data: { signedUrl } | null, error }\<close>; a missing or
  empty URL counts as a failure, like an error.\<close>
definition getSignedUrl :: "'s Supabase \<Rightarrow> string \<Rightarrow> 's net \<Rightarrow> (exn + string) \<times> 's net" where
  "getSignedUrl sb storagePath net =
     (let ((signedUrl, err), s') = sb_createSignedUrl sb (fst net) storagePath SIGNED_URL_EXPIRY_SECONDS;
          net' = (s', snd net @ [CreateSignedUrlReq BUCKET storagePath SIGNED_URL_EXPIRY_SECONDS]);
          failed = (Inl (Error (''getSignedUrl: '' @ nullish err ''no URL returned'')), net')
      in case err of
           Some msg \<Rightarrow> failed
         | None \<Rightarrow> (case signedUrl of
                      None \<Rightarrow> failed
                    | Some url \<Rightarrow> if url = [] then failed else (Inr url, net')))"

text \<open>The values \<^verbatim>\<open>uploadMedia\<close> computes before and between its requests: the storage
  path \<^verbatim>\<open>`${userId}/${Date.now()}-${safeName}`\<close> (\<open>now\<close> is the value of
  \<^verbatim>\<open>Date.now()\<close>), the content type, the metadata row and the tag rows.\<close>
definition storagePath :: "UploadMediaOptions \<Rightarrow> nat \<Rightarrow> string" where
  "storagePath opts now =
     o_userId opts @ ''/'' @ decimal now @ ''-'' @ sanitise (f_name (o_file opts))"

definition contentType :: "UploadMediaOptions \<Rightarrow> string" where
  "contentType opts = orElse (f_type (o_file opts)) ''application/octet-stream''"

definition mediaInsert :: "UploadMediaOptions \<Rightarrow> nat \<Rightarrow> MediaInsert" where
  "mediaInsert opts now =
     \<lparr> m_user_id = o_userId opts,
       m_name = f_name (o_file opts),
       m_kind = inferKind (f_type (o_file opts)),
       m_storage_path = storagePath opts now,
       m_public_url = None,
       m_mime = orNull (f_type (o_file opts)),
       m_size = Some (f_size (o_file opts)) \<rparr>"

definition mediaTags :: "UploadMediaOptions \<Rightarrow> MediaRow \<Rightarrow> MediaPersonRow list" where
  "mediaTags opts row =
     map (\<lambda>profileId. \<lparr> mp_media_id = m_id row, mp_profile_id = profileId,
                         mp_user_id = o_userId opts \<rparr>)
         (nullish (o_taggedProfileIds opts) [])"

text \<open>Step 5 of \<^verbatim>\<open>uploadMedia\<close>: tag the profiles if any were given; a failure is printed
  and nothing else.\<close>
definition tagProfiles ::
  "'s Supabase \<Rightarrow> UploadMediaOptions \<Rightarrow> MediaRow \<Rightarrow> 's net \<Rightarrow> string list \<times> 's net"
where
  "tagProfiles sb opts row net =
     (if length (nullish (o_taggedProfileIds opts) []) > 0 then
        (let tags = mediaTags opts row;
             (tagError, s') = sb_insertMediaPeople sb (fst net) tags;
             net' = (s', snd net @ [InsertMediaPeopleReq tags])
         in case tagError of
              Some msg \<Rightarrow> ([''uploadMedia tagging failed: '' @ msg], net')
            | None \<Rightarrow> ([], net'))
      else ([], net))"

text \<open>\<^verbatim>\<open>uploadMedia\<close>. The result comes with the lines written to the console. Removing the
  orphaned file after a failed insert is best effort: its outcome is ignored.\<close>
definition uploadMedia ::
  "'s Supabase \<Rightarrow> UploadMediaOptions \<Rightarrow> nat \<Rightarrow> 's net \<Rightarrow> (exn + MediaItem) \<times> string list \<times> 's net"
where
  "uploadMedia sb opts now net =
     (let (uploadError, s1) = sb_storageUpload sb (fst net) (storagePath opts now) (contentType opts);
          net1 = (s1, snd net @ [StorageUploadReq BUCKET (storagePath opts now) (contentType opts) False])
      in case uploadError of
           Some msg \<Rightarrow> (Inl (Error (''uploadMedia storage: '' @ msg)), [], net1)
         | None \<Rightarrow>
             (let (res, s2) = sb_insertMedia sb s1 (mediaInsert opts now);
                  net2 = (s2, snd net1 @ [InsertMediaReq (mediaInsert opts now)])
              in case res of
                   Inl msg \<Rightarrow>
                     (Inl (Error (''uploadMedia insert: '' @ msg)), [],
                      (sb_storageRemove sb s2 [storagePath opts now],
                       snd net2 @ [StorageRemoveReq BUCKET [storagePath opts now]]))
                 | Inr row \<Rightarrow>
                     (let (logged, net3) = tagProfiles sb opts row net2;
                          (signed, net4) = getSignedUrl sb (storagePath opts now) net3
                      in case signed of
                           Inl e \<Rightarrow> (Inl e, logged, net4)
                         | Inr signedUrl \<Rightarrow> (Inr (rowToMediaItem row signedUrl), logged, net4))))"

section \<open>Objects at run time and their JSON text\<close>

text \<open>
  The hook compares two profiles, and two trees, by
  \<^verbatim>\<open>JSON.stringify(old) !== JSON.stringify(p)\<close>. The text of an object lists its own
  properties in the order in which the object enumerates them, which for the keys of
  profiles and trees (none is an array index) is the order in which they were inserted. So
  what is compared is more than the field values: a profile or a tree in the hook's state
  is therefore the object it is at run time, its keys in insertion order, each with its
  value. The values that occur are undefined, null, booleans, strings, arrays and objects;
  no field of a profile or of a tree is a number. An object has each key once.
\<close>
datatype js =
    JUndefined
  | JNull
  | JBool bool
  | JString string
  | JArray "js list"
  | JObject "(string \<times> js) list"

text \<open>\<^verbatim>\<open>v.k\<close>: the value of the property, undefined when the object has no such key.
  The hook reads properties of profiles and trees only, which are objects.\<close>
definition readProp :: "string \<Rightarrow> js \<Rightarrow> js" where
  "readProp k v =
     (case v of
        JObject kvs \<Rightarrow> (case map_of kvs k of None \<Rightarrow> JUndefined | Some x \<Rightarrow> x)
      | _ \<Rightarrow> JUndefined)"

text \<open>\<^verbatim>\<open>!v\<close>: undefined, null, false and the empty string are falsy; arrays and objects
  are not.\<close>
definition falsy :: "js \<Rightarrow> bool" where
  "falsy v = (v = JUndefined \<or> v = JNull \<or> v = JBool False \<or> v = JString [])"

definition hexDigit :: "nat \<Rightarrow> char" where
  "hexDigit n = ''0123456789abcdef'' ! n"

text \<open>One character of a string in JSON text: backspace, tab, line feed, form feed, carriage
  return, the double quote and the backslash have two-character escapes, the other control
  characters are written \<^verbatim>\<open>\u00XX\<close> with lower-case digits, every other character is
  itself. (A lone surrogate would be escaped too; the strings here hold none.)\<close>
definition escape :: "char \<Rightarrow> string" where
  "escape c =
     (if c = CHR 0x08 then [CHR 0x5C, CHR ''b'']
      else if c = CHR 0x09 then [CHR 0x5C, CHR ''t'']
      else if c = CHR 0x0A then [CHR 0x5C, CHR ''n'']
      else if c = CHR 0x0C then [CHR 0x5C, CHR ''f'']
      else if c = CHR 0x0D then [CHR 0x5C, CHR ''r'']
      else if c = CHR 0x22 then [CHR 0x5C, CHR 0x22]
      else if c = CHR 0x5C then [CHR 0x5C, CHR 0x5C]
      else if of_char c < (32::nat)
        then [CHR 0x5C, CHR ''u'', CHR ''0'', CHR ''0'',
              hexDigit (of_char c div 16), hexDigit (of_char c mod 16)]
      else [c])"

text \<open>A string in JSON text: its escaped characters between double quotes.\<close>
definition quote :: "string \<Rightarrow> string" where
  "quote s = [CHR 0x22] @ concat (map escape s) @ [CHR 0x22]"

fun commaSep :: "string list \<Rightarrow> string" where
  "commaSep [] = []"
| "commaSep (x # xs) = x @ concat (map (\<lambda>y. '','' @ y) xs)"

text \<open>
  The JSON text of a value inside an array or an object, without indentation: an array
  element that is undefined is written \<^verbatim>\<open>null\<close>, a property whose value is undefined is
  left out, the other properties are written in the order of the keys.
\<close>
fun serialize :: "js \<Rightarrow> string" where
  "serialize JUndefined = ''null''"
| "serialize JNull = ''null''"
| "serialize (JBool b) = (if b then ''true'' else ''false'')"
| "serialize (JString s) = quote s"
| "serialize (JArray xs) = ''['' @ commaSep (map serialize xs) @ '']''"
| "serialize (JObject kvs) =
     ''{'' @ commaSep (map (\<lambda>(k, v). quote k @ '':'' @ serialize v)
                          (filter (\<lambda>(k, v). v \<noteq> JUndefined) kvs)) @ ''}''"

text \<open>\<^verbatim>\<open>JSON.stringify(v)\<close>: undefined for undefined, the JSON text otherwise.\<close>
definition stringify :: "js \<Rightarrow> string option" where
  "stringify v = (if v = JUndefined then None else Some (serialize v))"

section \<open>Profiles and trees as objects\<close>

text \<open>
  Reading a field of an object under its TypeScript type: a \<^verbatim>\<open>string\<close> field holds a
  string, a \<^verbatim>\<open>string[]\<close> field an array of strings, an optional field may be undefined.
  A value the type excludes reads as the default the mappers give an absent one (the empty
  string, \<^verbatim>\<open>false\<close>, the empty array, undefined).
\<close>
definition asString :: "js \<Rightarrow> string" where
  "asString v = (case v of JString s \<Rightarrow> s | _ \<Rightarrow> [])"

definition asOptString :: "js \<Rightarrow> string option" where
  "asOptString v = (case v of JString s \<Rightarrow> Some s | _ \<Rightarrow> None)"

definition asBool :: "js \<Rightarrow> bool" where
  "asBool v = (case v of JBool b \<Rightarrow> b | _ \<Rightarrow> False)"

definition asList :: "(js \<Rightarrow> 'a) \<Rightarrow> js \<Rightarrow> 'a list" where
  "asList f v = (case v of JArray xs \<Rightarrow> map f xs | _ \<Rightarrow> [])"

definition asOptList :: "(js \<Rightarrow> 'a) \<Rightarrow> js \<Rightarrow> 'a list option" where
  "asOptList f v = (case v of JArray xs \<Rightarrow> Some (map f xs) | _ \<Rightarrow> None)"

definition asGender :: "js \<Rightarrow> GenderCodeEnum option" where
  "asGender v =
     (case v of
        JString s \<Rightarrow> (if s = ''M'' then Some M else if s = ''F'' then Some F
                      else if s = ''U'' then Some U else None)
      | _ \<Rightarrow> None)"

definition asLifeEvent :: "js \<Rightarrow> LifeEvent" where
  "asLifeEvent v =
     \<lparr> ev_id = asString (readProp ''id'' v),
       ev_type = asString (readProp ''type'' v),
       ev_date = asString (readProp ''date'' v),
       ev_place = asString (readProp ''place'' v),
       ev_spouseName = asOptString (readProp ''spouseName'' v),
       ev_media = asList asString (readProp ''media'' v) \<rparr>"

definition asMemory :: "js \<Rightarrow> Memory" where
  "asMemory v =
     \<lparr> mem_id = asString (readProp ''id'' v),
       mem_type = asString (readProp ''type'' v),
       mem_content = asString (readProp ''content'' v),
       mem_timestamp = asString (readProp ''timestamp'' v) \<rparr>"

text \<open>A grounding source \<^verbatim>\<open>{ web?: { uri, title } }\<close>.\<close>
definition asSource :: "js \<Rightarrow> (string \<times> string) option" where
  "asSource v =
     (case readProp ''web'' v of
        JObject kvs \<Rightarrow> Some (asString (readProp ''uri'' (JObject kvs)),
                             asString (readProp ''title'' (JObject kvs)))
      | _ \<Rightarrow> None)"

definition asHistoricalContext :: "js \<Rightarrow> HistoricalContext option" where
  "asHistoricalContext v =
     (case v of
        JObject kvs \<Rightarrow> Some \<lparr> hc_text = asString (readProp ''text'' v),
                               hc_sources = asList asSource (readProp ''sources'' v) \<rparr>
      | _ \<Rightarrow> None)"

text \<open>The fields of a profile object, as \<^verbatim>\<open>profileToInsert\<close> and the hooks read them.\<close>
definition asProfile :: "js \<Rightarrow> Profile" where
  "asProfile v =
     \<lparr> p_id = asString (readProp ''id'' v),
       p_userId = asString (readProp ''userId'' v),
       p_name = asString (readProp ''name'' v),
       p_gender = asGender (readProp ''gender'' v),
       p_birthYear = asString (readProp ''birthYear'' v),
       p_deathYear = asOptString (readProp ''deathYear'' v),
       p_imageUrl = asString (readProp ''imageUrl'' v),
       p_summary = asString (readProp ''summary'' v),
       p_historicalContext = asHistoricalContext (readProp ''historicalContext'' v),
       p_isMemorial = asBool (readProp ''isMemorial'' v),
       p_parentIds = asList asString (readProp ''parentIds'' v),
       p_childIds = asList asString (readProp ''childIds'' v),
       p_spouseIds = asList asString (readProp ''spouseIds'' v),
       p_timeline = asList asLifeEvent (readProp ''timeline'' v),
       p_memories = asList asMemory (readProp ''memories'' v),
       p_sources = asList asString (readProp ''sources'' v) \<rparr>"

text \<open>The fields of a tree object, as \<^verbatim>\<open>treeToInsert\<close> and the hooks read them.\<close>
definition asTree :: "js \<Rightarrow> FamilyTree" where
  "asTree v =
     \<lparr> t_id = asString (readProp ''id'' v),
       t_userId = asString (readProp ''userId'' v),
       t_name = asString (readProp ''name'' v),
       t_createdAt = asString (readProp ''createdAt'' v),
       t_homePersonId = asString (readProp ''homePersonId'' v),
       t_memberIds = asList asString (readProp ''memberIds'' v) \<rparr>"

text \<open>An optional field: undefined when it is not set.\<close>
definition optional :: "('a \<Rightarrow> js) \<Rightarrow> 'a option \<Rightarrow> js" where
  "optional f x = (case x of None \<Rightarrow> JUndefined | Some v \<Rightarrow> f v)"

definition strings :: "string list \<Rightarrow> js" where
  "strings xs = JArray (map JString xs)"

fun genderCode :: "GenderCodeEnum \<Rightarrow> js" where
  "genderCode M = JString ''M''"
| "genderCode F = JString ''F''"
| "genderCode U = JString ''U''"

text \<open>
  The values of the JSON columns \<^verbatim>\<open>timeline\<close>, \<^verbatim>\<open>memories\<close> and
  \<^verbatim>\<open>historical_context\<close> are passed through by the mappers as the store returned them;
  their objects are taken with their keys in the order of the shapes given in the migration.
\<close>
definition lifeEventObject :: "LifeEvent \<Rightarrow> js" where
  "lifeEventObject e =
     JObject [(''id'', JString (ev_id e)),
              (''type'', JString (ev_type e)),
              (''date'', JString (ev_date e)),
              (''place'', JString (ev_place e)),
              (''spouseName'', optional JString (ev_spouseName e)),
              (''media'', strings (ev_media e))]"

definition memoryObject :: "Memory \<Rightarrow> js" where
  "memoryObject m =
     JObject [(''id'', JString (mem_id m)),
              (''type'', JString (mem_type m)),
              (''content'', JString (mem_content m)),
              (''timestamp'', JString (mem_timestamp m))]"

definition sourceObject :: "(string \<times> string) option \<Rightarrow> js" where
  "sourceObject s =
     (case s of
        None \<Rightarrow> JObject []
      | Some (uri, title) \<Rightarrow>
          JObject [(''web'', JObject [(''uri'', JString uri), (''title'', JString title)])])"

definition historicalContextObject :: "HistoricalContext \<Rightarrow> js" where
  "historicalContextObject h =
     JObject [(''text'', JString (hc_text h)),
              (''sources'', JArray (map sourceObject (hc_sources h)))]"

text \<open>The object \<^verbatim>\<open>rowToProfile\<close> returns: the keys in the order of its object literal;
  \<^verbatim>\<open>gender\<close>, \<^verbatim>\<open>deathYear\<close> and \<^verbatim>\<open>historicalContext\<close> are keys of the object also
  when their value is undefined (\<^verbatim>\<open>row.gender ?? undefined\<close>).\<close>
definition profileObject :: "Profile \<Rightarrow> js" where
  "profileObject p =
     JObject [(''id'', JString (p_id p)),
              (''userId'', JString (p_userId p)),
              (''name'', JString (p_name p)),
              (''gender'', optional genderCode (p_gender p)),
              (''birthYear'', JString (p_birthYear p)),
              (''deathYear'', optional JString (p_deathYear p)),
              (''imageUrl'', JString (p_imageUrl p)),
              (''summary'', JString (p_summary p)),
              (''historicalContext'', optional historicalContextObject (p_historicalContext p)),
              (''isMemorial'', JBool (p_isMemorial p)),
              (''parentIds'', strings (p_parentIds p)),
              (''childIds'', strings (p_childIds p)),
              (''spouseIds'', strings (p_spouseIds p)),
              (''timeline'', JArray (map lifeEventObject (p_timeline p))),
              (''memories'', JArray (map memoryObject (p_memories p))),
              (''sources'', strings (p_sources p))]"

text \<open>The object \<^verbatim>\<open>rowToTree\<close> returns: the keys in the order of its object literal.\<close>
definition treeObject :: "FamilyTree \<Rightarrow> js" where
  "treeObject t =
     JObject [(''id'', JString (t_id t)),
              (''userId'', JString (t_userId t)),
              (''name'', JString (t_name t)),
              (''createdAt'', JString (t_createdAt t)),
              (''homePersonId'', JString (t_homePersonId t)),
              (''memberIds'', strings (t_memberIds t))]"

section \<open>utils/assertAuthenticated.ts\<close>

text \<open>Modelled from the spec: the session user (\<^verbatim>\<open>User\<close> of the missing
  \<^verbatim>\<open>types.ts\<close>); only \<^verbatim>\<open>id\<close> is read, the other fields are those of the test stub.\<close>
record User =
  u_id :: string
  u_email :: string
  u_name :: string
  u_createdAt :: string

definition AuthenticationError_new :: "string option \<Rightarrow> exn" where
  "AuthenticationError_new context' =
     (let wher = (case context' of
                    None \<Rightarrow> []
                  | Some c \<Rightarrow> if c = [] then [] else '' ('' @ c @ '')'')
      in AuthenticationError (''You must be signed in to perform this action'' @ wher @ ''.''))"

text \<open>\<^verbatim>\<open>if (!user || !user.id) throw\<close>; otherwise the user is known to be present.\<close>
definition assertAuthenticated :: "User option \<Rightarrow> string option \<Rightarrow> exn + User" where
  "assertAuthenticated user context' =
     (case user of
        None \<Rightarrow> Inl (AuthenticationError_new context')
      | Some u \<Rightarrow> if u_id u = [] then Inl (AuthenticationError_new context') else Inr u)"

section \<open>hooks/useArchiveStore.ts\<close>

text \<open>
  The hook's React state, with the ref \<^verbatim>\<open>prevProfilesRef\<close>. A state setter called with
  an updater is applied at once: one logical thread drives every mutation. Profiles and
  trees are held as the objects they are, because the setters compare their JSON texts;
  posts are only read field by field.
\<close>
record Store =
  st_profiles :: "js list"
  st_familyTrees :: "js list"
  st_circlePosts :: "CirclePost list"
  st_activeProfileId :: "string option"
  st_selectedTreeId :: "string option"
  st_treeViewId :: "string option"
  st_isLoading :: bool
  st_error :: "string option"
  st_prevProfilesRef :: "js list"

text \<open>\<^verbatim>\<open>SetStateAction\<close>: a new value, or a function of the previous one.\<close>
datatype 'a SetStateAction = Value 'a | Updater "'a \<Rightarrow> 'a"

fun applyAction :: "'a SetStateAction \<Rightarrow> 'a \<Rightarrow> 'a" where
  "applyAction (Value v) prev = v"
| "applyAction (Updater f) prev = f prev"

text \<open>
  A remote write the hook has started and does not wait for: the promise of one repo call,
  with the \<^verbatim>\<open>.catch\<close> handler the hook attached to it. The promise settles later, at
  any time.
\<close>
datatype push =
    UpsertProfilesT "Profile list"
  | CreateTreeT FamilyTree
  | UpdateTreeT string TreePatch
  | CreatePostT CirclePost
  | DeletePostT string
  | DeleteProfileT string

text \<open>\<^verbatim>\<open>new Map(prev.map((p) => [p.id, p])).get(id)\<close>: of several entries with one id the
  last one wins, and the result is undefined when there is none. Ids are strings, which a
  \<^verbatim>\<open>Map\<close> compares by value.\<close>
definition prevById :: "js list \<Rightarrow> js \<Rightarrow> js" where
  "prevById prev ident =
     (case map_of (rev (map (\<lambda>p. (readProp ''id'' p, p)) prev)) ident of
        None \<Rightarrow> JUndefined
      | Some old \<Rightarrow> old)"

text \<open>
  The filter of the augmented \<^verbatim>\<open>setProfiles\<close>:
  \<^verbatim>\<open>!old || JSON.stringify(old) !== JSON.stringify(p)\<close>. A profile is written when no
  previous profile has its id or when the JSON text of the previous one differs from its
  own.
\<close>
definition changed :: "js list \<Rightarrow> js \<Rightarrow> bool" where
  "changed prev p =
     (let old = prevById prev (readProp ''id'' p)
      in falsy old \<or> stringify old \<noteq> stringify p)"

text \<open>The augmented \<^verbatim>\<open>setProfiles\<close>: the new state and the write it started, if any.
  \<^verbatim>\<open>upsertProfiles\<close> reads the fields of the objects it is given.\<close>
definition setProfiles :: "js list SetStateAction \<Rightarrow> Store \<Rightarrow> Store \<times> push list" where
  "setProfiles valueOrUpdater st =
     (let prev = st_profiles st;
          next = applyAction valueOrUpdater prev;
          toUpsert = filter (changed prev) next
      in (st\<lparr> st_profiles := next, st_prevProfilesRef := next \<rparr>,
          if length toUpsert > 0 then [UpsertProfilesT (map asProfile toUpsert)] else []))"

text \<open>The body of \<^verbatim>\<open>next.forEach\<close> in the augmented \<^verbatim>\<open>setFamilyTrees\<close>: a tree whose
  id is new is created; a tree whose JSON text differs from that of the first previous
  tree with its id is updated, with the three fields read from the new object.\<close>
definition treePushes :: "js list \<Rightarrow> js \<Rightarrow> push list" where
  "treePushes prev tree =
     (if readProp ''id'' tree \<notin> set (map (readProp ''id'') prev) then [CreateTreeT (asTree tree)]
      else (case find (\<lambda>t. readProp ''id'' t = readProp ''id'' tree) prev of
              None \<Rightarrow> []
            | Some old \<Rightarrow>
                if \<not> falsy old \<and> stringify old \<noteq> stringify tree
                then [UpdateTreeT (asString (readProp ''id'' tree))
                        \<lparr> tp_homePersonId = asOptString (readProp ''homePersonId'' tree),
                          tp_memberIds = asOptList asString (readProp ''memberIds'' tree),
                          tp_name = asOptString (readProp ''name'' tree) \<rparr>]
                else []))"

definition setFamilyTrees :: "js list SetStateAction \<Rightarrow> Store \<Rightarrow> Store \<times> push list" where
  "setFamilyTrees valueOrUpdater st =
     (let prev = st_familyTrees st;
          next = applyAction valueOrUpdater prev
      in (st\<lparr> st_familyTrees := next \<rparr>, concat (map (treePushes prev) next)))"

text \<open>\<^verbatim>\<open>addCirclePost\<close> returns nothing; the post is in the state when it returns.\<close>
definition addCirclePost :: "CirclePost \<Rightarrow> Store \<Rightarrow> Store \<times> push list" where
  "addCirclePost post st =
     (st\<lparr> st_circlePosts := post # st_circlePosts st \<rparr>, [CreatePostT post])"

definition deleteCirclePost :: "string \<Rightarrow> Store \<Rightarrow> Store \<times> push list" where
  "deleteCirclePost ident st =
     (st\<lparr> st_circlePosts := filter (\<lambda>p. c_id p \<noteq> ident) (st_circlePosts st) \<rparr>,
      [DeletePostT ident])"

text \<open>\<^verbatim>\<open>{ ...p, ...patch }\<close> for a partial post: the patch as a function on posts.\<close>
definition updateCirclePost :: "string \<Rightarrow> (CirclePost \<Rightarrow> CirclePost) \<Rightarrow> Store \<Rightarrow> Store" where
  "updateCirclePost ident patch st =
     st\<lparr> st_circlePosts := map (\<lambda>p. if c_id p = ident then patch p else p) (st_circlePosts st) \<rparr>"


definition deleteProfileById :: "string \<Rightarrow> Store \<Rightarrow> Store \<times> push list" where
  "deleteProfileById profileId st = (st, [DeleteProfileT profileId])"

text \<open>What the repo call behind a push does on the network: whether its promise is rejected,
  and what the repo itself wrote to the console. \<^verbatim>\<open>upsertProfiles(toUpsert)\<close> is called
  without a tree id.\<close>
fun runPush :: "'s Supabase \<Rightarrow> push \<Rightarrow> 's net \<Rightarrow> exn option \<times> string list \<times> 's net" where
  "runPush sb (UpsertProfilesT ps) net =
     (case upsertProfiles sb ps None net of
        (Inl e, net') \<Rightarrow> (Some e, [], net') | (Inr r, net') \<Rightarrow> (None, [], net'))"
| "runPush sb (CreateTreeT tree) net =
     (case createTree sb tree net of
        (Inl e, net') \<Rightarrow> (Some e, [], net') | (Inr r, net') \<Rightarrow> (None, [], net'))"
| "runPush sb (UpdateTreeT ident patch) net =
     (case updateTree sb ident patch net of
        (Inl e, net') \<Rightarrow> (Some e, [], net') | (Inr r, net') \<Rightarrow> (None, [], net'))"
| "runPush sb (CreatePostT post) net =
     (case createPost sb post net of
        (Inl e, logged, net') \<Rightarrow> (Some e, logged, net') | (Inr r, logged, net') \<Rightarrow> (None, logged, net'))"
| "runPush sb (DeletePostT ident) net =
     (case deletePost sb ident net of
        (Inl e, net') \<Rightarrow> (Some e, [], net') | (Inr r, net') \<Rightarrow> (None, [], net'))"
| "runPush sb (DeleteProfileT ident) net =
     (case deleteProfile sb ident net of
        (Inl e, net') \<Rightarrow> (Some e, [], net') | (Inr r, net') \<Rightarrow> (None, [], net'))"

text \<open>\<^verbatim>\<open>console.error(prefix, err)\<close> for a caught exception.\<close>
definition consoleError :: "string \<Rightarrow> exn \<Rightarrow> string" where
  "consoleError prefix' err = prefix' @ '' '' @ message err"

text \<open>The \<^verbatim>\<open>.catch\<close> handler of each push, run when its promise is rejected; a fulfilled
  promise has no handler and its value is dropped. Only a failed \<^verbatim>\<open>createPost\<close> touches
  the state.\<close>
fun settlePush :: "push \<Rightarrow> exn option \<Rightarrow> Store \<times> string list \<Rightarrow> Store \<times> string list" where
  "settlePush t None (st, console) = (st, console)"
| "settlePush (UpsertProfilesT ps) (Some err) (st, console) =
     (st, console @ [consoleError ''[useArchiveStore] upsertProfiles failed:'' err])"
| "settlePush (CreateTreeT tree) (Some err) (st, console) =
     (st, console @ [consoleError ''[useArchiveStore] createTree failed:'' err])"
| "settlePush (UpdateTreeT ident patch) (Some err) (st, console) =
     (st, console @ [consoleError ''[useArchiveStore] updateTree failed:'' err])"
| "settlePush (CreatePostT post) (Some err) (st, console) =
     (st\<lparr> st_circlePosts := filter (\<lambda>p. c_id p \<noteq> c_id post) (st_circlePosts st) \<rparr>,
      console @ [consoleError ''[useArchiveStore] createPost failed:'' err])"
| "settlePush (DeletePostT ident) (Some err) (st, console) =
     (st, console @ [consoleError ''[useArchiveStore] deletePost failed:'' err])"
| "settlePush (DeleteProfileT ident) (Some err) (st, console) =
     (st, console @ [consoleError ''[useArchiveStore] deleteProfile failed:'' err])"


text \<open>The \<^verbatim>\<open>.then\<close>, \<^verbatim>\<open>.catch\<close> and \<^verbatim>\<open>.finally\<close> handlers of the initial load;
  \<open>cancelled\<close> is the flag of the effect run that started it.\<close>
definition settleLoad ::
  "bool \<Rightarrow> exn + js list \<times> js list \<times> CirclePost list \<Rightarrow> Store \<times> string list
     \<Rightarrow> Store \<times> string list"
where
  "settleLoad cancelled outcome sc =
     (if cancelled then sc
      else (case sc of (st, console) \<Rightarrow>
        (case outcome of
           Inr (trees, profs, posts) \<Rightarrow>
             (st\<lparr> st_familyTrees := trees, st_profiles := profs, st_circlePosts := posts,
                  st_isLoading := False \<rparr>, console)
         | Inl err \<Rightarrow>
             (st\<lparr> st_error := Some (message err), st_isLoading := False \<rparr>,
              console @ [''[useArchiveStore] initial load failed: '' @ message err]))))"

text \<open>
  The hook with what is in flight: the pushes it has started, and the initial loads, each
  with the \<open>cancelled\<close> flag of the effect run that started it.
\<close>
record World =
  w_store :: Store
  w_console :: "string list"
  w_pushes :: "push list"
  w_loads :: "bool list"


text \<open>A hook operation on the world: the state changes at once and the writes it started
  join what is in flight.\<close>
definition perform :: "(Store \<Rightarrow> Store \<times> push list) \<Rightarrow> World \<Rightarrow> World" where
  "perform op w =
     (case op (w_store w) of
        (st', started) \<Rightarrow> w\<lparr> w_store := st', w_pushes := w_pushes w @ started \<rparr>)"


text \<open>A promise in flight settles: the \<open>k\<close>-th push is rejected or fulfilled, or the \<open>k\<close>-th
  load is rejected or fulfilled with its three lists.\<close>
datatype event =
    PushSettles nat "exn option"
  | LoadSettles nat "exn + js list \<times> js list \<times> CirclePost list"

definition without :: "nat \<Rightarrow> 'a list \<Rightarrow> 'a list" where
  "without k xs = take k xs @ drop (Suc k) xs"

text \<open>The handlers of the settled promise run and it is no longer in flight. An index
  beyond what is in flight settles nothing.\<close>
fun step :: "event \<Rightarrow> World \<Rightarrow> World" where
  "step (PushSettles k out) w =
     (if k < length (w_pushes w) then
        (case settlePush (w_pushes w ! k) out (w_store w, w_console w) of
           (st', console') \<Rightarrow>
             w\<lparr> w_store := st', w_console := console', w_pushes := without k (w_pushes w) \<rparr>)
      else w)"
| "step (LoadSettles k out) w =
     (if k < length (w_loads w) then
        (case settleLoad (w_loads w ! k) out (w_store w, w_console w) of
           (st', console') \<Rightarrow>
             w\<lparr> w_store := st', w_console := console', w_loads := without k (w_loads w) \<rparr>)
      else w)"

text \<open>Promises settling one after the other, in any order and with any outcome.\<close>
fun run :: "event list \<Rightarrow> World \<Rightarrow> World" where
  "run [] w = w"
| "run (e # es) w = run es (step e w)"

section \<open>The GEDCOM import engine (utils/gedcom.ts)\<close>

text \<open>
  \<^verbatim>\<open>parseGedcom\<close> is imported by \<^verbatim>\<open>useGedcomImport\<close> from \<^verbatim>\<open>utils/gedcom\<close>, which is
  not among the sources. The tokenizer, the graph builder and the import engine below are
  modelled from sections 4.1 to 4.3 of the specification; the tags (\<^verbatim>\<open>INDI\<close>, \<^verbatim>\<open>FAM\<close>,
  \<^verbatim>\<open>HUSB\<close>, \<^verbatim>\<open>WIFE\<close>, \<^verbatim>\<open>CHIL\<close>, \<^verbatim>\<open>NAME\<close>, \<^verbatim>\<open>SEX\<close>, \<^verbatim>\<open>BIRT\<close>, \<^verbatim>\<open>DEAT\<close>,
  \<^verbatim>\<open>MARR\<close>, \<^verbatim>\<open>DATE\<close>, \<^verbatim>\<open>PLAC\<close>) are those of the GEDCOM format.
\<close>

subsection \<open>Record tokenizer\<close>

text \<open>Modelled from the spec: one token per physical line, (level, tag, value, optional
  cross-reference id).\<close>
record Token =
  tk_level :: nat
  tk_xref :: "string option"
  tk_tag :: string
  tk_value :: string

definition isSpace :: "char \<Rightarrow> bool" where
  "isSpace c = (c = CHR '' '' \<or> c = CHR 0x09 \<or> c = CHR 0x0D)"

definition isDigit :: "char \<Rightarrow> bool" where
  "isDigit c = (c \<in> set ''0123456789'')"

fun splitOn :: "char \<Rightarrow> string \<Rightarrow> string list" where
  "splitOn c [] = [[]]"
| "splitOn c (x # xs) =
     (if x = c then [] # splitOn c xs
      else (case splitOn c xs of [] \<Rightarrow> [[x]] | w # ws \<Rightarrow> (x # w) # ws))"

definition ltrim :: "string \<Rightarrow> string" where
  "ltrim s = dropWhile isSpace s"

definition trim :: "string \<Rightarrow> string" where
  "trim s = rev (dropWhile isSpace (rev (dropWhile isSpace s)))"

text \<open>The first word of a line and what follows it.\<close>
definition word :: "string \<Rightarrow> string \<times> string" where
  "word s = (takeWhile (\<lambda>c. \<not> isSpace c) s, ltrim (dropWhile (\<lambda>c. \<not> isSpace c) s))"

text \<open>A cross-reference id is written between two \<^verbatim>\<open>@\<close>.\<close>
definition isXref :: "string \<Rightarrow> bool" where
  "isXref w = (length w \<ge> 3 \<and> hd w = CHR ''@'' \<and> last w = CHR ''@'')"

definition pointer :: "string \<Rightarrow> string" where
  "pointer w = (if isXref w then butlast (tl w) else w)"

text \<open>Modelled from the spec: a line is \<^verbatim>\<open>level [@xref@] tag [value]\<close>; a line whose level or
  tag is missing is malformed and gives no token.\<close>
definition tokenizeLine :: "string \<Rightarrow> Token option" where
  "tokenizeLine line =
     (let (w1, r1) = word (trim line) in
      if w1 = [] \<or> \<not> list_all isDigit w1 then None
      else (let (w2, r2) = word r1 in
            if isXref w2 then
              (let (w3, r3) = word r2 in
               if w3 = [] then None
               else Some \<lparr> tk_level = number w1, tk_xref = Some (pointer w2),
                            tk_tag = w3, tk_value = r3 \<rparr>)
            else if w2 = [] then None
            else Some \<lparr> tk_level = number w1, tk_xref = None, tk_tag = w2, tk_value = r2 \<rparr>))"

text \<open>Modelled from the spec: the tokens of the lines, in file order, malformed lines
  skipped.\<close>
definition tokenize :: "string \<Rightarrow> Token list" where
  "tokenize text = List.map_filter tokenizeLine (splitOn (CHR 0x0A) text)"

subsection \<open>Record graph builder\<close>

text \<open>Modelled from the spec: an Individual record (name, sex, birth and death events with
  their places).\<close>
record Indi =
  i_xref :: string
  i_name :: string
  i_sex :: string
  i_birthDate :: string
  i_birthPlace :: string
  i_deathDate :: string
  i_deathPlace :: string

text \<open>Modelled from the spec: a Family record (spouse pair, child list, marriage event).\<close>
record Fam =
  fa_xref :: string
  fa_husb :: "string option"
  fa_wife :: "string option"
  fa_chil :: "string list"
  fa_marrDate :: string
  fa_marrPlace :: string

record Graph =
  g_indis :: "Indi list"
  g_fams :: "Fam list"

datatype current = NoRecord | InIndi | InFam

text \<open>The builder while it reads: the records so far, the kind of the record being read and
  the level-1 tag last seen in it.\<close>
record Builder =
  b_indis :: "Indi list"
  b_fams :: "Fam list"
  b_current :: current
  b_event :: string

definition updLast :: "('a \<Rightarrow> 'a) \<Rightarrow> 'a list \<Rightarrow> 'a list" where
  "updLast f xs = (case rev xs of [] \<Rightarrow> [] | y # ys \<Rightarrow> rev (f y # ys))"

definition indiLine :: "Token \<Rightarrow> string \<Rightarrow> Indi \<Rightarrow> Indi" where
  "indiLine tok event i =
     (if tk_level tok = 1 then
        (if tk_tag tok = ''NAME'' then i\<lparr> i_name := tk_value tok \<rparr>
         else if tk_tag tok = ''SEX'' then i\<lparr> i_sex := tk_value tok \<rparr>
         else i)
      else if tk_level tok = 2 then
        (if event = ''BIRT'' \<and> tk_tag tok = ''DATE'' then i\<lparr> i_birthDate := tk_value tok \<rparr>
         else if event = ''BIRT'' \<and> tk_tag tok = ''PLAC'' then i\<lparr> i_birthPlace := tk_value tok \<rparr>
         else if event = ''DEAT'' \<and> tk_tag tok = ''DATE'' then i\<lparr> i_deathDate := tk_value tok \<rparr>
         else if event = ''DEAT'' \<and> tk_tag tok = ''PLAC'' then i\<lparr> i_deathPlace := tk_value tok \<rparr>
         else i)
      else i)"

definition famLine :: "Token \<Rightarrow> string \<Rightarrow> Fam \<Rightarrow> Fam" where
  "famLine tok event f =
     (if tk_level tok = 1 then
        (if tk_tag tok = ''HUSB'' then f\<lparr> fa_husb := Some (pointer (tk_value tok)) \<rparr>
         else if tk_tag tok = ''WIFE'' then f\<lparr> fa_wife := Some (pointer (tk_value tok)) \<rparr>
         else if tk_tag tok = ''CHIL'' then f\<lparr> fa_chil := fa_chil f @ [pointer (tk_value tok)] \<rparr>
         else f)
      else if tk_level tok = 2 then
        (if event = ''MARR'' \<and> tk_tag tok = ''DATE'' then f\<lparr> fa_marrDate := tk_value tok \<rparr>
         else if event = ''MARR'' \<and> tk_tag tok = ''PLAC'' then f\<lparr> fa_marrPlace := tk_value tok \<rparr>
         else f)
      else f)"

text \<open>A level-0 line with a cross-reference id and the tag \<^verbatim>\<open>INDI\<close> opens an Individual
  record.\<close>
definition opensIndividual :: "Token \<Rightarrow> bool" where
  "opensIndividual tok = (tk_level tok = 0 \<and> tk_xref tok \<noteq> None \<and> tk_tag tok = ''INDI'')"

text \<open>Modelled from the spec: tokens are grouped by cross-reference id into Individual and
  Family records; the lines after a level-0 line belong to the record it opens.\<close>
definition addToken :: "Builder \<Rightarrow> Token \<Rightarrow> Builder" where
  "addToken b tok =
     (if tk_level tok = 0 then
        (case tk_xref tok of
           None \<Rightarrow> b\<lparr> b_current := NoRecord, b_event := [] \<rparr>
         | Some x \<Rightarrow>
             if tk_tag tok = ''INDI'' then
               b\<lparr> b_indis := b_indis b @ [\<lparr> i_xref = x, i_name = [], i_sex = [],
                                            i_birthDate = [], i_birthPlace = [],
                                            i_deathDate = [], i_deathPlace = [] \<rparr>],
                  b_current := InIndi, b_event := [] \<rparr>
             else if tk_tag tok = ''FAM'' then
               b\<lparr> b_fams := b_fams b @ [\<lparr> fa_xref = x, fa_husb = None, fa_wife = None,
                                          fa_chil = [], fa_marrDate = [], fa_marrPlace = [] \<rparr>],
                  b_current := InFam, b_event := [] \<rparr>
             else b\<lparr> b_current := NoRecord, b_event := [] \<rparr>)
      else
        (let event = (if tk_level tok = 1 then tk_tag tok else b_event b) in
         case b_current b of
           NoRecord \<Rightarrow> b
         | InIndi \<Rightarrow> b\<lparr> b_indis := updLast (indiLine tok event) (b_indis b), b_event := event \<rparr>
         | InFam \<Rightarrow> b\<lparr> b_fams := updLast (famLine tok event) (b_fams b), b_event := event \<rparr>))"

definition emptyBuilder :: Builder where
  "emptyBuilder = \<lparr> b_indis = [], b_fams = [], b_current = NoRecord, b_event = [] \<rparr>"

definition buildGraph :: "Token list \<Rightarrow> Graph" where
  "buildGraph toks =
     (let b = foldl addToken emptyBuilder toks
      in \<lparr> g_indis = b_indis b, g_fams = b_fams b \<rparr>)"

text \<open>An id is known when the text has an Individual record for it.\<close>
definition known :: "Graph \<Rightarrow> string \<Rightarrow> bool" where
  "known g x = (x \<in> set (map i_xref (g_indis g)))"

definition couple :: "Fam \<Rightarrow> string list" where
  "couple f = (case fa_husb f of None \<Rightarrow> [] | Some h \<Rightarrow> [h])
              @ (case fa_wife f of None \<Rightarrow> [] | Some w \<Rightarrow> [w])"

text \<open>Modelled from the spec: the index from an individual to its owning families, as spouse
  and as child.\<close>
definition familiesAsSpouse :: "Graph \<Rightarrow> string \<Rightarrow> Fam list" where
  "familiesAsSpouse g x = filter (\<lambda>f. x \<in> set (couple f)) (g_fams g)"

definition familiesAsChild :: "Graph \<Rightarrow> string \<Rightarrow> Fam list" where
  "familiesAsChild g x = filter (\<lambda>f. x \<in> set (fa_chil f)) (g_fams g)"

text \<open>Modelled from the spec: the relationship id-sets come from the Family records; a link
  end with no Individual record is left out.\<close>
definition parentsOf :: "Graph \<Rightarrow> string \<Rightarrow> string list" where
  "parentsOf g x = remdups (filter (known g) (concat (map couple (familiesAsChild g x))))"

definition childrenOf :: "Graph \<Rightarrow> string \<Rightarrow> string list" where
  "childrenOf g x = remdups (filter (known g) (concat (map fa_chil (familiesAsSpouse g x))))"

definition spousesOf :: "Graph \<Rightarrow> string \<Rightarrow> string list" where
  "spousesOf g x =
     remdups (filter (\<lambda>y. known g y \<and> y \<noteq> x) (concat (map couple (familiesAsSpouse g x))))"

subsection \<open>Import engine\<close>

text \<open>Modelled from the spec: breadth-first expansion over parent, child and spouse edges.
  The generation counter grows only across a parent or child edge, a branch is not expanded
  beyond \<open>maxGenerations\<close>, spouse edges are free, and an individual reached twice is
  visited once.\<close>
function bfs :: "Graph \<Rightarrow> nat \<Rightarrow> (string \<times> nat) list \<Rightarrow> string list \<Rightarrow> string list" where
  "bfs g maxGenerations [] visited = visited"
| "bfs g maxGenerations ((x, generation) # queue) visited =
     (if x \<in> set visited \<or> \<not> known g x then bfs g maxGenerations queue visited
      else bfs g maxGenerations
             (queue @ map (\<lambda>s. (s, generation)) (spousesOf g x)
                    @ (if generation < maxGenerations
                       then map (\<lambda>r. (r, generation + 1)) (parentsOf g x @ childrenOf g x)
                       else []))
             (visited @ [x]))"
  by pat_completeness auto
termination
proof (relation "measures [\<lambda>(g, m, q, v). card (set (map i_xref (g_indis g)) - set v),
                           \<lambda>(g, m, q, v). length q]")
  show "wf (measures [\<lambda>(g, m, q, v). card (set (map i_xref (g_indis g)) - set v),
                      \<lambda>(g, m, q, v). length q])"
    by simp
next
  fix g :: Graph and maxGenerations :: nat and x generation queue and visited :: "string list"
  assume "x \<in> set visited \<or> \<not> known g x"
  show "((g, maxGenerations, queue, visited), (g, maxGenerations, (x, generation) # queue, visited))
        \<in> measures [\<lambda>(g, m, q, v). card (set (map i_xref (g_indis g)) - set v),
                     \<lambda>(g, m, q, v). length q]"
    by simp
next
  fix g :: Graph and maxGenerations :: nat and x generation queue and visited :: "string list"
  assume new: "\<not> (x \<in> set visited \<or> \<not> known g x)"
  let ?all = "set (map i_xref (g_indis g))"
  from new have "x \<in> ?all - set visited"
    by (simp add: known_def)
  then have "?all - set (visited @ [x]) \<subset> ?all - set visited"
    by auto
  then have "card (?all - set (visited @ [x])) < card (?all - set visited)"
    by (intro psubset_card_mono) simp_all
  then show "((g, maxGenerations,
               queue @ map (\<lambda>s. (s, generation)) (spousesOf g x)
                     @ (if generation < maxGenerations
                        then map (\<lambda>r. (r, generation + 1)) (parentsOf g x @ childrenOf g x)
                        else []),
               visited @ [x]),
              (g, maxGenerations, (x, generation) # queue, visited))
        \<in> measures [\<lambda>(g, m, q, v). card (set (map i_xref (g_indis g)) - set v),
                     \<lambda>(g, m, q, v). length q]"
    by simp
qed

text \<open>Modelled from the spec: gender is one of male, female, unknown.\<close>
definition genderOf :: "string \<Rightarrow> GenderCodeEnum" where
  "genderOf sex = (if sex = ''M'' then M else if sex = ''F'' then F else U)"

definition lifeEvent :: "string \<Rightarrow> string \<Rightarrow> string \<Rightarrow> string \<Rightarrow> string option \<Rightarrow> LifeEvent list" where
  "lifeEvent ident kind date place spouse =
     (if date = [] \<and> place = [] then []
      else [\<lparr> ev_id = ident, ev_type = kind, ev_date = date, ev_place = place,
               ev_spouseName = spouse, ev_media = [] \<rparr>])"

definition spouseName :: "Graph \<Rightarrow> string \<Rightarrow> Fam \<Rightarrow> string option" where
  "spouseName g x f =
     (case filter (\<lambda>y. y \<noteq> x) (couple f) of
        [] \<Rightarrow> None
      | y # ys \<Rightarrow> map_option i_name (find (\<lambda>i. i_xref i = y) (g_indis g)))"

text \<open>Modelled from the spec: a visited individual becomes a Person tagged with the owner,
  with its relationship id-sets; what the text does not give is left empty.\<close>
definition toPerson :: "Graph \<Rightarrow> string \<Rightarrow> Indi \<Rightarrow> Profile" where
  "toPerson g ownerId i =
     \<lparr> p_id = i_xref i,
       p_userId = ownerId,
       p_name = i_name i,
       p_gender = Some (genderOf (i_sex i)),
       p_birthYear = i_birthDate i,
       p_deathYear = (if i_deathDate i = [] then None else Some (i_deathDate i)),
       p_imageUrl = [],
       p_summary = [],
       p_historicalContext = None,
       p_isMemorial = False,
       p_parentIds = parentsOf g (i_xref i),
       p_childIds = childrenOf g (i_xref i),
       p_spouseIds = spousesOf g (i_xref i),
       p_timeline =
         lifeEvent (i_xref i @ ''-birth'') ''Birth'' (i_birthDate i) (i_birthPlace i) None
         @ concat (map (\<lambda>f. lifeEvent (i_xref i @ ''-'' @ fa_xref f) ''Marriage''
                                (fa_marrDate f) (fa_marrPlace f) (spouseName g (i_xref i) f))
                       (familiesAsSpouse g (i_xref i)))
         @ lifeEvent (i_xref i @ ''-death'') ''Death'' (i_deathDate i) (i_deathPlace i) None,
       p_memories = [],
       p_sources = [] \<rparr>"

text \<open>The Persons of the visited ids, in visiting order.\<close>
definition persons :: "Graph \<Rightarrow> string \<Rightarrow> string list \<Rightarrow> Profile list" where
  "persons g ownerId visited =
     List.map_filter
       (\<lambda>x. map_option (toPerson g ownerId) (find (\<lambda>i. i_xref i = x) (g_indis g))) visited"

text \<open>The result of an import, as \<^verbatim>\<open>useGedcomImport\<close> holds it in \<^verbatim>\<open>pendingImport\<close>.\<close>
record PendingImport =
  pi_importedProfiles :: "Profile list"
  pi_tree :: FamilyTree

text \<open>Modelled from the spec: \<^verbatim>\<open>import(text, ownerId, maxGenerations)\<close>. It fails with a
  \<^verbatim>\<open>ParseError\<close> when the text has no Individual record; otherwise it starts from the
  first Individual record and returns the visited individuals as Persons and a fresh Tree
  whose members are the visited ids and whose home person is unset. \<open>treeId\<close> and \<open>now\<close>
  are the id and the creation time the fresh Tree gets.\<close>
definition parseGedcom :: "string \<Rightarrow> string \<Rightarrow> nat \<Rightarrow> string \<Rightarrow> string \<Rightarrow> exn + PendingImport" where
  "parseGedcom text ownerId maxGenerations treeId now =
     (let g = buildGraph (tokenize text) in
      case g_indis g of
        [] \<Rightarrow> Inl (ParseError ''No individuals found in GEDCOM file'')
      | start # others \<Rightarrow>
          (let visited = bfs g maxGenerations [(i_xref start, 0)] [];
               people = persons g ownerId visited
           in Inr \<lparr> pi_importedProfiles = people,
                    pi_tree = \<lparr> t_id = treeId, t_userId = ownerId, t_name = [],
                                t_createdAt = now, t_homePersonId = [],
                                t_memberIds = visited \<rparr> \<rparr>))"

section \<open>hooks/useGedcomImport.ts\<close>

text \<open>Modelled from the spec: the views of the application (\<^verbatim>\<open>AppView\<close> of the missing
  \<^verbatim>\<open>types.ts\<close>); the hook names two of them.\<close>
datatype AppView = HOME | SELECT_HOME | OtherView string

text \<open>What the hook holds and what it reaches through its arguments: the pending import,
  the current view, the toasts shown and the console.\<close>
record ImportUI =
  ui_pendingImport :: "PendingImport option"
  ui_view :: AppView
  ui_toasts :: "string list"
  ui_console :: "string list"

text \<open>
  \<^verbatim>\<open>reader.onload\<close> of \<^verbatim>\<open>handleGedcomUpload\<close>: what happens once the file has been
  read. \<open>text\<close> is the result when it is a string; \<open>parse\<close> stands for \<^verbatim>\<open>parseGedcom\<close>,
  called with the text, the user's id and 4.
\<close>
definition onload ::
  "(string \<Rightarrow> string \<Rightarrow> nat \<Rightarrow> exn + PendingImport) \<Rightarrow> User \<Rightarrow> string option \<Rightarrow> ImportUI \<Rightarrow> ImportUI"
where
  "onload parse user text ui =
     (case text of
        None \<Rightarrow> ui
      | Some t \<Rightarrow>
          (case parse t (u_id user) 4 of
             Inr result \<Rightarrow>
               ui\<lparr> ui_pendingImport := Some result,
                   ui_view := SELECT_HOME,
                   ui_toasts := ui_toasts ui @
                     [''Loaded '' @ decimal (length (pi_importedProfiles result)) @ '' family members''] \<rparr>
           | Inl err \<Rightarrow>
               ui\<lparr> ui_console := ui_console ui @ [message err],
                   ui_toasts := ui_toasts ui @ [''Error parsing GEDCOM''] \<rparr>))"

text \<open>
  \<^verbatim>\<open>handleGedcomUpload\<close>: the authentication guard, the check that a file was chosen, then
  the read. \<open>file\<close> is the content of the chosen file as the reader will deliver it.
\<close>
definition handleGedcomUpload ::
  "(string \<Rightarrow> string \<Rightarrow> nat \<Rightarrow> exn + PendingImport) \<Rightarrow> User option \<Rightarrow> string option option
     \<Rightarrow> ImportUI \<Rightarrow> ImportUI"
where
  "handleGedcomUpload parse user file ui =
     (case assertAuthenticated user (Some ''GEDCOM upload'') of
        Inl err \<Rightarrow> ui\<lparr> ui_toasts := ui_toasts ui @ [''Please sign in to import a family archive.''] \<rparr>
      | Inr u \<Rightarrow>
          (case file of
             None \<Rightarrow> ui
           | Some text \<Rightarrow> onload parse u text ui))"

text \<open>\<^verbatim>\<open>updatedTree\<close> of \<^verbatim>\<open>chooseHome\<close>: the pending tree with the selected profile as
  home person and the archive's name.\<close>
definition updatedTree :: "PendingImport \<Rightarrow> Profile \<Rightarrow> FamilyTree" where
  "updatedTree pendingImport selected =
     (pi_tree pendingImport)
       \<lparr> t_homePersonId := p_id selected,
         t_name := ''The '' @ p_name selected @ '' Archive'' \<rparr>"

text \<open>\<^verbatim>\<open>chooseHome\<close>: the guard, then the imported profiles not yet present are appended,
  the tree gets its home person and its name and is put first, and the pending import is
  dropped. The writes are those the two augmented setters start. The objects of the pending
  import are those the parser built; their keys are taken in the order of the row mappers'
  objects.\<close>
definition chooseHome ::
  "User option \<Rightarrow> Profile \<Rightarrow> Store \<times> ImportUI \<Rightarrow> (Store \<times> ImportUI) \<times> push list"
where
  "chooseHome user selected sui =
     (case sui of (st, ui) \<Rightarrow>
       (case assertAuthenticated user (Some ''GEDCOM home selection'') of
          Inl err \<Rightarrow>
            ((st, ui\<lparr> ui_toasts := ui_toasts ui @ [''Please sign in to complete the import.''] \<rparr>), [])
        | Inr u \<Rightarrow>
            (case ui_pendingImport ui of
               None \<Rightarrow> ((st, ui), [])
             | Some pendingImport \<Rightarrow>
                 (let (st1, pushes1) =
                        setProfiles
                          (Updater (\<lambda>prev.
                             prev @ map profileObject
                                      (filter (\<lambda>p. JString (p_id p) \<notin> set (map (readProp ''id'') prev))
                                              (pi_importedProfiles pendingImport)))) st;
                      tree = updatedTree pendingImport selected;
                      (st2, pushes2) =
                        setFamilyTrees (Updater (\<lambda>prev. treeObject tree # prev)) st1
                  in ((st2\<lparr> st_selectedTreeId := Some (t_id tree),
                            st_activeProfileId := Some (p_id selected) \<rparr>,
                       ui\<lparr> ui_pendingImport := None,
                           ui_view := HOME,
                           ui_toasts := ui_toasts ui @ [''Archive successfully imported''] \<rparr>),
                      pushes1 @ pushes2)))))"

section \<open>Notions used to state the properties\<close>

text \<open>Splitting a list into consecutive pieces of \<open>n\<close> items, the last one possibly shorter:
  what "chunks of at most \<open>n\<close> items" means.\<close>
function chunksOf :: "nat \<Rightarrow> 'a list \<Rightarrow> 'a list list" where
  "chunksOf n xs = (if n = 0 \<or> xs = [] then [] else take n xs # chunksOf n (drop n xs))"
  by pat_completeness auto
termination
  by (relation "measure (\<lambda>(n, xs). length xs)") auto

text \<open>What the store answers when the requests \<open>cs\<close> are sent to it one after the other
  from state \<open>s\<close>, and the state it is left in.\<close>
fun answers :: "('s \<Rightarrow> 'a \<Rightarrow> 'r \<times> 's) \<Rightarrow> 's \<Rightarrow> 'a list \<Rightarrow> 'r list" where
  "answers f s [] = []"
| "answers f s (c # cs) = fst (f s c) # answers f (snd (f s c)) cs"

fun states :: "('s \<Rightarrow> 'a \<Rightarrow> 'r \<times> 's) \<Rightarrow> 's \<Rightarrow> 'a list \<Rightarrow> 's" where
  "states f s [] = s"
| "states f s (c # cs) = states f (snd (f s c)) cs"

text \<open>The chunks of rows of the profiles from position \<open>i\<close> on.\<close>
definition chunkRows :: "Profile list \<Rightarrow> string option \<Rightarrow> nat \<Rightarrow> ProfileInsert list list" where
  "chunkRows profiles treeId i =
     chunksOf CHUNK (drop i (map (\<lambda>p. profileToInsert p treeId) profiles))"

definition profileChunks :: "Profile list \<Rightarrow> string option \<Rightarrow> ProfileInsert list list" where
  "profileChunks profiles treeId = chunkRows profiles treeId 0"

definition chunkAnswers ::
  "'s Supabase \<Rightarrow> 's \<Rightarrow> Profile list \<Rightarrow> string option \<Rightarrow> ProfileRow list PgResult list"
where
  "chunkAnswers sb s profiles treeId =
     answers (sb_upsertProfiles sb) s (profileChunks profiles treeId)"

text \<open>What the JSON text of a value retains of it: a property whose value is undefined is
  left out, an array element that is undefined becomes null; the order of the keys stays.\<close>
fun jsonValue :: "js \<Rightarrow> js" where
  "jsonValue (JArray xs) = JArray (map (\<lambda>x. if x = JUndefined then JNull else jsonValue x) xs)"
| "jsonValue (JObject kvs) =
     JObject (map (\<lambda>(k, v). (k, jsonValue v)) (filter (\<lambda>(k, v). v \<noteq> JUndefined) kvs))"
| "jsonValue v = v"

text \<open>A value with no undefined in it.\<close>
fun plain :: "js \<Rightarrow> bool" where
  "plain JUndefined = False"
| "plain (JArray xs) = list_all plain xs"
| "plain (JObject kvs) = list_all (\<lambda>(k, v). plain v) kvs"
| "plain v = True"

text \<open>Deep equality of two values: arrays are equal item by item, objects when they have the
  same keys with deep-equal values, in whatever order the keys are.\<close>
fun deepEqual :: "js \<Rightarrow> js \<Rightarrow> bool"
  and itemsEqual :: "js list \<Rightarrow> js list \<Rightarrow> bool"
  and propsEqual :: "(string \<times> js) list \<Rightarrow> js \<Rightarrow> bool"
where
  "deepEqual (JArray xs) b = (case b of JArray ys \<Rightarrow> itemsEqual xs ys | _ \<Rightarrow> False)"
| "deepEqual (JObject kvs) b =
     (case b of
        JObject lws \<Rightarrow> set (map fst kvs) = set (map fst lws) \<and> propsEqual kvs b
      | _ \<Rightarrow> False)"
| "deepEqual JUndefined b = (b = JUndefined)"
| "deepEqual JNull b = (b = JNull)"
| "deepEqual (JBool x) b = (b = JBool x)"
| "deepEqual (JString s) b = (b = JString s)"
| "itemsEqual [] ys = (ys = [])"
| "itemsEqual (x # xs) ys = (case ys of [] \<Rightarrow> False | y # ys' \<Rightarrow> deepEqual x y \<and> itemsEqual xs ys')"
| "propsEqual [] b = True"
| "propsEqual ((k, v) # kvs) b = (deepEqual v (readProp k b) \<and> propsEqual kvs b)"

text \<open>\<^verbatim>\<open>const { k, ...rest } = v; return { ...rest, k }\<close>: the same properties with the
  same values, the key \<open>k\<close> last.\<close>
definition moveLast :: "string \<Rightarrow> js \<Rightarrow> js" where
  "moveLast k v =
     (case v of
        JObject kvs \<Rightarrow> JObject (filter (\<lambda>(k', x). k' \<noteq> k) kvs @ filter (\<lambda>(k', x). k' = k) kvs)
      | _ \<Rightarrow> v)"

section \<open>Example values\<close>

text \<open>A store that accepts every request; its state counts the requests it has served.\<close>
definition okStore :: "nat Supabase" where
  "okStore =
     \<lparr> sb_upsertProfiles = (\<lambda>n rows.
          (\<lparr> pg_data = Some (map (\<lambda>r. storedProfileRow r ''t0'' ''t0'') rows), pg_error = None \<rparr>, Suc n)),
       sb_insertTree = (\<lambda>n row. (Inr (TreeInsert.extend row (TreeRow.fields ''t0'' ''t0'')), Suc n)),
       sb_updateTree = (\<lambda>n ident upd. (None, Suc n)),
       sb_insertPost = (\<lambda>n row. (Inr (PostInsert.extend row (PostRow.fields ''t0'' ''t0'')), Suc n)),
       sb_insertPostPeople = (\<lambda>n rows. (None, Suc n)),
       sb_delete = (\<lambda>n table ident. (None, Suc n)),
       sb_selectTrees = (\<lambda>n q. (\<lparr> pg_data = Some [], pg_error = None \<rparr>, Suc n)),
       sb_selectProfiles = (\<lambda>n q. (\<lparr> pg_data = Some [], pg_error = None \<rparr>, Suc n)),
       sb_selectPosts = (\<lambda>n q. (\<lparr> pg_data = Some [], pg_error = None \<rparr>, Suc n)),
       sb_storageUpload = (\<lambda>n path contentType. (None, Suc n)),
       sb_insertMedia = (\<lambda>n row.
          (Inr (MediaInsert.extend row (MediaRow.fields ''m1'' ''t0'' ''t0'')), Suc n)),
       sb_insertMediaPeople = (\<lambda>n rows. (None, Suc n)),
       sb_storageRemove = (\<lambda>n paths. Suc n),
       sb_createSignedUrl = (\<lambda>n path expiry. ((Some (''https://signed/'' @ path), None), Suc n)) \<rparr>"

text \<open>A store whose second upsert call fails.\<close>
definition secondUpsertFails :: "nat Supabase" where
  "secondUpsertFails = okStore
     \<lparr> sb_upsertProfiles := (\<lambda>n rows.
          (if n = 1 then \<lparr> pg_data = None, pg_error = Some ''boom'' \<rparr>
           else \<lparr> pg_data = Some [], pg_error = None \<rparr>, Suc n)) \<rparr>"

definition ada :: Profile where
  "ada = \<lparr> p_id = ''p1'', p_userId = ''u1'', p_name = ''Ada'', p_gender = Some F,
       p_birthYear = ''1815'', p_deathYear = Some ''1852'', p_imageUrl = [], p_summary = [],
       p_historicalContext = None, p_isMemorial = True, p_parentIds = [], p_childIds = [],
       p_spouseIds = [], p_timeline = [], p_memories = [], p_sources = [] \<rparr>"


text \<open>A living person: no gender recorded, no death year, nothing else filled in.\<close>
definition bob :: Profile where
  "bob = \<lparr> p_id = ''p2'', p_userId = ''u1'', p_name = ''Bob'', p_gender = None,
       p_birthYear = [], p_deathYear = None, p_imageUrl = [], p_summary = [],
       p_historicalContext = None, p_isMemorial = False, p_parentIds = [], p_childIds = [],
       p_spouseIds = [], p_timeline = [], p_memories = [], p_sources = [] \<rparr>"

text \<open>A profile whose death year is the empty string.\<close>
definition eve :: Profile where
  "eve = \<lparr> p_id = ''p3'', p_userId = ''u1'', p_name = ''Eve'', p_gender = Some F,
       p_birthYear = ''1900'', p_deathYear = Some [], p_imageUrl = [], p_summary = [],
       p_historicalContext = None, p_isMemorial = False, p_parentIds = [], p_childIds = [],
       p_spouseIds = [], p_timeline = [], p_memories = [], p_sources = [] \<rparr>"

text \<open>A store that saves everything but cannot sign a URL.\<close>
definition signingFails :: "nat Supabase" where
  "signingFails = okStore
     \<lparr> sb_createSignedUrl := (\<lambda>n path expiry. ((None, Some ''expired''), Suc n)) \<rparr>"

text \<open>A store whose join-table inserts fail.\<close>
definition taggingFails :: "nat Supabase" where
  "taggingFails = okStore
     \<lparr> sb_insertPostPeople := (\<lambda>n rows. (Some ''fk violation'', Suc n)),
       sb_insertMediaPeople := (\<lambda>n rows. (Some ''fk violation'', Suc n)) \<rparr>"

text \<open>A store whose deletes and post inserts fail.\<close>
definition writesFail :: "nat Supabase" where
  "writesFail = okStore
     \<lparr> sb_insertPost := (\<lambda>n row. (Inl ''boom'', Suc n)),
       sb_delete := (\<lambda>n table ident. (Some ''boom'', Suc n)) \<rparr>"

definition photoUpload :: UploadMediaOptions where
  "photoUpload =
     \<lparr> o_userId = ''u1'',
       o_file = \<lparr> f_name = ''my photo.png'', f_type = ''image/png'', f_size = 1024 \<rparr>,
       o_taggedProfileIds = Some [''p1''] \<rparr>"

definition hello :: CirclePost where
  "hello = \<lparr> c_id = ''c1'', c_userId = ''u1'', c_createdAt = ''2024-01-01'',
             c_authorLabel = ''Ada'', c_body = ''Hello'', c_attachments = [],
             c_taggedProfileIds = [''p1'', ''p2''] \<rparr>"

definition older :: CirclePost where
  "older = \<lparr> c_id = ''c0'', c_userId = ''u1'', c_createdAt = ''2023-12-31'',
             c_authorLabel = ''Ada'', c_body = ''Earlier'', c_attachments = [],
             c_taggedProfileIds = [] \<rparr>"

definition user1 :: User where
  "user1 = \<lparr> u_id = ''u1'', u_email = ''test@example.com'', u_name = ''Test'', u_createdAt = [] \<rparr>"

definition emptyStore :: Store where
  "emptyStore = \<lparr> st_profiles = [], st_familyTrees = [], st_circlePosts = [],
                  st_activeProfileId = None, st_selectedTreeId = None, st_treeViewId = None,
                  st_isLoading = False, st_error = None, st_prevProfilesRef = [] \<rparr>"

text \<open>The rows the accepting store returns for the example post and upload.\<close>
definition helloRow :: PostRow where
  "helloRow = PostInsert.extend (postToInsert hello) (PostRow.fields ''t0'' ''t0'')"

definition photoRow :: MediaRow where
  "photoRow = MediaInsert.extend (mediaInsert photoUpload 1700000000000) (MediaRow.fields ''m1'' ''t0'' ''t0'')"


text \<open>A cache holding three profiles, and an edit of one field of one of them.\<close>
definition family :: Store where
  "family = emptyStore\<lparr> st_profiles := map profileObject [ada, bob, eve] \<rparr>"

definition robert :: Profile where
  "robert = bob\<lparr> p_name := ''Robert'' \<rparr>"

text \<open>An event that settles a push.\<close>
fun pushEvent :: "event \<Rightarrow> bool" where
  "pushEvent (PushSettles k out) = True"
| "pushEvent (LoadSettles k out) = False"

text \<open>The ids of the posts in the cache.\<close>
definition postIds :: "World \<Rightarrow> string set" where
  "postIds w = c_id ` set (st_circlePosts (w_store w))"


text \<open>A cache holding one post with nothing in flight, and a cache with three pushes and a
  load in flight.\<close>
definition circle :: World where
  "circle = \<lparr> w_store = emptyStore\<lparr> st_circlePosts := [older] \<rparr>,
              w_console = [], w_pushes = [], w_loads = [] \<rparr>"




definition unlines :: "string list \<Rightarrow> string" where
  "unlines ls = concat (map (\<lambda>l. l @ [CHR 0x0A]) ls)"

text \<open>A GEDCOM text with three individuals (Ann, her son Ben, Ben's wife Cy), a malformed
  line, and a family that names a husband \<^verbatim>\<open>@I9@\<close> and a child \<^verbatim>\<open>@I7@\<close> for whom
  there is no Individual record.\<close>
definition sampleGedcom :: string where
  "sampleGedcom = unlines
     [''0 HEAD'',
      ''0 @I1@ INDI'', ''1 NAME Ann /Lee/'', ''1 SEX F'', ''1 BIRT'', ''2 DATE 1900'',
      ''0 @I2@ INDI'', ''1 NAME Ben /Lee/'', ''1 SEX M'',
      ''0 @I3@ INDI'', ''1 NAME Cy /Roe/'',
      ''not a gedcom line'',
      ''0 @F1@ FAM'', ''1 WIFE @I1@'', ''1 HUSB @I9@'', ''1 CHIL @I2@'', ''1 CHIL @I7@'',
      ''0 @F2@ FAM'', ''1 HUSB @I2@'', ''1 WIFE @I3@'',
      ''0 TRLR'']"

text \<open>A GEDCOM text with a family and no individual.\<close>
definition headerOnly :: string where
  "headerOnly = unlines [''0 HEAD'', ''1 SOUR test'', ''0 @F1@ FAM'', ''1 HUSB @I1@'', ''0 TRLR'']"

text \<open>The invariant of a Tree: its home person, if set, is one of its members. An unset home
  person is the empty string.\<close>
definition treeInvariant :: "FamilyTree \<Rightarrow> bool" where
  "treeInvariant t = (t_homePersonId t = [] \<or> t_homePersonId t \<in> set (t_memberIds t))"

definition idle :: ImportUI where
  "idle = \<lparr> ui_pendingImport = None, ui_view = OtherView ''import'', ui_toasts = [],
             ui_console = [] \<rparr>"

text \<open>What the import of \<open>sampleGedcom\<close> for owner \<^verbatim>\<open>u1\<close> returns.\<close>
definition ann :: Profile where
  "ann = \<lparr> p_id = ''I1'', p_userId = ''u1'', p_name = ''Ann /Lee/'', p_gender = Some F,
       p_birthYear = ''1900'', p_deathYear = None, p_imageUrl = [], p_summary = [],
       p_historicalContext = None, p_isMemorial = False, p_parentIds = [],
       p_childIds = [''I2''], p_spouseIds = [],
       p_timeline = [\<lparr> ev_id = ''I1-birth'', ev_type = ''Birth'', ev_date = ''1900'',
                       ev_place = [], ev_spouseName = None, ev_media = [] \<rparr>],
       p_memories = [], p_sources = [] \<rparr>"

definition ben :: Profile where
  "ben = \<lparr> p_id = ''I2'', p_userId = ''u1'', p_name = ''Ben /Lee/'', p_gender = Some M,
       p_birthYear = [], p_deathYear = None, p_imageUrl = [], p_summary = [],
       p_historicalContext = None, p_isMemorial = False, p_parentIds = [''I1''],
       p_childIds = [], p_spouseIds = [''I3''], p_timeline = [], p_memories = [],
       p_sources = [] \<rparr>"

definition cy :: Profile where
  "cy = \<lparr> p_id = ''I3'', p_userId = ''u1'', p_name = ''Cy /Roe/'', p_gender = Some U,
       p_birthYear = [], p_deathYear = None, p_imageUrl = [], p_summary = [],
       p_historicalContext = None, p_isMemorial = False, p_parentIds = [],
       p_childIds = [], p_spouseIds = [''I2''], p_timeline = [], p_memories = [],
       p_sources = [] \<rparr>"

definition sampleImport :: PendingImport where
  "sampleImport =
     \<lparr> pi_importedProfiles = [ann, ben, cy],
       pi_tree = \<lparr> t_id = ''t1'', t_userId = ''u1'', t_name = [], t_createdAt = ''now'',
                   t_homePersonId = [], t_memberIds = [''I1'', ''I2'', ''I3''] \<rparr> \<rparr>"

text \<open>The import hook after the sample has been loaded, waiting for the home person.\<close>
definition selecting :: ImportUI where
  "selecting = \<lparr> ui_pendingImport = Some sampleImport, ui_view = SELECT_HOME,
                  ui_toasts = [''Loaded 3 family members''], ui_console = [] \<rparr>"

section \<open>Mappers: a profile through the database and back\<close>

declare decimal.simps [simp del]

lemma nullish_orNull: "nullish (orNull s) [] = s"
  by (simp add: nullish_def orNull_def)

lemma optOrNull_keeps: "s \<noteq> Some [] \<Longrightarrow> optOrNull s = s"
  by (cases s) (simp_all add: optOrNull_def orNull_def)

lemmas row_simps =
  rowToProfile_def storedProfileRow_def profileToInsert_def ProfileInsert.defs ProfileRow.defs

lemma roundtrip_profile:
  "p_deathYear p \<noteq> Some [] \<Longrightarrow>
   rowToProfile (storedProfileRow (profileToInsert p treeId) created updated) = p"
  by (simp add: row_simps nullish_orNull optOrNull_keeps)

text \<open>
  C10, as stated, fails: \<^verbatim>\<open>p.deathYear || null\<close> sends the empty string to null, and
  \<^verbatim>\<open>row.death_year ?? undefined\<close> brings null back as undefined. A profile whose death
  year is the empty string does not come back as it was.
\<close>
theorem c10_roundtrip_counterexample:
  "rowToProfile (storedProfileRow (profileToInsert eve None) ''2024-01-01'' ''2024-01-01'') \<noteq> eve"
  by (simp add: eve_def row_simps optOrNull_def orNull_def nullish_def)

text \<open>
  C10, amended: for every profile whose death year is not the empty string, whatever the
  tree id and whatever timestamps the database adds, mapping the profile to a row with
  \<^verbatim>\<open>profileToInsert\<close> and the row back with \<^verbatim>\<open>rowToProfile\<close> yields the profile
  again. On the way an empty birth year, image URL or summary is stored as null, and an
  undefined gender or death year is stored as null.
\<close>
theorem c10_roundtrip:
  "(p_deathYear p \<noteq> Some [] \<longrightarrow>
      rowToProfile (storedProfileRow (profileToInsert p treeId) created updated) = p)
   \<and> (p_birthYear p = [] \<longrightarrow> pr_birth_year (profileToInsert p treeId) = None)
   \<and> (p_imageUrl p = [] \<longrightarrow> pr_image_url (profileToInsert p treeId) = None)
   \<and> (p_summary p = [] \<longrightarrow> pr_summary (profileToInsert p treeId) = None)
   \<and> (p_gender p = None \<longrightarrow> pr_gender (profileToInsert p treeId) = None)
   \<and> (p_deathYear p = None \<longrightarrow> pr_death_year (profileToInsert p treeId) = None)"
proof (intro conjI impI)
  assume "p_deathYear p \<noteq> Some []"
  then show "rowToProfile (storedProfileRow (profileToInsert p treeId) created updated) = p"
    by (rule roundtrip_profile)
qed (simp_all add: profileToInsert_def orNull_def optOrNull_def)

theorem c10_roundtrip_witness:
  "p_deathYear bob \<noteq> Some [] \<and> p_birthYear bob = [] \<and> p_imageUrl bob = [] \<and> p_summary bob = []
   \<and> p_gender bob = None \<and> p_deathYear bob = None
   \<and> rowToProfile (storedProfileRow (profileToInsert bob (Some ''tree1'')) ''2024-01-01'' ''2024-01-02'') = bob
   \<and> pr_birth_year (profileToInsert bob (Some ''tree1'')) = None
   \<and> pr_image_url (profileToInsert bob (Some ''tree1'')) = None
   \<and> pr_summary (profileToInsert bob (Some ''tree1'')) = None
   \<and> pr_gender (profileToInsert bob (Some ''tree1'')) = None
   \<and> pr_death_year (profileToInsert bob (Some ''tree1'')) = None"
  using c10_roundtrip [of bob "Some ''tree1''" "''2024-01-01''" "''2024-01-02''"]
  by (simp add: bob_def)

section \<open>Bulk upsert in chunks\<close>

declare chunksOf.simps [simp del]
declare upsertProfiles_loop.simps [simp del]

lemma chunksOf_Nil [simp]: "chunksOf n [] = []"
  by (simp add: chunksOf.simps)

lemma chunksOf_step:
  "0 < n \<Longrightarrow> xs \<noteq> [] \<Longrightarrow> chunksOf n xs = take n xs # chunksOf n (drop n xs)"
  by (subst chunksOf.simps) simp

lemma concat_chunksOf: "0 < n \<Longrightarrow> concat (chunksOf n xs) = xs"
proof (induction n xs rule: chunksOf.induct)
  case (1 n xs)
  show ?case
  proof (cases "xs = []")
    case True
    then show ?thesis by simp
  next
    case False
    with 1 show ?thesis by (simp add: chunksOf_step)
  qed
qed

lemma chunksOf_bounds: "c \<in> set (chunksOf n xs) \<Longrightarrow> c \<noteq> [] \<and> length c \<le> n"
proof (induction n xs rule: chunksOf.induct)
  case (1 n xs)
  show ?case
  proof (cases "n = 0 \<or> xs = []")
    case True
    with 1(2) show ?thesis by (auto simp: chunksOf.simps)
  next
    case False
    then have st: "chunksOf n xs = take n xs # chunksOf n (drop n xs)"
      by (simp add: chunksOf_step)
    from 1(2) st consider "c = take n xs" | "c \<in> set (chunksOf n (drop n xs))"
      by auto
    then show ?thesis
    proof cases
      case 1
      with False show ?thesis by auto
    next
      case 2
      with 1(1) False show ?thesis by blast
    qed
  qed
qed

lemma chunksOf_nth:
  "k < length (chunksOf n xs) \<Longrightarrow> chunksOf n xs ! k = take n (drop (k * n) xs)"
proof (induction n xs arbitrary: k rule: chunksOf.induct)
  case (1 n xs)
  show ?case
  proof (cases "n = 0 \<or> xs = []")
    case True
    with 1(2) show ?thesis by (auto simp: chunksOf.simps)
  next
    case False
    then have st: "chunksOf n xs = take n xs # chunksOf n (drop n xs)"
      by (simp add: chunksOf_step)
    show ?thesis
    proof (cases k)
      case 0
      then show ?thesis by (simp add: st)
    next
      case (Suc j)
      with 1(2) st have "j < length (chunksOf n (drop n xs))"
        by simp
      with 1(1) False have "chunksOf n (drop n xs) ! j = take n (drop (j * n) (drop n xs))"
        by blast
      then show ?thesis by (simp add: st Suc add.commute)
    qed
  qed
qed

lemma length_chunksOf: "0 < n \<Longrightarrow> length (chunksOf n xs) = (length xs + n - 1) div n"
proof (induction n xs rule: chunksOf.induct)
  case (1 n xs)
  show ?case
  proof (cases "xs = []")
    case True
    with 1(2) show ?thesis by simp
  next
    case False
    then have pos: "0 < length xs" by simp
    have same: "(length xs - n + n - 1) div n = (length xs - 1) div n"
    proof (cases "n \<le> length xs")
      case True
      then show ?thesis by simp
    next
      case False
      with pos 1(2) have "length xs - n + n - 1 < n" and "length xs - 1 < n"
        by simp_all
      then show ?thesis by simp
    qed
    have "length (chunksOf n xs) = Suc ((length xs - n + n - 1) div n)"
      using 1 False by (simp add: chunksOf_step)
    also have "\<dots> = (length xs - 1) div n + 1"
      using same by simp
    also have "\<dots> = (length xs - 1 + n) div n"
      using 1(2) div_add_self2[of n "length xs - 1"] by simp
    also have "length xs - 1 + n = length xs + n - 1"
      using False by (cases xs) simp_all
    finally show ?thesis .
  qed
qed

lemma length_answers [simp]: "length (answers f s cs) = length cs"
  by (induction cs arbitrary: s) simp_all

lemma chunkRows_done: "\<not> i < length profiles \<Longrightarrow> chunkRows profiles treeId i = []"
  by (simp add: chunkRows_def)

lemma chunkRows_step:
  "i < length profiles \<Longrightarrow>
   chunkRows profiles treeId i =
     map (\<lambda>p. profileToInsert p treeId) (take CHUNK (drop i profiles))
       # chunkRows profiles treeId (i + CHUNK)"
  by (simp add: chunkRows_def chunksOf_step CHUNK_def take_map drop_map add.commute)

text \<open>When the store accepts every chunk, the loop sends them all and returns every row
  that came back.\<close>
lemma upsertProfiles_loop_ok:
  "\<forall>r \<in> set (answers (sb_upsertProfiles sb) s (chunkRows profiles treeId i)). pg_error r = None \<Longrightarrow>
   upsertProfiles_loop sb profiles treeId i results (s, tr) =
     (Inr (results @ concat (map (\<lambda>r. map rowToProfile (nullish (pg_data r) []))
                                 (answers (sb_upsertProfiles sb) s (chunkRows profiles treeId i)))),
      (states (sb_upsertProfiles sb) s (chunkRows profiles treeId i),
       tr @ map UpsertProfilesReq (chunkRows profiles treeId i)))"
proof (induction sb profiles treeId i results "(s, tr)" arbitrary: s tr
       rule: upsertProfiles_loop.induct)
  case (1 sb profiles treeId i results)
  show ?case
  proof (cases "i < length profiles")
    case False
    then show ?thesis
      by (subst upsertProfiles_loop.simps) (simp add: chunkRows_done)
  next
    case True
    let ?rows = "map (\<lambda>p. profileToInsert p treeId) (take CHUNK (drop i profiles))"
    obtain res s' where call: "sb_upsertProfiles sb s ?rows = (res, s')"
      by (cases "sb_upsertProfiles sb s ?rows")
    have cs: "chunkRows profiles treeId i = ?rows # chunkRows profiles treeId (i + CHUNK)"
      using True by (rule chunkRows_step)
    from 1(2) cs call have ok: "pg_error res = None"
      and rest: "\<forall>r \<in> set (answers (sb_upsertProfiles sb) s'
                   (chunkRows profiles treeId (i + CHUNK))). pg_error r = None"
      by simp_all
    have "upsertProfiles_loop sb profiles treeId (i + CHUNK)
            (results @ map rowToProfile (nullish (pg_data res) []))
            (s', tr @ [UpsertProfilesReq ?rows]) =
          (Inr ((results @ map rowToProfile (nullish (pg_data res) [])) @
                 concat (map (\<lambda>r. map rowToProfile (nullish (pg_data r) []))
                   (answers (sb_upsertProfiles sb) s' (chunkRows profiles treeId (i + CHUNK))))),
           (states (sb_upsertProfiles sb) s' (chunkRows profiles treeId (i + CHUNK)),
            (tr @ [UpsertProfilesReq ?rows])
              @ map UpsertProfilesReq (chunkRows profiles treeId (i + CHUNK))))"
      using "1"(1)[OF True refl refl _ refl _ ok rest] call by simp
    then show ?thesis
      using True call ok
      by (subst upsertProfiles_loop.simps) (simp add: cs)
  qed
qed

text \<open>When chunk \<open>k\<close> is the first one the store rejects, the loop stops there: the error names
  the offset of that chunk and nothing after it is sent.\<close>
lemma upsertProfiles_loop_fail:
  "k < length (chunkRows profiles treeId i) \<Longrightarrow>
   \<forall>j < k. pg_error (answers (sb_upsertProfiles sb) s (chunkRows profiles treeId i) ! j) = None \<Longrightarrow>
   pg_error (answers (sb_upsertProfiles sb) s (chunkRows profiles treeId i) ! k) = Some msg \<Longrightarrow>
   upsertProfiles_loop sb profiles treeId i results (s, tr) =
     (Inl (Error (''upsertProfiles (chunk '' @ decimal (i + k * CHUNK) @ ''): '' @ msg)),
      (states (sb_upsertProfiles sb) s (take (Suc k) (chunkRows profiles treeId i)),
       tr @ map UpsertProfilesReq (take (Suc k) (chunkRows profiles treeId i))))"
proof (induction k arbitrary: i results s tr)
  case 0
  then have lt: "i < length profiles"
    using chunkRows_done by fastforce
  let ?rows = "map (\<lambda>p. profileToInsert p treeId) (take CHUNK (drop i profiles))"
  have cs: "chunkRows profiles treeId i = ?rows # chunkRows profiles treeId (i + CHUNK)"
    using lt by (rule chunkRows_step)
  obtain res s' where call: "sb_upsertProfiles sb s ?rows = (res, s')"
    by (cases "sb_upsertProfiles sb s ?rows")
  from 0(3) cs call have "pg_error res = Some msg"
    by simp
  then show ?case
    using lt call by (subst upsertProfiles_loop.simps) (simp add: cs)
next
  case (Suc k)
  then have lt: "i < length profiles"
    using chunkRows_done by fastforce
  let ?rows = "map (\<lambda>p. profileToInsert p treeId) (take CHUNK (drop i profiles))"
  let ?rest = "chunkRows profiles treeId (i + CHUNK)"
  have cs: "chunkRows profiles treeId i = ?rows # ?rest"
    using lt by (rule chunkRows_step)
  obtain res s' where call: "sb_upsertProfiles sb s ?rows = (res, s')"
    by (cases "sb_upsertProfiles sb s ?rows")
  from Suc.prems(2)[rule_format, of 0] cs call have ok: "pg_error res = None"
    by simp
  have a: "k < length ?rest"
    using Suc.prems(1) cs by simp
  have b: "\<forall>j<k. pg_error (answers (sb_upsertProfiles sb) s' ?rest ! j) = None"
  proof (intro allI impI)
    fix j
    assume "j < k"
    then have "Suc j < Suc k" by simp
    from Suc.prems(2)[rule_format, OF this] cs call
    show "pg_error (answers (sb_upsertProfiles sb) s' ?rest ! j) = None"
      by simp
  qed
  have c: "pg_error (answers (sb_upsertProfiles sb) s' ?rest ! k) = Some msg"
    using Suc.prems(3) cs call by simp
  note IH = Suc.IH[OF a b c, of "results @ map rowToProfile (nullish (pg_data res) [])"
                                "tr @ [UpsertProfilesReq ?rows]"]
  show ?case
    using lt call ok IH
    by (subst upsertProfiles_loop.simps) (simp add: cs add.assoc add.commute[of CHUNK])
qed

text \<open>Either every answer is a success or there is a first failure.\<close>
lemma first_failure:
  "(\<forall>r \<in> set rs. pg_error r = None)
   \<or> (\<exists>k msg. k < length rs \<and> (\<forall>j<k. pg_error (rs ! j) = None) \<and> pg_error (rs ! k) = Some msg)"
proof (induction rs)
  case Nil
  then show ?case by simp
next
  case (Cons r rs)
  show ?case
  proof (cases "pg_error r")
    case (Some msg)
    then have "0 < length (r # rs) \<and> (\<forall>j<0. pg_error ((r # rs) ! j) = None)
               \<and> pg_error ((r # rs) ! 0) = Some msg"
      by simp
    then show ?thesis by blast
  next
    case None
    from Cons.IH show ?thesis
    proof
      assume "\<forall>r \<in> set rs. pg_error r = None"
      with None show ?thesis by simp
    next
      assume "\<exists>k msg. k < length rs \<and> (\<forall>j<k. pg_error (rs ! j) = None) \<and> pg_error (rs ! k) = Some msg"
      then obtain k msg where k: "k < length rs" "\<forall>j<k. pg_error (rs ! j) = None"
        "pg_error (rs ! k) = Some msg"
        by blast
      have "\<forall>j<Suc k. pg_error ((r # rs) ! j) = None"
      proof (intro allI impI)
        fix j
        assume "j < Suc k"
        with k(2) None show "pg_error ((r # rs) ! j) = None"
          by (cases j) simp_all
      qed
      with k have "Suc k < length (r # rs) \<and> (\<forall>j<Suc k. pg_error ((r # rs) ! j) = None)
                   \<and> pg_error ((r # rs) ! Suc k) = Some msg"
        by simp
      then show ?thesis by blast
    qed
  qed
qed

lemma three_chunks_of_450:
  "length profiles = 450 \<Longrightarrow> map length (profileChunks profiles treeId) = [200, 200, 50]"
proof -
  assume len: "length profiles = 450"
  let ?rows = "map (\<lambda>p. profileToInsert p treeId) profiles"
  have l0: "length ?rows = 450" using len by simp
  have n0: "?rows \<noteq> []" using l0 by auto
  have l1: "length (drop 200 ?rows) = 250" using l0 by simp
  have n1: "drop 200 ?rows \<noteq> []" using l1 by auto
  have l2: "length (drop 200 (drop 200 ?rows)) = 50" using l1 by simp
  have n2: "drop 200 (drop 200 ?rows) \<noteq> []" using l2 by auto
  have e3: "drop 200 (drop 200 (drop 200 ?rows)) = []" using l2 by simp
  have "profileChunks profiles treeId =
          [take 200 ?rows, take 200 (drop 200 ?rows), take 200 (drop 200 (drop 200 ?rows))]"
    unfolding profileChunks_def chunkRows_def CHUNK_def drop_0
    by (subst chunksOf_step[OF _ n0], simp, subst chunksOf_step[OF _ n1], simp,
        subst chunksOf_step[OF _ n2], simp, simp only: e3 chunksOf_Nil)
  then show ?thesis using l0 l1 l2 by simp
qed

lemma upsertProfiles_all_ok:
  assumes "\<forall>r \<in> set (chunkAnswers sb s profiles treeId). pg_error r = None"
  shows "upsertProfiles sb profiles treeId (s, tr) =
     (Inr (concat (map (\<lambda>r. map rowToProfile (nullish (pg_data r) []))
                       (chunkAnswers sb s profiles treeId))),
      (states (sb_upsertProfiles sb) s (profileChunks profiles treeId),
       tr @ map UpsertProfilesReq (profileChunks profiles treeId)))"
  using upsertProfiles_loop_ok[of sb s profiles treeId 0 "[]" tr] assms
  by (simp add: upsertProfiles_def chunkAnswers_def profileChunks_def)

lemma upsertProfiles_first_failure:
  assumes "k < length (profileChunks profiles treeId)"
    and "\<forall>j<k. pg_error (chunkAnswers sb s profiles treeId ! j) = None"
    and "pg_error (chunkAnswers sb s profiles treeId ! k) = Some msg"
  shows "upsertProfiles sb profiles treeId (s, tr) =
     (Inl (Error (''upsertProfiles (chunk '' @ decimal (CHUNK * k) @ ''): '' @ msg)),
      (states (sb_upsertProfiles sb) s (take (Suc k) (profileChunks profiles treeId)),
       tr @ map UpsertProfilesReq (take (Suc k) (profileChunks profiles treeId))))"
  using upsertProfiles_loop_fail[of k profiles treeId 0 sb s msg "[]" tr] assms
  by (simp add: upsertProfiles_def chunkAnswers_def profileChunks_def mult.commute)

lemma upsertProfiles_sends_prefix:
  "\<exists>n \<le> length (profileChunks profiles treeId).
     snd (snd (upsertProfiles sb profiles treeId (s, tr))) =
       tr @ map UpsertProfilesReq (take n (profileChunks profiles treeId))"
proof -
  let ?cs = "profileChunks profiles treeId"
  let ?as = "chunkAnswers sb s profiles treeId"
  have len: "length ?as = length ?cs"
    by (simp add: chunkAnswers_def)
  from first_failure[of ?as] show ?thesis
  proof
    assume "\<forall>r \<in> set ?as. pg_error r = None"
    then have "snd (snd (upsertProfiles sb profiles treeId (s, tr))) =
                 tr @ map UpsertProfilesReq (take (length ?cs) ?cs)"
      by (simp add: upsertProfiles_all_ok)
    then show ?thesis by blast
  next
    assume "\<exists>k msg. k < length ?as \<and> (\<forall>j<k. pg_error (?as ! j) = None)
              \<and> pg_error (?as ! k) = Some msg"
    then obtain k msg where k: "k < length ?cs" "\<forall>j<k. pg_error (?as ! j) = None"
      "pg_error (?as ! k) = Some msg"
      using len by auto
    then have "snd (snd (upsertProfiles sb profiles treeId (s, tr))) =
                 tr @ map UpsertProfilesReq (take (Suc k) ?cs)"
      by (simp add: upsertProfiles_first_failure)
    moreover have "Suc k \<le> length ?cs"
      using k(1) by simp
    ultimately show ?thesis by blast
  qed
qed

text \<open>The number printed in a message can be read back.\<close>
lemma digitValue_digit: "d < 10 \<Longrightarrow> digitValue (digit d) = d"
proof -
  assume "d < 10"
  then have "d \<in> {0, 1, 2, 3, 4, 5, 6, 7, 8, 9}"
    by auto
  then show ?thesis
    by (auto simp: digit_def digitValue_def)
qed

lemma number_snoc: "number (s @ [c]) = 10 * number s + digitValue c"
  by (simp add: number_def)

lemma number_decimal: "number (decimal n) = n"
proof (induction n rule: decimal.induct)
  case (1 n)
  show ?case
  proof (cases "n < 10")
    case True
    then show ?thesis
      by (subst decimal.simps) (simp add: number_def digitValue_digit)
  next
    case False
    with 1 have "number (decimal (n div 10)) = n div 10"
      by simp
    with False show ?thesis
      by (subst decimal.simps) (simp add: number_snoc digitValue_digit)
  qed
qed

text \<open>
  C1. The rows of the profiles are cut into consecutive chunks of at most 200 (none empty,
  \<open>\<lceil>n / 200\<rceil>\<close> of them, chunk \<open>k\<close> holding the items from position \<open>200 k\<close> on), and the requests
  \<^verbatim>\<open>upsertProfiles\<close> sends are always the first few of these chunks, one request per chunk, in
  order. When the store accepts every chunk, every chunk is sent and the rows that came back
  are returned; for 450 profiles these are exactly three requests carrying 200, 200 and 50
  rows. When chunk \<open>k\<close> is the first one the store rejects, the chunks \<open>0..k\<close> have been sent and
  nothing after them, and the operation throws an error whose message names the failing
  chunk by the position \<open>200 k\<close> of its first item, the value of the loop variable; the
  index \<open>k\<close> is that number divided by 200.
\<close>
theorem c1_upsertProfiles_chunked:
  "CHUNK = 200
   \<and> concat (profileChunks profiles treeId) = map (\<lambda>p. profileToInsert p treeId) profiles
   \<and> (\<forall>c \<in> set (profileChunks profiles treeId). c \<noteq> [] \<and> length c \<le> 200)
   \<and> length (profileChunks profiles treeId) = (length profiles + 199) div 200
   \<and> (\<forall>k < length (profileChunks profiles treeId).
        profileChunks profiles treeId ! k =
          take 200 (drop (200 * k) (map (\<lambda>p. profileToInsert p treeId) profiles)))
   \<and> (\<exists>n \<le> length (profileChunks profiles treeId).
        snd (snd (upsertProfiles sb profiles treeId (s, tr))) =
          tr @ map UpsertProfilesReq (take n (profileChunks profiles treeId)))
   \<and> ((\<forall>r \<in> set (chunkAnswers sb s profiles treeId). pg_error r = None) \<longrightarrow>
        upsertProfiles sb profiles treeId (s, tr) =
          (Inr (concat (map (\<lambda>r. map rowToProfile (nullish (pg_data r) []))
                            (chunkAnswers sb s profiles treeId))),
           (states (sb_upsertProfiles sb) s (profileChunks profiles treeId),
            tr @ map UpsertProfilesReq (profileChunks profiles treeId))))
   \<and> (length profiles = 450 \<longrightarrow>
        map length (profileChunks profiles treeId) = [200, 200, 50])
   \<and> (\<forall>k msg. k < length (profileChunks profiles treeId)
        \<and> (\<forall>j<k. pg_error (chunkAnswers sb s profiles treeId ! j) = None)
        \<and> pg_error (chunkAnswers sb s profiles treeId ! k) = Some msg \<longrightarrow>
        upsertProfiles sb profiles treeId (s, tr) =
          (Inl (Error (''upsertProfiles (chunk '' @ decimal (200 * k) @ ''): '' @ msg)),
           (states (sb_upsertProfiles sb) s (take (Suc k) (profileChunks profiles treeId)),
            tr @ map UpsertProfilesReq (take (Suc k) (profileChunks profiles treeId)))))
   \<and> (\<forall>k. number (decimal (200 * k)) div 200 = k)"
proof (intro conjI)
  show "\<forall>k. number (decimal (200 * k)) div 200 = k"
    by (simp only: number_decimal) simp
  show "CHUNK = 200"
    by (simp add: CHUNK_def)
  show "concat (profileChunks profiles treeId) = map (\<lambda>p. profileToInsert p treeId) profiles"
    by (simp add: profileChunks_def chunkRows_def CHUNK_def concat_chunksOf)
  show "\<forall>c \<in> set (profileChunks profiles treeId). c \<noteq> [] \<and> length c \<le> 200"
    using chunksOf_bounds[of _ 200] by (auto simp: profileChunks_def chunkRows_def CHUNK_def)
  show "length (profileChunks profiles treeId) = (length profiles + 199) div 200"
    by (simp add: profileChunks_def chunkRows_def CHUNK_def length_chunksOf)
  show "\<forall>k < length (profileChunks profiles treeId).
          profileChunks profiles treeId ! k =
            take 200 (drop (200 * k) (map (\<lambda>p. profileToInsert p treeId) profiles))"
    by (simp add: profileChunks_def chunkRows_def CHUNK_def chunksOf_nth mult.commute)
  show "\<exists>n \<le> length (profileChunks profiles treeId).
          snd (snd (upsertProfiles sb profiles treeId (s, tr))) =
            tr @ map UpsertProfilesReq (take n (profileChunks profiles treeId))"
    by (rule upsertProfiles_sends_prefix)
  show "(\<forall>r \<in> set (chunkAnswers sb s profiles treeId). pg_error r = None) \<longrightarrow>
        upsertProfiles sb profiles treeId (s, tr) =
          (Inr (concat (map (\<lambda>r. map rowToProfile (nullish (pg_data r) []))
                            (chunkAnswers sb s profiles treeId))),
           (states (sb_upsertProfiles sb) s (profileChunks profiles treeId),
            tr @ map UpsertProfilesReq (profileChunks profiles treeId)))"
    by (intro impI) (rule upsertProfiles_all_ok)
  show "length profiles = 450 \<longrightarrow>
        map length (profileChunks profiles treeId) = [200, 200, 50]"
    by (intro impI) (rule three_chunks_of_450)
  show "\<forall>k msg. k < length (profileChunks profiles treeId)
        \<and> (\<forall>j<k. pg_error (chunkAnswers sb s profiles treeId ! j) = None)
        \<and> pg_error (chunkAnswers sb s profiles treeId ! k) = Some msg \<longrightarrow>
        upsertProfiles sb profiles treeId (s, tr) =
          (Inl (Error (''upsertProfiles (chunk '' @ decimal (200 * k) @ ''): '' @ msg)),
           (states (sb_upsertProfiles sb) s (take (Suc k) (profileChunks profiles treeId)),
            tr @ map UpsertProfilesReq (take (Suc k) (profileChunks profiles treeId))))"
    using upsertProfiles_first_failure[of _ profiles treeId sb s _ tr]
    by (simp add: CHUNK_def)
qed

lemma ada_chunks:
  "profileChunks (replicate 450 ada) None =
     [replicate 200 (profileToInsert ada None), replicate 200 (profileToInsert ada None),
      replicate 50 (profileToInsert ada None)]"
  by (simp add: profileChunks_def chunkRows_def CHUNK_def chunksOf.simps)

lemma ada_back: "rowToProfile (storedProfileRow (profileToInsert ada None) ''t0'' ''t0'') = ada"
  by (simp add: ada_def roundtrip_profile)

theorem c1_upsertProfiles_chunked_witness:
  "length (replicate 450 ada) = 450
   \<and> map length (profileChunks (replicate 450 ada) None) = [200, 200, 50]
   \<and> map pg_error (chunkAnswers okStore 0 (replicate 450 ada) None) = [None, None, None]
   \<and> upsertProfiles okStore (replicate 450 ada) None (0, []) =
       (Inr (replicate 450 ada),
        (3, [UpsertProfilesReq (replicate 200 (profileToInsert ada None)),
             UpsertProfilesReq (replicate 200 (profileToInsert ada None)),
             UpsertProfilesReq (replicate 50 (profileToInsert ada None))]))
   \<and> (1::nat) < length (profileChunks (replicate 450 ada) None)
   \<and> pg_error (chunkAnswers secondUpsertFails 0 (replicate 450 ada) None ! 0) = None
   \<and> pg_error (chunkAnswers secondUpsertFails 0 (replicate 450 ada) None ! 1) = Some ''boom''
   \<and> upsertProfiles secondUpsertFails (replicate 450 ada) None (0, []) =
       (Inl (Error ''upsertProfiles (chunk 200): boom''),
        (2, [UpsertProfilesReq (replicate 200 (profileToInsert ada None)),
             UpsertProfilesReq (replicate 200 (profileToInsert ada None))]))"
proof -
  let ?ps = "replicate 450 ada"
  let ?r = "profileToInsert ada None"
  have okAns: "chunkAnswers okStore 0 ?ps None =
      [\<lparr> pg_data = Some (replicate 200 (storedProfileRow ?r ''t0'' ''t0'')), pg_error = None \<rparr>,
       \<lparr> pg_data = Some (replicate 200 (storedProfileRow ?r ''t0'' ''t0'')), pg_error = None \<rparr>,
       \<lparr> pg_data = Some (replicate 50 (storedProfileRow ?r ''t0'' ''t0'')), pg_error = None \<rparr>]"
    by (simp add: chunkAnswers_def ada_chunks okStore_def)
  have badAns: "chunkAnswers secondUpsertFails 0 ?ps None =
      [\<lparr> pg_data = Some [], pg_error = None \<rparr>, \<lparr> pg_data = None, pg_error = Some ''boom'' \<rparr>,
       \<lparr> pg_data = Some [], pg_error = None \<rparr>]"
    by (simp add: chunkAnswers_def ada_chunks secondUpsertFails_def okStore_def)
  have okState: "states (sb_upsertProfiles okStore) 0 (profileChunks ?ps None) = 3"
    by (simp add: ada_chunks okStore_def)
  have badState: "states (sb_upsertProfiles secondUpsertFails) 0 (take (Suc 1) (profileChunks ?ps None)) = 2"
    by (simp add: ada_chunks secondUpsertFails_def okStore_def)
  note ok = c1_upsertProfiles_chunked[of ?ps None okStore 0 "[]"]
  note bad = c1_upsertProfiles_chunked[of ?ps None secondUpsertFails 0 "[]"]
  have "length ?ps = 450 \<longrightarrow> map length (profileChunks ?ps None) = [200, 200, 50]"
    using ok by (elim conjE) assumption
  then have "map length (profileChunks ?ps None) = [200, 200, 50]"
    by simp
  moreover have "upsertProfiles okStore ?ps None (0, []) =
       (Inr (replicate 450 ada),
        (3, [UpsertProfilesReq (replicate 200 ?r), UpsertProfilesReq (replicate 200 ?r),
             UpsertProfilesReq (replicate 50 ?r)]))"
  proof -
    have allOk: "\<forall>r \<in> set (chunkAnswers okStore 0 ?ps None). pg_error r = None"
      by (simp add: okAns)
    have "(\<forall>r \<in> set (chunkAnswers okStore 0 ?ps None). pg_error r = None) \<longrightarrow>
          upsertProfiles okStore ?ps None (0, []) =
          (Inr (concat (map (\<lambda>r. map rowToProfile (nullish (pg_data r) []))
                            (chunkAnswers okStore 0 ?ps None))),
           (states (sb_upsertProfiles okStore) 0 (profileChunks ?ps None),
            [] @ map UpsertProfilesReq (profileChunks ?ps None)))"
      using ok by (elim conjE) assumption
    with allOk have run: "upsertProfiles okStore ?ps None (0, []) =
          (Inr (concat (map (\<lambda>r. map rowToProfile (nullish (pg_data r) []))
                            (chunkAnswers okStore 0 ?ps None))),
           (states (sb_upsertProfiles okStore) 0 (profileChunks ?ps None),
            [] @ map UpsertProfilesReq (profileChunks ?ps None)))"
      by blast
    show ?thesis
      unfolding run okState
      by (simp add: okAns ada_chunks nullish_def ada_back replicate_add[symmetric])
  qed
  moreover have "upsertProfiles secondUpsertFails ?ps None (0, []) =
       (Inl (Error ''upsertProfiles (chunk 200): boom''),
        (2, [UpsertProfilesReq (replicate 200 ?r), UpsertProfilesReq (replicate 200 ?r)]))"
  proof -
    have pre: "1 < length (profileChunks ?ps None)
        \<and> (\<forall>j<1. pg_error (chunkAnswers secondUpsertFails 0 ?ps None ! j) = None)
        \<and> pg_error (chunkAnswers secondUpsertFails 0 ?ps None ! 1) = Some ''boom''"
      by (simp add: badAns ada_chunks)
    have "\<forall>k msg. k < length (profileChunks ?ps None)
        \<and> (\<forall>j<k. pg_error (chunkAnswers secondUpsertFails 0 ?ps None ! j) = None)
        \<and> pg_error (chunkAnswers secondUpsertFails 0 ?ps None ! k) = Some msg \<longrightarrow>
        upsertProfiles secondUpsertFails ?ps None (0, []) =
          (Inl (Error (''upsertProfiles (chunk '' @ decimal (200 * k) @ ''): '' @ msg)),
           (states (sb_upsertProfiles secondUpsertFails) 0 (take (Suc k) (profileChunks ?ps None)),
            [] @ map UpsertProfilesReq (take (Suc k) (profileChunks ?ps None))))"
      using bad by (elim conjE) assumption
    with pre have run: "upsertProfiles secondUpsertFails ?ps None (0, []) =
          (Inl (Error (''upsertProfiles (chunk '' @ decimal (200 * 1) @ ''): '' @ ''boom'')),
           (states (sb_upsertProfiles secondUpsertFails) 0 (take (Suc 1) (profileChunks ?ps None)),
            [] @ map UpsertProfilesReq (take (Suc 1) (profileChunks ?ps None))))"
      by blast
    show ?thesis
      unfolding run badState
      by (simp add: ada_chunks digit_def decimal.simps)
  qed
  ultimately show ?thesis
    by (simp add: okAns badAns ada_chunks)
qed

section \<open>Ordering requested by the list calls\<close>

text \<open>
  C9. Whatever the store and whatever the tree id, \<^verbatim>\<open>listProfiles\<close> sends one query, on
  \<^verbatim>\<open>profiles\<close>, ordered by \<^verbatim>\<open>name\<close> ascending; \<^verbatim>\<open>listTrees\<close> sends one query, on
  \<^verbatim>\<open>trees\<close>, ordered by \<^verbatim>\<open>created_at\<close> descending; \<^verbatim>\<open>listPosts\<close> sends one query, on
  \<^verbatim>\<open>posts\<close>, ordered by \<^verbatim>\<open>created_at\<close> descending. In \<open>q_order\<close> the flag is
  \<^verbatim>\<open>ascending\<close>.
\<close>
theorem c9_list_ordering:
  "(\<exists>q. snd (snd (listProfiles sb treeId (s, tr))) = tr @ [SelectReq q]
        \<and> q_table q = ''profiles'' \<and> q_order q = Some (''name'', True))
   \<and> (\<exists>q. snd (snd (listTrees sb (s, tr))) = tr @ [SelectReq q]
        \<and> q_table q = ''trees'' \<and> q_order q = Some (''created_at'', False))
   \<and> (\<exists>q. snd (snd (listPosts sb (s, tr))) = tr @ [SelectReq q]
        \<and> q_table q = ''posts'' \<and> q_order q = Some (''created_at'', False))"
proof (intro conjI)
  show "\<exists>q. snd (snd (listProfiles sb treeId (s, tr))) = tr @ [SelectReq q]
        \<and> q_table q = ''profiles'' \<and> q_order q = Some (''name'', True)"
    by (cases treeId)
       (auto simp: listProfiles_def Let_def split: prod.splits option.splits)
  show "\<exists>q. snd (snd (listTrees sb (s, tr))) = tr @ [SelectReq q]
        \<and> q_table q = ''trees'' \<and> q_order q = Some (''created_at'', False)"
    by (auto simp: listTrees_def Let_def split: prod.splits option.splits)
  show "\<exists>q. snd (snd (listPosts sb (s, tr))) = tr @ [SelectReq q]
        \<and> q_table q = ''posts'' \<and> q_order q = Some (''created_at'', False)"
    by (auto simp: listPosts_def Let_def split: prod.splits option.splits)
qed

section \<open>Join-relation writes are best effort\<close>

lemma createPost_insert_fails:
  "sb_insertPost sb s (postToInsert post) = (Inl msg, s1) \<Longrightarrow>
   createPost sb post (s, tr) =
     (Inl (Error (''createPost: '' @ msg)), [], (s1, tr @ [InsertPostReq (postToInsert post)]))"
  by (simp add: createPost_def)

lemma createPost_saved:
  "sb_insertPost sb s (postToInsert post) = (Inr data, s1) \<Longrightarrow>
   fst (createPost sb post (s, tr)) = Inr (rowToPost data (c_taggedProfileIds post))"
  by (simp add: createPost_def Let_def split: prod.splits option.splits)

lemma createPost_throws_iff:
  "isl (fst (createPost sb post (s, tr))) = isl (fst (sb_insertPost sb s (postToInsert post)))"
  by (cases "sb_insertPost sb s (postToInsert post)")
     (auto simp: createPost_def Let_def split: prod.splits option.splits sum.splits)

lemma createPost_mentions_fail:
  "c_taggedProfileIds post \<noteq> [] \<Longrightarrow>
   sb_insertPost sb s (postToInsert post) = (Inr data, s1) \<Longrightarrow>
   sb_insertPostPeople sb s1 (mentionRows post data) = (Some msg, s2) \<Longrightarrow>
   createPost sb post (s, tr) =
     (Inr (rowToPost data (c_taggedProfileIds post)),
      [''createPost mentions insert failed: '' @ msg],
      (s2, tr @ [InsertPostReq (postToInsert post), InsertPostPeopleReq (mentionRows post data)]))"
  by (simp add: createPost_def)

lemma upload_fails:
  "sb_storageUpload sb s (storagePath opts now) (contentType opts) = (Some msg, s1) \<Longrightarrow>
   uploadMedia sb opts now (s, tr) =
     (Inl (Error (''uploadMedia storage: '' @ msg)), [],
      (s1, tr @ [StorageUploadReq BUCKET (storagePath opts now) (contentType opts) False]))"
  by (simp add: uploadMedia_def)

lemma media_insert_fails:
  "sb_storageUpload sb s (storagePath opts now) (contentType opts) = (None, s1) \<Longrightarrow>
   sb_insertMedia sb s1 (mediaInsert opts now) = (Inl msg, s2) \<Longrightarrow>
   uploadMedia sb opts now (s, tr) =
     (Inl (Error (''uploadMedia insert: '' @ msg)), [],
      (sb_storageRemove sb s2 [storagePath opts now],
       tr @ [StorageUploadReq BUCKET (storagePath opts now) (contentType opts) False,
             InsertMediaReq (mediaInsert opts now),
             StorageRemoveReq BUCKET [storagePath opts now]]))"
  by (simp add: uploadMedia_def)

lemma tagProfiles_result:
  "nullish (o_taggedProfileIds opts) [] \<noteq> [] \<Longrightarrow>
   sb_insertMediaPeople sb s2 (mediaTags opts row) = (tagError, s3) \<Longrightarrow>
   tagProfiles sb opts row (s2, tr) =
     ((case tagError of None \<Rightarrow> [] | Some msg \<Rightarrow> [''uploadMedia tagging failed: '' @ msg]),
      (s3, tr @ [InsertMediaPeopleReq (mediaTags opts row)]))"
  by (simp add: tagProfiles_def split: option.splits)

lemma getSignedUrl_result:
  "sb_createSignedUrl sb s3 path SIGNED_URL_EXPIRY_SECONDS = ((url, err), s4) \<Longrightarrow>
   getSignedUrl sb path (s3, tr) =
     ((if err \<noteq> None \<or> url = None \<or> url = Some []
       then Inl (Error (''getSignedUrl: '' @ nullish err ''no URL returned''))
       else Inr (nullish url [])),
      (s4, tr @ [CreateSignedUrlReq BUCKET path SIGNED_URL_EXPIRY_SECONDS]))"
  by (auto simp: getSignedUrl_def nullish_def split: option.splits)

lemma upload_tagged:
  "nullish (o_taggedProfileIds opts) [] \<noteq> [] \<Longrightarrow>
   sb_storageUpload sb s (storagePath opts now) (contentType opts) = (None, s1) \<Longrightarrow>
   sb_insertMedia sb s1 (mediaInsert opts now) = (Inr row, s2) \<Longrightarrow>
   sb_insertMediaPeople sb s2 (mediaTags opts row) = (tagError, s3) \<Longrightarrow>
   sb_createSignedUrl sb s3 (storagePath opts now) SIGNED_URL_EXPIRY_SECONDS = ((url, err), s4) \<Longrightarrow>
   uploadMedia sb opts now (s, tr) =
     ((if err \<noteq> None \<or> url = None \<or> url = Some []
       then Inl (Error (''getSignedUrl: '' @ nullish err ''no URL returned''))
       else Inr (rowToMediaItem row (nullish url []))),
      (case tagError of None \<Rightarrow> [] | Some msg \<Rightarrow> [''uploadMedia tagging failed: '' @ msg]),
      (s4, tr @ [StorageUploadReq BUCKET (storagePath opts now) (contentType opts) False,
                 InsertMediaReq (mediaInsert opts now),
                 InsertMediaPeopleReq (mediaTags opts row),
                 CreateSignedUrlReq BUCKET (storagePath opts now) SIGNED_URL_EXPIRY_SECONDS]))"
  by (simp add: uploadMedia_def tagProfiles_result getSignedUrl_result)

text \<open>
  C6, as stated, fails for media: \<^verbatim>\<open>uploadMedia\<close> also throws when the metadata insert
  succeeded. Here the file is stored, the row is inserted and the tag is written, and the
  operation throws because no signed URL could be made.
\<close>
theorem c6_uploadMedia_counterexample:
  "uploadMedia signingFails photoUpload 1700000000000 (0, []) =
     (Inl (Error ''getSignedUrl: expired''), [],
      (4, [StorageUploadReq ''media'' ''u1/1700000000000-my_photo.png'' ''image/png'' False,
           InsertMediaReq (mediaInsert photoUpload 1700000000000),
           InsertMediaPeopleReq [\<lparr> mp_media_id = ''m1'', mp_profile_id = ''p1'', mp_user_id = ''u1'' \<rparr>],
           CreateSignedUrlReq ''media'' ''u1/1700000000000-my_photo.png'' 3600]))
   \<and> \<not> isl (fst (sb_insertMedia signingFails 1 (mediaInsert photoUpload 1700000000000)))"
  by (simp add: uploadMedia_def tagProfiles_def getSignedUrl_def signingFails_def okStore_def
        photoUpload_def storagePath_def contentType_def mediaInsert_def mediaTags_def
        sanitise_def orElse_def orNull_def nullish_def inferKind_def digit_def decimal.simps BUCKET_def
        SIGNED_URL_EXPIRY_SECONDS_def MediaInsert.defs MediaRow.defs)

text \<open>
  C6, amended. A failure of the join-relation insert is printed and not propagated, for a
  post and for a media item: it changes neither what the operation returns nor whether it
  throws. \<^verbatim>\<open>createPost\<close> throws exactly when the insert into \<^verbatim>\<open>posts\<close> fails, and
  otherwise returns the saved post. \<^verbatim>\<open>uploadMedia\<close> throws when the storage upload
  fails, when the insert into \<^verbatim>\<open>media\<close> fails, or when no signed URL can be made, and
  otherwise returns the saved item.
\<close>
theorem c6_join_failure_not_propagated:
  "isl (fst (createPost sb post (s, tr))) = isl (fst (sb_insertPost sb s (postToInsert post)))
   \<and> (\<forall>data s1. sb_insertPost sb s (postToInsert post) = (Inr data, s1) \<longrightarrow>
        fst (createPost sb post (s, tr)) = Inr (rowToPost data (c_taggedProfileIds post)))
   \<and> (\<forall>data s1 msg s2.
        c_taggedProfileIds post \<noteq> []
        \<and> sb_insertPost sb s (postToInsert post) = (Inr data, s1)
        \<and> sb_insertPostPeople sb s1 (mentionRows post data) = (Some msg, s2) \<longrightarrow>
        createPost sb post (s, tr) =
          (Inr (rowToPost data (c_taggedProfileIds post)),
           [''createPost mentions insert failed: '' @ msg],
           (s2, tr @ [InsertPostReq (postToInsert post),
                      InsertPostPeopleReq (mentionRows post data)])))
   \<and> (\<forall>msg s1.
        sb_storageUpload sb s (storagePath opts now) (contentType opts) = (Some msg, s1) \<longrightarrow>
        uploadMedia sb opts now (s, tr) =
          (Inl (Error (''uploadMedia storage: '' @ msg)), [],
           (s1, tr @ [StorageUploadReq BUCKET (storagePath opts now) (contentType opts) False])))
   \<and> (\<forall>msg s1 s2.
        sb_storageUpload sb s (storagePath opts now) (contentType opts) = (None, s1)
        \<and> sb_insertMedia sb s1 (mediaInsert opts now) = (Inl msg, s2) \<longrightarrow>
        uploadMedia sb opts now (s, tr) =
          (Inl (Error (''uploadMedia insert: '' @ msg)), [],
           (sb_storageRemove sb s2 [storagePath opts now],
            tr @ [StorageUploadReq BUCKET (storagePath opts now) (contentType opts) False,
                  InsertMediaReq (mediaInsert opts now),
                  StorageRemoveReq BUCKET [storagePath opts now]])))
   \<and> (\<forall>row s1 s2 tagError s3 url err s4.
        nullish (o_taggedProfileIds opts) [] \<noteq> []
        \<and> sb_storageUpload sb s (storagePath opts now) (contentType opts) = (None, s1)
        \<and> sb_insertMedia sb s1 (mediaInsert opts now) = (Inr row, s2)
        \<and> sb_insertMediaPeople sb s2 (mediaTags opts row) = (tagError, s3)
        \<and> sb_createSignedUrl sb s3 (storagePath opts now) SIGNED_URL_EXPIRY_SECONDS
            = ((url, err), s4) \<longrightarrow>
        uploadMedia sb opts now (s, tr) =
          ((if err \<noteq> None \<or> url = None \<or> url = Some []
            then Inl (Error (''getSignedUrl: '' @ nullish err ''no URL returned''))
            else Inr (rowToMediaItem row (nullish url []))),
           (case tagError of
              None \<Rightarrow> []
            | Some msg \<Rightarrow> [''uploadMedia tagging failed: '' @ msg]),
           (s4, tr @ [StorageUploadReq BUCKET (storagePath opts now) (contentType opts) False,
                      InsertMediaReq (mediaInsert opts now),
                      InsertMediaPeopleReq (mediaTags opts row),
                      CreateSignedUrlReq BUCKET (storagePath opts now) SIGNED_URL_EXPIRY_SECONDS])))"
proof (intro conjI allI impI)
  show "isl (fst (createPost sb post (s, tr))) = isl (fst (sb_insertPost sb s (postToInsert post)))"
    by (rule createPost_throws_iff)
qed (simp_all add: createPost_saved createPost_mentions_fail upload_fails media_insert_fails
       upload_tagged del: isl_def)


theorem c6_join_failure_not_propagated_witness:
  "c_taggedProfileIds hello \<noteq> []
   \<and> sb_insertPost taggingFails 0 (postToInsert hello) = (Inr helloRow, 1)
   \<and> sb_insertPostPeople taggingFails 1 (mentionRows hello helloRow) = (Some ''fk violation'', 2)
   \<and> createPost taggingFails hello (0, []) =
       (Inr (rowToPost helloRow [''p1'', ''p2'']),
        [''createPost mentions insert failed: fk violation''],
        (2, [InsertPostReq (postToInsert hello), InsertPostPeopleReq (mentionRows hello helloRow)]))
   \<and> nullish (o_taggedProfileIds photoUpload) [] \<noteq> []
   \<and> sb_storageUpload taggingFails 0 (storagePath photoUpload 1700000000000) (contentType photoUpload)
       = (None, 1)
   \<and> sb_insertMedia taggingFails 1 (mediaInsert photoUpload 1700000000000) = (Inr photoRow, 2)
   \<and> sb_insertMediaPeople taggingFails 2 (mediaTags photoUpload photoRow) = (Some ''fk violation'', 3)
   \<and> sb_createSignedUrl taggingFails 3 (storagePath photoUpload 1700000000000) SIGNED_URL_EXPIRY_SECONDS
       = ((Some ''https://signed/u1/1700000000000-my_photo.png'', None), 4)
   \<and> fst (uploadMedia taggingFails photoUpload 1700000000000 (0, [])) =
       Inr (rowToMediaItem photoRow ''https://signed/u1/1700000000000-my_photo.png'')
   \<and> fst (snd (uploadMedia taggingFails photoUpload 1700000000000 (0, []))) =
       [''uploadMedia tagging failed: fk violation'']"
proof -
  note T = c6_join_failure_not_propagated[of taggingFails hello 0 "[]" photoUpload 1700000000000]
  have p1: "c_taggedProfileIds hello \<noteq> []"
    by (simp add: hello_def)
  have p2: "sb_insertPost taggingFails 0 (postToInsert hello) = (Inr helloRow, 1)"
    by (simp add: taggingFails_def okStore_def helloRow_def)
  have p3: "sb_insertPostPeople taggingFails 1 (mentionRows hello helloRow) = (Some ''fk violation'', 2)"
    by (simp add: taggingFails_def okStore_def)
  have m1: "nullish (o_taggedProfileIds photoUpload) [] \<noteq> []"
    by (simp add: photoUpload_def nullish_def)
  have m2: "sb_storageUpload taggingFails 0 (storagePath photoUpload 1700000000000)
              (contentType photoUpload) = (None, 1)"
    by (simp add: taggingFails_def okStore_def)
  have m3: "sb_insertMedia taggingFails 1 (mediaInsert photoUpload 1700000000000) = (Inr photoRow, 2)"
    by (simp add: taggingFails_def okStore_def photoRow_def)
  have m4: "sb_insertMediaPeople taggingFails 2 (mediaTags photoUpload photoRow) = (Some ''fk violation'', 3)"
    by (simp add: taggingFails_def okStore_def)
  have path: "storagePath photoUpload 1700000000000 = ''u1/1700000000000-my_photo.png''"
    by (simp add: storagePath_def photoUpload_def sanitise_def digit_def decimal.simps)
  have m5: "sb_createSignedUrl taggingFails 3 (storagePath photoUpload 1700000000000)
              SIGNED_URL_EXPIRY_SECONDS
            = ((Some ''https://signed/u1/1700000000000-my_photo.png'', None), 4)"
    by (simp add: taggingFails_def okStore_def path)
  from T p1 p2 p3 have post: "createPost taggingFails hello (0, []) =
       (Inr (rowToPost helloRow (c_taggedProfileIds hello)),
        [''createPost mentions insert failed: '' @ ''fk violation''],
        (2, [] @ [InsertPostReq (postToInsert hello), InsertPostPeopleReq (mentionRows hello helloRow)]))"
    by blast
  from T m1 m2 m3 m4 m5 have media: "uploadMedia taggingFails photoUpload 1700000000000 (0, []) =
       ((if (None :: string option) \<noteq> None
            \<or> Some ''https://signed/u1/1700000000000-my_photo.png'' = None
            \<or> Some ''https://signed/u1/1700000000000-my_photo.png'' = Some []
         then Inl (Error (''getSignedUrl: '' @ nullish None ''no URL returned''))
         else Inr (rowToMediaItem photoRow
                     (nullish (Some ''https://signed/u1/1700000000000-my_photo.png'') []))),
        (case Some ''fk violation'' of
           None \<Rightarrow> []
         | Some msg \<Rightarrow> [''uploadMedia tagging failed: '' @ msg]),
        (4, [] @ [StorageUploadReq BUCKET (storagePath photoUpload 1700000000000)
                    (contentType photoUpload) False,
                  InsertMediaReq (mediaInsert photoUpload 1700000000000),
                  InsertMediaPeopleReq (mediaTags photoUpload photoRow),
                  CreateSignedUrlReq BUCKET (storagePath photoUpload 1700000000000)
                    SIGNED_URL_EXPIRY_SECONDS]))"
    by blast
  show ?thesis
    unfolding post media
    using p1 p2 p3 m1 m2 m3 m4 m5 by (simp add: nullish_def hello_def)
qed
section \<open>The JSON text of a value determines what it retains\<close>

lemma hexDigit_inj_bounded:
  "\<forall>a \<in> set [0..<16]. \<forall>b \<in> set [0..<16]. hexDigit a = hexDigit b \<longrightarrow> a = b"
  by code_simp

lemma hexDigit_inj: "a < 16 \<Longrightarrow> b < 16 \<Longrightarrow> hexDigit a = hexDigit b \<Longrightarrow> a = b"
  using hexDigit_inj_bounded by simp

lemma escape_shape:
  "(escape c = [c] \<and> c \<noteq> CHR 0x5C \<and> c \<noteq> CHR 0x22)
   \<or> (\<exists>l. escape c = [CHR 0x5C, l] \<and> l \<noteq> CHR ''u'')
   \<or> (escape c = [CHR 0x5C, CHR ''u'', CHR ''0'', CHR ''0'',
                    hexDigit (of_char c div 16), hexDigit (of_char c mod 16)]
        \<and> of_char c < (32::nat))"
  by (simp add: escape_def)

lemma escape_short_inj: "escape c = [CHR 0x5C, l] \<Longrightarrow> escape d = [CHR 0x5C, l] \<Longrightarrow> c = d"
  by (auto simp: escape_def split: if_splits)

lemma escape_plain_inj: "escape c = [c] \<Longrightarrow> escape d = [c] \<Longrightarrow> c = d"
  by (auto simp: escape_def split: if_splits)

lemma escape_long_inj:
  assumes "of_char c < (32::nat)" "of_char d < (32::nat)"
    and "hexDigit (of_char c div 16) = hexDigit (of_char d div 16)"
    and "hexDigit (of_char c mod 16) = hexDigit (of_char d mod 16)"
  shows "c = d"
proof -
  have "(of_char c :: nat) div 16 = of_char d div 16"
    using assms by (intro hexDigit_inj) auto
  moreover have "(of_char c :: nat) mod 16 = of_char d mod 16"
    using assms by (intro hexDigit_inj) auto
  ultimately have "(of_char c :: nat) = of_char d"
    by (metis div_mult_mod_eq)
  then show ?thesis by simp
qed

lemma escape_prefix_free:
  assumes eq: "escape c @ x = escape d @ y"
  shows "c = d \<and> x = y"
proof -
  let ?long = "\<lambda>c. [CHR 0x5C, CHR ''u'', CHR ''0'', CHR ''0'',
                    hexDigit (of_char c div 16), hexDigit (of_char c mod 16)]"
  consider (plain) "escape c = [c]" "c \<noteq> CHR 0x5C"
    | (short) l where "escape c = [CHR 0x5C, l]" "l \<noteq> CHR ''u''"
    | (long) "escape c = ?long c" "of_char c < (32::nat)"
    using escape_shape[of c] by blast
  then show ?thesis
  proof cases
    case plain
    consider (plain') "escape d = [d]"
      | (other) rest where "escape d = CHR 0x5C # rest"
      using escape_shape[of d] by blast
    then show ?thesis
    proof cases
      case plain'
      with plain eq show ?thesis by simp
    next
      case other
      with plain eq show ?thesis by simp
    qed
  next
    case (short l)
    consider (plain') "escape d = [d]" "d \<noteq> CHR 0x5C"
      | (short') l' where "escape d = [CHR 0x5C, l']"
      | (long') "escape d = ?long d"
      using escape_shape[of d] by blast
    then show ?thesis
    proof cases
      case plain'
      with short eq show ?thesis by simp
    next
      case (short' l')
      with short eq have "l' = l" "x = y" by simp_all
      with short short' escape_short_inj[of c l d] show ?thesis by simp
    next
      case long'
      with short eq show ?thesis by simp
    qed
  next
    case long
    consider (plain') "escape d = [d]" "d \<noteq> CHR 0x5C"
      | (short') l' where "escape d = [CHR 0x5C, l']" "l' \<noteq> CHR ''u''"
      | (long') "escape d = ?long d" "of_char d < (32::nat)"
      using escape_shape[of d] by blast
    then show ?thesis
    proof cases
      case plain'
      with long eq show ?thesis by simp
    next
      case (short' l')
      with long eq show ?thesis by simp
    next
      case long'
      with long eq have "hexDigit (of_char c div 16) = hexDigit (of_char d div 16)"
        "hexDigit (of_char c mod 16) = hexDigit (of_char d mod 16)" "x = y"
        by simp_all
      with long long' escape_long_inj[of c d] show ?thesis by simp
    qed
  qed
qed

lemma escape_first: "\<exists>a rest. escape c = a # rest \<and> a \<noteq> CHR 0x22"
  using escape_shape[of c] by auto

lemma body_prefix_free:
  "concat (map escape s) @ CHR 0x22 # r = concat (map escape t) @ CHR 0x22 # r' \<Longrightarrow>
   s = t \<and> r = r'"
proof (induction s arbitrary: t)
  case Nil
  show ?case
  proof (cases t)
    case Nil
    with Nil.prems show ?thesis by simp
  next
    case (Cons d t')
    obtain a rest where "escape d = a # rest" "a \<noteq> CHR 0x22"
      using escape_first[of d] by blast
    with Nil.prems Cons show ?thesis by simp
  qed
next
  case (Cons c s)
  show ?case
  proof (cases t)
    case Nil
    obtain a rest where "escape c = a # rest" "a \<noteq> CHR 0x22"
      using escape_first[of c] by blast
    with Cons.prems Nil show ?thesis by simp
  next
    case (Cons d t')
    with Cons.prems have "escape c @ (concat (map escape s) @ CHR 0x22 # r)
        = escape d @ (concat (map escape t') @ CHR 0x22 # r')"
      by simp
    then have "c = d" "concat (map escape s) @ CHR 0x22 # r = concat (map escape t') @ CHR 0x22 # r'"
      using escape_prefix_free by blast+
    with Cons.IH[of t'] Cons show ?thesis by simp
  qed
qed

lemma quote_prefix_free: "quote s @ r = quote t @ r' \<Longrightarrow> s = t \<and> r = r'"
  using body_prefix_free[of s r t r'] by (simp add: quote_def)

lemma quote_first: "\<exists>rest. quote s = CHR 0x22 # rest"
  by (simp add: quote_def)

lemma serialize_first:
  "\<exists>a rest. serialize v = a # rest \<and> a \<noteq> CHR '','' \<and> a \<noteq> CHR '']'' \<and> a \<noteq> CHR ''}''"
  by (cases v) (simp_all add: quote_def)

lemma sep_tail_inj:
  assumes pf: "\<And>x y r r'. x \<in> set xs \<Longrightarrow> y \<in> set ys \<Longrightarrow> f x @ r = f y @ r' \<Longrightarrow> x = y \<and> r = r'"
    and close: "c \<noteq> CHR '',''"
    and eq: "concat (map (\<lambda>y. '','' @ f y) xs) @ c # r = concat (map (\<lambda>y. '','' @ f y) ys) @ c # r'"
  shows "xs = ys \<and> r = r'"
  using pf eq
proof (induction xs arbitrary: ys)
  case Nil
  with close show ?case by (cases ys) auto
next
  case (Cons x xs)
  show ?case
  proof (cases ys)
    case Nil
    with Cons.prems(2) close show ?thesis by auto
  next
    case (Cons y ys')
    with Cons.prems(2) have "f x @ (concat (map (\<lambda>y. '','' @ f y) xs) @ c # r)
        = f y @ (concat (map (\<lambda>y. '','' @ f y) ys') @ c # r')"
      by simp
    with Cons.prems(1)[of x y] Cons have h: "x = y"
      and t: "concat (map (\<lambda>y. '','' @ f y) xs) @ c # r = concat (map (\<lambda>y. '','' @ f y) ys') @ c # r'"
      by auto
    have "xs = ys' \<and> r = r'"
    proof (rule Cons.IH)
      show "\<And>x y r r'. x \<in> set xs \<Longrightarrow> y \<in> set ys' \<Longrightarrow> f x @ r = f y @ r' \<Longrightarrow> x = y \<and> r = r'"
        using Cons.prems(1) Cons by auto
      show "concat (map (\<lambda>y. '','' @ f y) xs) @ c # r = concat (map (\<lambda>y. '','' @ f y) ys') @ c # r'"
        by (rule t)
    qed
    with h Cons show ?thesis by simp
  qed
qed

lemma commaSep_inj:
  assumes pf: "\<And>x y r r'. x \<in> set xs \<Longrightarrow> y \<in> set ys \<Longrightarrow> f x @ r = f y @ r' \<Longrightarrow> x = y \<and> r = r'"
    and first: "\<And>x. x \<in> set xs \<union> set ys \<Longrightarrow> \<exists>a rest. f x = a # rest \<and> a \<noteq> c"
    and close: "c \<noteq> CHR '',''"
    and eq: "commaSep (map f xs) @ c # r = commaSep (map f ys) @ c # r'"
  shows "xs = ys \<and> r = r'"
proof (cases xs)
  case Nil
  show ?thesis
  proof (cases ys)
    case Nil
    with \<open>xs = []\<close> eq show ?thesis by simp
  next
    case (Cons y ys')
    then obtain a rest where "f y = a # rest" "a \<noteq> c"
      using first[of y] by auto
    with Nil Cons eq show ?thesis by simp
  qed
next
  case (Cons x xs')
  show ?thesis
  proof (cases ys)
    case Nil
    obtain a rest where "f x = a # rest" "a \<noteq> c"
      using first[of x] Cons by auto
    with Nil Cons eq show ?thesis by simp
  next
    case (Cons y ys')
    with \<open>xs = x # xs'\<close> eq
    have "f x @ (concat (map (\<lambda>y. '','' @ f y) xs') @ c # r)
        = f y @ (concat (map (\<lambda>y. '','' @ f y) ys') @ c # r')"
      by (simp add: comp_def)
    with pf[of x y] Cons \<open>xs = x # xs'\<close> have h: "x = y"
      and t: "concat (map (\<lambda>y. '','' @ f y) xs') @ c # r = concat (map (\<lambda>y. '','' @ f y) ys') @ c # r'"
      by auto
    have "xs' = ys' \<and> r = r'"
    proof (rule sep_tail_inj[OF _ close t])
      show "\<And>x y r r'. x \<in> set xs' \<Longrightarrow> y \<in> set ys' \<Longrightarrow> f x @ r = f y @ r' \<Longrightarrow> x = y \<and> r = r'"
        using pf Cons \<open>xs = x # xs'\<close> by auto
    qed
    with h Cons \<open>xs = x # xs'\<close> show ?thesis by simp
  qed
qed

lemma plain_filter: "list_all (\<lambda>(k, v). plain v) kvs \<Longrightarrow> filter (\<lambda>(k, v). v \<noteq> JUndefined) kvs = kvs"
  by (induction kvs) auto

lemma member_first:
  "\<exists>a rest. (case kv of (k, v) \<Rightarrow> quote k @ '':'' @ serialize v) = a # rest \<and> a \<noteq> CHR ''}''"
  by (cases kv) (simp add: quote_def)

lemma serialize_prefix_free:
  "plain a \<Longrightarrow> plain b \<Longrightarrow> serialize a @ r = serialize b @ r' \<Longrightarrow> a = b \<and> r = r'"
proof (induction a arbitrary: b r r')
  case JUndefined
  then show ?case by simp
next
  case JNull
  then show ?case by (cases b) (simp_all add: quote_def split: if_splits)
next
  case (JBool x)
  then show ?case by (cases b) (auto simp: quote_def split: if_splits)
next
  case (JString s)
  then show ?case
  proof (cases b)
    case (JString t)
    with JString.prems quote_prefix_free[of s r t r'] show ?thesis by simp
  qed (simp_all add: quote_def split: if_splits)
next
  case (JArray xs)
  show ?case
  proof (cases b)
    case (JArray ys)
    with JArray.prems have eq: "commaSep (map serialize xs) @ CHR '']'' # r
        = commaSep (map serialize ys) @ CHR '']'' # r'"
      by simp
    have "xs = ys \<and> r = r'"
    proof (rule commaSep_inj[OF _ _ _ eq])
      fix x y r r'
      assume "x \<in> set xs" "y \<in> set ys" "serialize x @ r = serialize y @ r'"
      with JArray.IH[of x y r r'] JArray.prems \<open>b = JArray ys\<close>
      show "x = y \<and> r = r'"
        by (simp add: list_all_iff)
    next
      fix x
      show "\<exists>a rest. serialize x = a # rest \<and> a \<noteq> CHR '']''"
        using serialize_first[of x] by blast
    qed simp
    with JArray show ?thesis by simp
  qed (use JArray.prems in \<open>simp_all add: quote_def split: if_splits\<close>)
next
  case (JObject kvs)
  show ?case
  proof (cases b)
    case (JObject lws)
    let ?m = "\<lambda>(k, v). quote k @ '':'' @ serialize v"
    from JObject JObject.prems have eq: "commaSep (map ?m kvs) @ CHR ''}'' # r
        = commaSep (map ?m lws) @ CHR ''}'' # r'"
      by (simp add: plain_filter)
    have "kvs = lws \<and> r = r'"
    proof (rule commaSep_inj[OF _ _ _ eq])
      fix kv lw r r'
      assume m: "kv \<in> set kvs" "lw \<in> set lws" and e: "?m kv @ r = ?m lw @ r'"
      obtain k v where kv: "kv = (k, v)" by (cases kv)
      obtain k' v' where lw: "lw = (k', v')" by (cases lw)
      from e kv lw have "quote k @ ('':'' @ serialize v @ r) = quote k' @ ('':'' @ serialize v' @ r')"
        by simp
      then have k: "k = k'" and "'':'' @ serialize v @ r = '':'' @ serialize v' @ r'"
        using quote_prefix_free by blast+
      then have s: "serialize v @ r = serialize v' @ r'" by simp
      have "plain v" "plain v'"
        using m kv lw JObject.prems JObject by (auto simp: list_all_iff)
      with JObject.IH[of kv v v' r r'] m kv s have "v = v' \<and> r = r'"
        by simp
      with k kv lw show "kv = lw \<and> r = r'" by simp
    next
      fix kv
      show "\<exists>a rest. ?m kv = a # rest \<and> a \<noteq> CHR ''}''"
        by (rule member_first)
    qed simp
    with JObject show ?thesis by simp
  qed (use JObject.prems in \<open>simp_all add: quote_def split: if_splits\<close>)
qed

lemma serialize_inj: "plain a \<Longrightarrow> plain b \<Longrightarrow> serialize a = serialize b \<Longrightarrow> a = b"
  using serialize_prefix_free[of a b "[]" "[]"] by simp

lemma jsonValue_undefined: "jsonValue v = JUndefined \<longleftrightarrow> v = JUndefined"
  by (cases v) simp_all

lemma serialize_jsonValue: "serialize (jsonValue v) = serialize v"
proof (induction v)
  case (JArray xs)
  then have m: "map (serialize \<circ> (\<lambda>x. if x = JUndefined then JNull else jsonValue x)) xs = map serialize xs"
    by (induction xs) auto
  show ?case by (simp only: jsonValue.simps serialize.simps map_map m)
next
  case (JObject kvs)
  let ?m = "\<lambda>(k, v). quote k @ '':'' @ serialize v"
  let ?d = "\<lambda>(k, v). v \<noteq> JUndefined"
  have keep: "filter ?d (map (\<lambda>(k, v). (k, jsonValue v)) (filter ?d kvs))
      = map (\<lambda>(k, v). (k, jsonValue v)) (filter ?d kvs)"
    by (induction kvs) (auto simp: jsonValue_undefined)
  have ih: "\<And>k v. (k, v) \<in> set kvs \<Longrightarrow> serialize (jsonValue v) = serialize v"
    using JObject by (simp add: prod_set_simps)
  have m: "map (?m \<circ> (\<lambda>(k, v). (k, jsonValue v))) (filter ?d kvs) = map ?m (filter ?d kvs)"
    by (rule map_cong) (auto simp: ih)
  show ?case by (simp only: jsonValue.simps serialize.simps keep map_map m)
qed simp_all

lemma plain_jsonValue: "v \<noteq> JUndefined \<Longrightarrow> plain (jsonValue v)"
proof (induction v)
  case (JArray xs)
  then show ?case by (auto simp: list_all_iff)
next
  case (JObject kvs)
  then show ?case by (auto simp: list_all_iff prod_set_simps)
qed simp_all

lemma stringify_eq_iff: "stringify a = stringify b \<longleftrightarrow> jsonValue a = jsonValue b"
proof (cases "a = JUndefined \<or> b = JUndefined")
  case True
  then show ?thesis
    using jsonValue_undefined[of a] jsonValue_undefined[of b]
    by (auto simp: stringify_def)
next
  case False
  then have p: "plain (jsonValue a)" "plain (jsonValue b)"
    by (simp_all add: plain_jsonValue)
  have "serialize a = serialize b \<longleftrightarrow> jsonValue a = jsonValue b"
  proof
    assume "serialize a = serialize b"
    then have "serialize (jsonValue a) = serialize (jsonValue b)"
      by (simp add: serialize_jsonValue)
    with p show "jsonValue a = jsonValue b" by (rule serialize_inj)
  next
    assume "jsonValue a = jsonValue b"
    then have "serialize (jsonValue a) = serialize (jsonValue b)" by simp
    then show "serialize a = serialize b" by (simp add: serialize_jsonValue)
  qed
  with False show ?thesis by (simp add: stringify_def)
qed

section \<open>Reading the objects of profiles and trees\<close>

lemma asList_strings [simp]: "asList asString (strings xs) = xs"
  by (simp add: asList_def strings_def asString_def comp_def)

lemma asLifeEvent_lifeEventObject [simp]: "asLifeEvent (lifeEventObject e) = e"
  by (cases "ev_spouseName e")
     (simp_all add: asLifeEvent_def lifeEventObject_def readProp_def asString_def asOptString_def
        optional_def)

lemma asMemory_memoryObject [simp]: "asMemory (memoryObject m) = m"
  by (simp add: asMemory_def memoryObject_def readProp_def asString_def)

lemma asSource_sourceObject [simp]: "asSource (sourceObject s) = s"
  by (cases s) (auto simp: asSource_def sourceObject_def readProp_def asString_def)

lemma asHistoricalContext_object [simp]:
  "asHistoricalContext (historicalContextObject h) = Some h"
  by (simp add: asHistoricalContext_def historicalContextObject_def readProp_def asString_def
        asList_def comp_def)

lemma asGender_genderCode [simp]: "asGender (genderCode g) = Some g"
  by (cases g) (simp_all add: asGender_def)

lemma asList_objects [simp]:
  "asList asLifeEvent (JArray (map lifeEventObject es)) = es"
  "asList asMemory (JArray (map memoryObject ms)) = ms"
  by (simp_all add: asList_def comp_def)

lemma undefined_reads [simp]:
  "asGender JUndefined = None" "asHistoricalContext JUndefined = None"
  "asOptString JUndefined = None"
  by (simp_all add: asGender_def asHistoricalContext_def asOptString_def)

lemma asProfile_profileObject [simp]: "asProfile (profileObject p) = p"
  by (cases "p_gender p"; cases "p_deathYear p"; cases "p_historicalContext p")
     (simp_all add: asProfile_def profileObject_def readProp_def asString_def asOptString_def
        asBool_def optional_def)

lemma asTree_treeObject [simp]: "asTree (treeObject t) = t"
  by (simp add: asTree_def treeObject_def readProp_def asString_def)

lemma readProp_id_profileObject [simp]: "readProp ''id'' (profileObject p) = JString (p_id p)"
  by (simp add: profileObject_def readProp_def)

lemma readProp_id_treeObject [simp]: "readProp ''id'' (treeObject t) = JString (t_id t)"
  by (simp add: treeObject_def readProp_def)

lemma truthy_objects [simp]: "\<not> falsy (profileObject p)" "\<not> falsy (treeObject t)"
  by (simp_all add: falsy_def profileObject_def treeObject_def)

lemma jsonValue_strings [simp]: "jsonValue (strings xs) = strings xs"
  by (simp add: strings_def comp_def)

lemma jsonValue_genderCode [simp]: "jsonValue (genderCode g) = genderCode g"
  by (cases g) simp_all

lemma defined_objects [simp]:
  "strings xs \<noteq> JUndefined" "genderCode g \<noteq> JUndefined" "lifeEventObject e \<noteq> JUndefined"
  "memoryObject m \<noteq> JUndefined" "sourceObject s \<noteq> JUndefined"
  "historicalContextObject h \<noteq> JUndefined"
  by (simp_all add: strings_def lifeEventObject_def memoryObject_def sourceObject_def
        historicalContextObject_def split: option.splits, cases g, simp_all)

lemma asLifeEvent_json [simp]: "asLifeEvent (jsonValue (lifeEventObject e)) = e"
  by (cases "ev_spouseName e")
     (simp_all add: asLifeEvent_def lifeEventObject_def readProp_def asString_def asOptString_def
        optional_def)

lemma asMemory_json [simp]: "asMemory (jsonValue (memoryObject m)) = m"
  by (simp add: asMemory_def memoryObject_def readProp_def asString_def)

lemma asSource_json [simp]: "asSource (jsonValue (sourceObject s)) = s"
  by (cases s) (auto simp: asSource_def sourceObject_def readProp_def asString_def)

lemma asHistoricalContext_json [simp]:
  "asHistoricalContext (jsonValue (historicalContextObject h)) = Some h"
  by (simp add: asHistoricalContext_def historicalContextObject_def readProp_def asString_def
        asList_def comp_def)

lemma asList_json [simp]:
  "asList asLifeEvent (jsonValue (JArray (map lifeEventObject es))) = es"
  "asList asMemory (jsonValue (JArray (map memoryObject ms))) = ms"
  by (simp_all add: asList_def comp_def)


lemma jsonValue_items [simp]:
  "jsonValue (JArray (map lifeEventObject es)) = JArray (map (\<lambda>e. jsonValue (lifeEventObject e)) es)"
  "jsonValue (JArray (map memoryObject ms)) = JArray (map (\<lambda>m. jsonValue (memoryObject m)) ms)"
  by (simp_all add: comp_def)

lemma asList_json_items [simp]:
  "asList asLifeEvent (JArray (map (\<lambda>e. jsonValue (lifeEventObject e)) es)) = es"
  "asList asMemory (JArray (map (\<lambda>m. jsonValue (memoryObject m)) ms)) = ms"
  by (simp_all add: asList_def comp_def)

lemma asProfile_json: "asProfile (jsonValue (profileObject p)) = p"
  apply (cases "p_gender p"; cases "p_deathYear p"; cases "p_historicalContext p")
  apply (simp_all add: profileObject_def optional_def del: jsonValue.simps(1))
  apply (simp_all add: asProfile_def readProp_def asString_def asOptString_def asBool_def)
  done

lemma jsonValue_profileObject_iff:
  "jsonValue (profileObject a) = jsonValue (profileObject b) \<longleftrightarrow> a = b"
proof
  assume same: "jsonValue (profileObject a) = jsonValue (profileObject b)"
  have "a = asProfile (jsonValue (profileObject a))"
    by (simp only: asProfile_json)
  also have "\<dots> = asProfile (jsonValue (profileObject b))"
    by (simp only: same)
  also have "\<dots> = b"
    by (rule asProfile_json)
  finally show "a = b" .
next
  assume "a = b"
  then show "jsonValue (profileObject a) = jsonValue (profileObject b)"
    by (simp only:)
qed

lemma asTree_json: "asTree (jsonValue (treeObject t)) = t"
  by (simp add: asTree_def treeObject_def readProp_def asString_def)

section \<open>Reconciliation of profiles\<close>

lemma prevById_distinct:
  assumes d: "distinct (map (readProp ''id'') prev)" and m: "p \<in> set prev"
  shows "prevById prev (readProp ''id'' p) = p"
proof -
  have "distinct (map fst (rev (map (\<lambda>p. (readProp ''id'' p, p)) prev)))"
    using d by (simp add: rev_map[symmetric] comp_def)
  moreover have "(readProp ''id'' p, p) \<in> set (rev (map (\<lambda>p. (readProp ''id'' p, p)) prev))"
    using m by auto
  ultimately have "map_of (rev (map (\<lambda>p. (readProp ''id'' p, p)) prev)) (readProp ''id'' p) = Some p"
    by (rule map_of_is_SomeI)
  then show ?thesis
    by (simp add: prevById_def)
qed

lemma changed_iff:
  "changed prev p \<longleftrightarrow>
     falsy (prevById prev (readProp ''id'' p))
     \<or> jsonValue (prevById prev (readProp ''id'' p)) \<noteq> jsonValue p"
  by (simp add: changed_def Let_def stringify_eq_iff)

lemma setProfiles_pushes:
  "snd (setProfiles vu st) =
     (if filter (changed (st_profiles st)) (applyAction vu (st_profiles st)) = [] then []
      else [UpsertProfilesT
              (map asProfile (filter (changed (st_profiles st)) (applyAction vu (st_profiles st))))])"
  by (simp add: setProfiles_def Let_def)

lemma setProfiles_none_iff:
  "snd (setProfiles vu st) = [] \<longleftrightarrow>
     (\<forall>p \<in> set (applyAction vu (st_profiles st)).
        \<not> falsy (prevById (st_profiles st) (readProp ''id'' p))
        \<and> jsonValue (prevById (st_profiles st) (readProp ''id'' p)) = jsonValue p)"
  by (simp add: setProfiles_pushes filter_empty_conv changed_iff)

lemma unchanged_in_prev:
  "distinct (map (readProp ''id'') prev) \<Longrightarrow> \<forall>p \<in> set prev. \<not> falsy p \<Longrightarrow> set xs \<subseteq> set prev \<Longrightarrow>
   filter (changed prev) xs = []"
  by (auto simp: filter_empty_conv changed_iff prevById_distinct)

lemma one_changed:
  assumes d: "distinct (map (readProp ''id'') prev)" and t: "\<forall>p \<in> set prev. \<not> falsy p"
    and i: "i < length prev"
    and same: "readProp ''id'' q = readProp ''id'' (prev ! i)"
    and diff: "jsonValue q \<noteq> jsonValue (prev ! i)"
  shows "filter (changed prev) (prev[i := q]) = [q]"
proof -
  have split: "prev[i := q] = take i prev @ q # drop (Suc i) prev"
    using i by (rule upd_conv_take_nth_drop)
  have "prevById prev (readProp ''id'' q) = prev ! i"
    using d i same prevById_distinct[of prev "prev ! i"] by simp
  then have q: "changed prev q"
    using diff by (auto simp: changed_iff)
  have before: "filter (changed prev) (take i prev) = []"
    using d t by (intro unchanged_in_prev) (auto dest: in_set_takeD)
  have after: "filter (changed prev) (drop (Suc i) prev) = []"
    using d t by (intro unchanged_in_prev) (auto dest: in_set_dropD)
  show ?thesis
    by (simp add: split before after q)
qed

lemma built_ids: "map (readProp ''id'') (map profileObject ps) = map (\<lambda>p. JString (p_id p)) ps"
  by simp

lemma one_changed_built:
  assumes d: "distinct (map p_id ps)" and i: "i < length ps"
    and same: "p_id b = p_id (ps ! i)" and diff: "b \<noteq> ps ! i"
  shows "filter (changed (map profileObject ps)) (map profileObject (ps[i := b])) = [profileObject b]"
proof -
  have "distinct (map (\<lambda>p. JString (p_id p)) ps)"
    using d by (simp add: distinct_map inj_on_def)
  then have ids: "distinct (map (readProp ''id'') (map profileObject ps))"
    by (simp only: built_ids)
  have truthy: "\<forall>p \<in> set (map profileObject ps). \<not> falsy p"
    by auto
  have len: "i < length (map profileObject ps)"
    using i by simp
  have ident: "readProp ''id'' (profileObject b) = readProp ''id'' (map profileObject ps ! i)"
    using i same by simp
  have differs: "jsonValue (profileObject b) \<noteq> jsonValue (map profileObject ps ! i)"
    using i diff by (simp add: jsonValue_profileObject_iff del: jsonValue.simps)
  have "filter (changed (map profileObject ps)) ((map profileObject ps)[i := profileObject b])
      = [profileObject b]"
    using ids truthy len ident differs by (rule one_changed)
  then show ?thesis
    by (simp only: map_update)
qed

lemma upsert_one_request:
  "snd (snd (upsertProfiles sb [q] treeId (s, tr))) = tr @ [UpsertProfilesReq [profileToInsert q treeId]]"
  by (simp add: upsertProfiles_def upsertProfiles_loop.simps[of sb "[q]"] CHUNK_def Let_def
           split: prod.splits option.splits)

lemma runPush_upsert_one:
  "snd (snd (snd (runPush sb (UpsertProfilesT [q]) (s, tr)))) = tr @ [UpsertProfilesReq [profileToInsert q None]]"
  using upsert_one_request[of sb q None s tr]
  by (auto split: prod.splits sum.splits)


lemma family_profiles:
  "st_profiles family = [profileObject ada, profileObject bob, profileObject eve]"
  by (simp add: family_def emptyStore_def)

lemma family_ids:
  "map (readProp ''id'') (st_profiles family) = [JString ''p1'', JString ''p2'', JString ''p3'']"
  by (simp add: family_profiles ada_def bob_def eve_def)

lemma family_truthy: "\<forall>p \<in> set (st_profiles family). \<not> falsy p"
  by (simp add: family_profiles)

lemma moveLast_name:
  "moveLast ''name'' (profileObject bob) =
     JObject [(''id'', JString ''p2''), (''userId'', JString ''u1''), (''gender'', JUndefined),
              (''birthYear'', JString []), (''deathYear'', JUndefined), (''imageUrl'', JString []),
              (''summary'', JString []), (''historicalContext'', JUndefined),
              (''isMemorial'', JBool False), (''parentIds'', JArray []), (''childIds'', JArray []),
              (''spouseIds'', JArray []), (''timeline'', JArray []), (''memories'', JArray []),
              (''sources'', JArray []), (''name'', JString ''Bob'')]"
  by (simp add: moveLast_def profileObject_def bob_def optional_def strings_def)


text \<open>
  C2, as stated, fails in its first half. The cache holds three profiles as the row mapper
  built them; the new collection has, in place of the second, an object with the same keys
  and the same values whose key \<^verbatim>\<open>name\<close> comes last. The new collection is deep-equal to
  the previous one, item by item, and every field reads as before, but the JSON text of
  that item has changed, so one write is started and it sends one request.
\<close>
theorem c2_reordered_keys_counterexample:
  "st_profiles family = [profileObject ada, profileObject bob, profileObject eve]
   \<and> itemsEqual [profileObject ada, moveLast ''name'' (profileObject bob), profileObject eve]
                 (st_profiles family)
   \<and> asProfile (moveLast ''name'' (profileObject bob)) = asProfile (profileObject bob)
   \<and> stringify (moveLast ''name'' (profileObject bob)) \<noteq> stringify (profileObject bob)
   \<and> snd (setProfiles
              (Value [profileObject ada, moveLast ''name'' (profileObject bob), profileObject eve])
              family)
       = [UpsertProfilesT [bob]]
   \<and> snd (snd (snd (runPush okStore (UpsertProfilesT [bob]) (0, []))))
       = [UpsertProfilesReq [profileToInsert bob None]]"
proof (intro conjI)
  let ?next = "[profileObject ada, moveLast ''name'' (profileObject bob), profileObject eve]"
  show "st_profiles family = [profileObject ada, profileObject bob, profileObject eve]"
    by (rule family_profiles)
  have same_ada: "deepEqual (profileObject ada) (profileObject ada)"
    by (auto simp: profileObject_def ada_def optional_def strings_def readProp_def)
  have same_eve: "deepEqual (profileObject eve) (profileObject eve)"
    by (auto simp: profileObject_def eve_def optional_def strings_def readProp_def)
  have same_bob: "deepEqual (moveLast ''name'' (profileObject bob)) (profileObject bob)"
    unfolding moveLast_name
    by (auto simp: profileObject_def bob_def optional_def strings_def readProp_def)
  from same_ada same_bob same_eve show "itemsEqual ?next (st_profiles family)"
    by (simp add: family_profiles)
  show decoded: "asProfile (moveLast ''name'' (profileObject bob)) = asProfile (profileObject bob)"
    unfolding moveLast_name asProfile_profileObject
    by (simp add: asProfile_def readProp_def asString_def asOptString_def asBool_def
          asList_def bob_def)
  have upd: "applyAction (Value ?next) (st_profiles family)
      = (st_profiles family)[1 := moveLast ''name'' (profileObject bob)]"
    by (simp add: family_profiles)
  have d: "distinct (map (readProp ''id'') (st_profiles family))"
    by (simp add: family_ids)
  have same: "readProp ''id'' (moveLast ''name'' (profileObject bob)) = readProp ''id'' (st_profiles family ! 1)"
    unfolding moveLast_name by (simp add: family_profiles) (simp add: readProp_def bob_def)
  have diff: "jsonValue (moveLast ''name'' (profileObject bob)) \<noteq> jsonValue (st_profiles family ! 1)"
    unfolding moveLast_name by (simp add: family_profiles profileObject_def bob_def optional_def)
  then show "stringify (moveLast ''name'' (profileObject bob)) \<noteq> stringify (profileObject bob)"
    by (simp add: stringify_eq_iff family_profiles del: jsonValue.simps)
  have "filter (changed (st_profiles family)) ((st_profiles family)[1 := moveLast ''name'' (profileObject bob)])
      = [moveLast ''name'' (profileObject bob)]"
    using d family_truthy _ same diff by (rule one_changed) (simp add: family_profiles)
  then show "snd (setProfiles (Value ?next) family) = [UpsertProfilesT [bob]]"
    unfolding setProfiles_pushes upd by (simp add: decoded)
  show "snd (snd (snd (runPush okStore (UpsertProfilesT [bob]) (0, []))))
       = [UpsertProfilesReq [profileToInsert bob None]]"
    using runPush_upsert_one[of okStore bob 0 "[]"] by simp
qed

text \<open>
  C2, amended. The mutator starts no write exactly when every item of the new collection
  has, under its id, a previous item whose JSON text is the same, that is, with the same
  keys in the same order and the same values, properties whose value is undefined not
  counted. In particular, when ids are unique and the new collection is the previous one,
  no write is started and the collection is unchanged. When ids are unique and the new
  collection is the previous one with the item at one position replaced by an object \<open>q\<close>
  of the same id whose JSON text differs, exactly one write is started; whatever the store
  answers it sends exactly one request, which carries the row of \<open>q\<close> alone, under that
  item's id. For objects as the row mapper builds them the JSON texts of two profiles are
  the same exactly when the profiles are equal: when the cache holds such objects with
  unique ids and one of them is replaced by the object of a profile with the same id that
  differs from it in any field, exactly one write is started, for that profile alone.
\<close>
theorem c2_setProfiles_diff:
  "(snd (setProfiles vu st) = [] \<longleftrightarrow>
      (\<forall>p \<in> set (applyAction vu (st_profiles st)).
         \<not> falsy (prevById (st_profiles st) (readProp ''id'' p))
         \<and> jsonValue (prevById (st_profiles st) (readProp ''id'' p)) = jsonValue p))
   \<and> (distinct (map (readProp ''id'') (st_profiles st)) \<and> (\<forall>p \<in> set (st_profiles st). \<not> falsy p)
        \<and> applyAction vu (st_profiles st) = st_profiles st \<longrightarrow>
        snd (setProfiles vu st) = [] \<and> st_profiles (fst (setProfiles vu st)) = st_profiles st)
   \<and> (\<forall>i q. distinct (map (readProp ''id'') (st_profiles st))
          \<and> (\<forall>p \<in> set (st_profiles st). \<not> falsy p)
          \<and> i < length (st_profiles st)
          \<and> readProp ''id'' q = readProp ''id'' (st_profiles st ! i)
          \<and> jsonValue q \<noteq> jsonValue (st_profiles st ! i)
          \<and> applyAction vu (st_profiles st) = (st_profiles st)[i := q] \<longrightarrow>
        snd (setProfiles vu st) = [UpsertProfilesT [asProfile q]]
        \<and> snd (snd (snd (runPush sb (UpsertProfilesT [asProfile q]) (s, tr)))) =
            tr @ [UpsertProfilesReq [profileToInsert (asProfile q) None]]
        \<and> map pr_id [profileToInsert (asProfile q) None] =
            [asString (readProp ''id'' (st_profiles st ! i))])
   \<and> (\<forall>ps i b. st_profiles st = map profileObject ps \<and> distinct (map p_id ps)
          \<and> i < length ps \<and> p_id b = p_id (ps ! i) \<and> b \<noteq> ps ! i
          \<and> applyAction vu (st_profiles st) = map profileObject (ps[i := b]) \<longrightarrow>
        snd (setProfiles vu st) = [UpsertProfilesT [b]]
        \<and> snd (snd (snd (runPush sb (UpsertProfilesT [b]) (s, tr)))) =
            tr @ [UpsertProfilesReq [profileToInsert b None]]
        \<and> map pr_id [profileToInsert b None] = [p_id (ps ! i)])
   \<and> (jsonValue (profileObject a) = jsonValue (profileObject a') \<longleftrightarrow> a = a')
   \<and> (stringify x = stringify y \<longleftrightarrow> jsonValue x = jsonValue y)"
proof (intro conjI allI impI)
  show "snd (setProfiles vu st) = [] \<longleftrightarrow>
      (\<forall>p \<in> set (applyAction vu (st_profiles st)).
         \<not> falsy (prevById (st_profiles st) (readProp ''id'' p))
         \<and> jsonValue (prevById (st_profiles st) (readProp ''id'' p)) = jsonValue p)"
    by (rule setProfiles_none_iff)
  show "jsonValue (profileObject a) = jsonValue (profileObject a') \<longleftrightarrow> a = a'"
    by (rule jsonValue_profileObject_iff)
  show "stringify x = stringify y \<longleftrightarrow> jsonValue x = jsonValue y"
    by (rule stringify_eq_iff)
next
  assume a: "distinct (map (readProp ''id'') (st_profiles st)) \<and> (\<forall>p \<in> set (st_profiles st). \<not> falsy p)
        \<and> applyAction vu (st_profiles st) = st_profiles st"
  then show "snd (setProfiles vu st) = []"
    by (simp add: setProfiles_pushes unchanged_in_prev)
  from a show "st_profiles (fst (setProfiles vu st)) = st_profiles st"
    by (simp add: setProfiles_def Let_def)
next
  fix i q
  assume a: "distinct (map (readProp ''id'') (st_profiles st))
          \<and> (\<forall>p \<in> set (st_profiles st). \<not> falsy p)
          \<and> i < length (st_profiles st)
          \<and> readProp ''id'' q = readProp ''id'' (st_profiles st ! i)
          \<and> jsonValue q \<noteq> jsonValue (st_profiles st ! i)
          \<and> applyAction vu (st_profiles st) = (st_profiles st)[i := q]"
  then show "snd (setProfiles vu st) = [UpsertProfilesT [asProfile q]]"
    by (simp add: setProfiles_pushes one_changed)
  show "snd (snd (snd (runPush sb (UpsertProfilesT [asProfile q]) (s, tr)))) =
            tr @ [UpsertProfilesReq [profileToInsert (asProfile q) None]]"
    by (rule runPush_upsert_one)
  from a show "map pr_id [profileToInsert (asProfile q) None] =
            [asString (readProp ''id'' (st_profiles st ! i))]"
    by (simp add: profileToInsert_def asProfile_def)
next
  fix ps i b
  assume a: "st_profiles st = map profileObject ps \<and> distinct (map p_id ps)
          \<and> i < length ps \<and> p_id b = p_id (ps ! i) \<and> b \<noteq> ps ! i
          \<and> applyAction vu (st_profiles st) = map profileObject (ps[i := b])"
  then have held: "st_profiles st = map profileObject ps"
    and new: "applyAction vu (st_profiles st) = map profileObject (ps[i := b])"
    by blast+
  from a have "filter (changed (map profileObject ps)) (map profileObject (ps[i := b])) = [profileObject b]"
    by (intro one_changed_built) simp_all
  then have "filter (changed (st_profiles st)) (applyAction vu (st_profiles st)) = [profileObject b]"
    unfolding new unfolding held .
  then show "snd (setProfiles vu st) = [UpsertProfilesT [b]]"
    by (simp add: setProfiles_pushes)
  show "snd (snd (snd (runPush sb (UpsertProfilesT [b]) (s, tr)))) =
            tr @ [UpsertProfilesReq [profileToInsert b None]]"
    by (rule runPush_upsert_one)
  from a show "map pr_id [profileToInsert b None] = [p_id (ps ! i)]"
    by (simp add: profileToInsert_def)
qed

theorem c2_setProfiles_diff_witness:
  "distinct (map (readProp ''id'') (st_profiles family))
   \<and> \<not> falsy (profileObject ada) \<and> \<not> falsy (profileObject bob) \<and> \<not> falsy (profileObject eve)
   \<and> applyAction (Updater (\<lambda>prev. prev)) (st_profiles family) = st_profiles family
   \<and> snd (setProfiles (Updater (\<lambda>prev. prev)) family) = []
   \<and> (1::nat) < length (st_profiles family)
   \<and> readProp ''id'' (profileObject robert) = readProp ''id'' (st_profiles family ! 1)
   \<and> jsonValue (profileObject robert) \<noteq> jsonValue (st_profiles family ! 1)
   \<and> applyAction (Updater (map (\<lambda>p. if readProp ''id'' p = JString ''p2''
                                       then profileObject robert else p)))
         (st_profiles family)
       = (st_profiles family)[1 := profileObject robert]
   \<and> snd (setProfiles (Updater (map (\<lambda>p. if readProp ''id'' p = JString ''p2''
                                            then profileObject robert else p)))
              family)
       = [UpsertProfilesT [robert]]
   \<and> snd (snd (snd (runPush okStore (UpsertProfilesT [robert]) (0, []))))
       = [UpsertProfilesReq [profileToInsert robert None]]
   \<and> map pr_id [profileToInsert robert None] = [''p2'']
   \<and> st_profiles family = map profileObject [ada, bob, eve]
   \<and> distinct (map p_id [ada, bob, eve])
   \<and> p_id robert = p_id ([ada, bob, eve] ! 1)
   \<and> robert \<noteq> [ada, bob, eve] ! 1
   \<and> snd (setProfiles (Value (map profileObject ([ada, bob, eve][1 := robert]))) family)
       = [UpsertProfilesT [robert]]"
proof -
  let ?edit = "Updater (map (\<lambda>p. if readProp ''id'' p = JString ''p2''
                                   then profileObject robert else p))"
  have d: "distinct (map (readProp ''id'') (st_profiles family))"
    by (simp add: family_ids)
  have t: "\<forall>p \<in> set (st_profiles family). \<not> falsy p"
    by (rule family_truthy)
  have same: "applyAction (Updater (\<lambda>prev. prev)) (st_profiles family) = st_profiles family"
    by simp
  have i: "(1::nat) < length (st_profiles family)"
    by (simp add: family_profiles)
  have ident: "readProp ''id'' (profileObject robert) = readProp ''id'' (st_profiles family ! 1)"
    by (simp add: family_profiles robert_def)
  have "robert \<noteq> bob"
    by (simp add: robert_def bob_def)
  then have diff: "jsonValue (profileObject robert) \<noteq> jsonValue (st_profiles family ! 1)"
    by (simp add: family_profiles jsonValue_profileObject_iff del: jsonValue.simps)
  have upd: "applyAction ?edit (st_profiles family) = (st_profiles family)[1 := profileObject robert]"
    by (simp add: family_profiles ada_def bob_def eve_def)
  from c2_setProfiles_diff[of "Updater (\<lambda>prev. prev)" family okStore 0 "[]"] d t same
  have none: "snd (setProfiles (Updater (\<lambda>prev. prev)) family) = []"
    by blast
  from c2_setProfiles_diff[of ?edit family okStore 0 "[]"] d t i ident diff upd
  have one: "snd (setProfiles ?edit family) = [UpsertProfilesT [asProfile (profileObject robert)]]
        \<and> snd (snd (snd (runPush okStore (UpsertProfilesT [asProfile (profileObject robert)]) (0, [])))) =
            [] @ [UpsertProfilesReq [profileToInsert (asProfile (profileObject robert)) None]]
        \<and> map pr_id [profileToInsert (asProfile (profileObject robert)) None] =
            [asString (readProp ''id'' (st_profiles family ! 1))]"
    by blast
  have id2: "asString (readProp ''id'' (st_profiles family ! 1)) = ''p2''"
    by (simp add: family_profiles bob_def asString_def)
  from one have one': "snd (setProfiles ?edit family) = [UpsertProfilesT [robert]]
        \<and> snd (snd (snd (runPush okStore (UpsertProfilesT [robert]) (0, [])))) =
            [UpsertProfilesReq [profileToInsert robert None]]
        \<and> map pr_id [profileToInsert robert None] = [''p2'']"
    unfolding asProfile_profileObject id2 by simp
  have built: "st_profiles family = map profileObject [ada, bob, eve]"
    by (simp add: family_def emptyStore_def)
  have ids: "distinct (map p_id [ada, bob, eve])"
    by (simp add: ada_def bob_def eve_def)
  have ident': "p_id robert = p_id ([ada, bob, eve] ! 1)"
    by (simp add: robert_def)
  have diff': "robert \<noteq> [ada, bob, eve] ! 1"
    by (simp add: robert_def bob_def)
  have len: "(1::nat) < length [ada, bob, eve]"
    by simp
  have applied: "applyAction (Value (map profileObject ([ada, bob, eve][1 := robert]))) (st_profiles family)
      = map profileObject ([ada, bob, eve][1 := robert])"
    by simp
  from c2_setProfiles_diff[of "Value (map profileObject ([ada, bob, eve][1 := robert]))" family okStore 0 "[]"]
    built ids len ident' diff' applied
  have typed: "snd (setProfiles (Value (map profileObject ([ada, bob, eve][1 := robert]))) family)
       = [UpsertProfilesT [robert]]"
    by blast
  show ?thesis
    using d same i ident diff upd none one' truthy_objects(1) built ids ident' diff' typed
    by (intro conjI) (elim conjE, assumption)+
qed

section \<open>Optimistic creation of a post\<close>

text \<open>
  C3, at the failing input: the post \<open>hello\<close> is added to a cache holding one older post and
  the store rejects the insert. The post is in the cache as soon as \<^verbatim>\<open>addCirclePost\<close>
  returns; when the create fails the cache is as it was before, one line is printed on the
  console, and the hook's \<^verbatim>\<open>error\<close> state, the only channel its caller can read, is
  still unset.
\<close>
theorem c3_failed_create_error_not_stored:
  "st_circlePosts (w_store (perform (addCirclePost hello) circle)) = [hello, older]
   \<and> w_pushes (perform (addCirclePost hello) circle) = [CreatePostT hello]
   \<and> runPush writesFail (CreatePostT hello) (0, []) =
       (Some (Error ''createPost: boom''), [], (1, [InsertPostReq (postToInsert hello)]))
   \<and> w_store (step (PushSettles 0 (Some (Error ''createPost: boom'')))
                (perform (addCirclePost hello) circle)) = w_store circle
   \<and> w_console (step (PushSettles 0 (Some (Error ''createPost: boom'')))
                  (perform (addCirclePost hello) circle)) =
       [''[useArchiveStore] createPost failed: createPost: boom'']
   \<and> st_error (w_store (step (PushSettles 0 (Some (Error ''createPost: boom'')))
                          (perform (addCirclePost hello) circle))) = None"
  by (simp add: perform_def addCirclePost_def circle_def emptyStore_def createPost_def
        writesFail_def okStore_def consoleError_def without_def hello_def older_def)


section \<open>Pushes settling: what their handlers may change\<close>

lemma settlePush_fulfilled [simp]: "settlePush p None sc = sc"
  by (cases sc) simp

lemma settlePush_posts_subset:
  "set (st_circlePosts (fst (settlePush p out (st, console)))) \<subseteq> set (st_circlePosts st)"
  by (cases out; cases p) auto

lemma settlePush_other_fields:
  "st_profiles (fst (settlePush p out (st, console))) = st_profiles st"
  "st_familyTrees (fst (settlePush p out (st, console))) = st_familyTrees st"
  "st_error (fst (settlePush p out (st, console))) = st_error st"
  by (cases out; cases p; simp)+

lemma settlePush_not_createPost:
  "(\<And>post. p \<noteq> CreatePostT post) \<Longrightarrow> fst (settlePush p out (st, console)) = st"
  by (cases out; cases p) auto


lemma settlePush_fresh:
  "c_id post \<notin> c_id ` set (st_circlePosts st) \<Longrightarrow>
   fst (settlePush (CreatePostT post) out (st, console)) = st"
proof -
  assume "c_id post \<notin> c_id ` set (st_circlePosts st)"
  then have "filter (\<lambda>p. c_id p \<noteq> c_id post) (st_circlePosts st) = st_circlePosts st"
    by (auto simp: filter_id_conv image_iff)
  then show ?thesis
    by (cases out) simp_all
qed

lemma step_push_posts_subset:
  "pushEvent e \<Longrightarrow> postIds (step e w) \<subseteq> postIds w"
proof (cases e)
  case (PushSettles k out)
  show ?thesis
  proof (cases "k < length (w_pushes w)")
    case True
    obtain st' console' where r: "settlePush (w_pushes w ! k) out (w_store w, w_console w) = (st', console')"
      by (cases "settlePush (w_pushes w ! k) out (w_store w, w_console w)")
    from settlePush_posts_subset[of "w_pushes w ! k" out "w_store w" "w_console w"] r
    have "set (st_circlePosts st') \<subseteq> set (st_circlePosts (w_store w))"
      by simp
    then show ?thesis
      using True r PushSettles by (auto simp: postIds_def)
  next
    case False
    then show ?thesis using PushSettles by simp
  qed
qed simp

lemma run_push_posts_subset:
  "\<forall>e \<in> set es. pushEvent e \<Longrightarrow> postIds (run es w) \<subseteq> postIds w"
proof (induction es arbitrary: w)
  case Nil
  then show ?case by simp
next
  case (Cons e es)
  then have "postIds (run es (step e w)) \<subseteq> postIds (step e w)"
    by simp
  moreover have "postIds (step e w) \<subseteq> postIds w"
    using Cons.prems by (simp add: step_push_posts_subset)
  ultimately show ?case by auto
qed

lemma run_pushes_posts_subset:
  "postIds (run (map (\<lambda>(k, out). PushSettles k out) kos) w) \<subseteq> postIds w"
  by (rule run_push_posts_subset) auto

lemma runPush_deletePost:
  "sb_delete sb s ''posts'' ident = (err, s') \<Longrightarrow>
   runPush sb (DeletePostT ident) (s, tr) =
     (map_option (\<lambda>msg. Error (''deletePost: '' @ msg)) err, [],
      (s', tr @ [DeleteReq ''posts'' ident]))"
  by (cases err) (simp_all add: deletePost_def)

lemma deleteCirclePost_absent:
  "filter (\<lambda>p. c_id p = ident)
     (st_circlePosts (w_store (run (map (\<lambda>(k, out). PushSettles k out) kos)
                                  (perform (deleteCirclePost ident) w)))) = []"
proof -
  have "ident \<notin> postIds (perform (deleteCirclePost ident) w)"
    by (auto simp: postIds_def perform_def deleteCirclePost_def)
  with run_pushes_posts_subset[of kos "perform (deleteCirclePost ident) w"]
  have "ident \<notin> postIds (run (map (\<lambda>(k, out). PushSettles k out) kos)
                            (perform (deleteCirclePost ident) w))"
    by auto
  then show ?thesis
    by (auto simp: postIds_def filter_empty_conv)
qed

text \<open>
  C7. For every id, \<^verbatim>\<open>deleteCirclePost\<close> removes the posts of that id from the cache at
  once and starts one remote delete, which sends one delete request for that id on
  \<^verbatim>\<open>posts\<close>; however the pushes in flight settle afterwards, no post of that id is in the
  cache again, and the handler of the delete leaves the whole state as it is: the removal
  is never rolled back. At the failing input, the post \<^verbatim>\<open>c0\<close> is deleted from a cache that
  holds it and the store rejects the delete: \<^verbatim>\<open>deletePost\<close> throws, the hook prints one
  line on the console, and its \<^verbatim>\<open>error\<close> state, the only channel its caller can read, is
  still unset.
\<close>
theorem c7_failed_delete_error_not_stored:
  "st_circlePosts (fst (deleteCirclePost ident st)) = filter (\<lambda>p. c_id p \<noteq> ident) (st_circlePosts st)
   \<and> snd (deleteCirclePost ident st) = [DeletePostT ident]
   \<and> snd (snd (snd (runPush sb (DeletePostT ident) (s, tr)))) = tr @ [DeleteReq ''posts'' ident]
   \<and> fst (settlePush (DeletePostT ident) out (st', console)) = st'
   \<and> filter (\<lambda>p. c_id p = ident)
        (st_circlePosts (w_store (run (map (\<lambda>(k, out). PushSettles k out) kos)
                                     (perform (deleteCirclePost ident) w)))) = []
   \<and> st_circlePosts (w_store circle) = [older]
   \<and> st_circlePosts (w_store (perform (deleteCirclePost ''c0'') circle)) = []
   \<and> w_pushes (perform (deleteCirclePost ''c0'') circle) = [DeletePostT ''c0'']
   \<and> runPush writesFail (DeletePostT ''c0'') (0, []) =
       (Some (Error ''deletePost: boom''), [], (1, [DeleteReq ''posts'' ''c0'']))
   \<and> st_circlePosts (w_store (step (PushSettles 0 (Some (Error ''deletePost: boom'')))
                                 (perform (deleteCirclePost ''c0'') circle))) = []
   \<and> w_console (step (PushSettles 0 (Some (Error ''deletePost: boom'')))
                  (perform (deleteCirclePost ''c0'') circle)) =
       [''[useArchiveStore] deletePost failed: deletePost: boom'']
   \<and> st_error (w_store (step (PushSettles 0 (Some (Error ''deletePost: boom'')))
                          (perform (deleteCirclePost ''c0'') circle))) = None"
proof (intro conjI)
  show "st_circlePosts (fst (deleteCirclePost ident st)) = filter (\<lambda>p. c_id p \<noteq> ident) (st_circlePosts st)"
    by (simp add: deleteCirclePost_def)
  show "snd (deleteCirclePost ident st) = [DeletePostT ident]"
    by (simp add: deleteCirclePost_def)
  show "snd (snd (snd (runPush sb (DeletePostT ident) (s, tr)))) = tr @ [DeleteReq ''posts'' ident]"
  proof (cases "sb_delete sb s ''posts'' ident")
    case (Pair err s')
    then show ?thesis by (simp add: runPush_deletePost[OF Pair] del: runPush.simps)
  qed
  show "fst (settlePush (DeletePostT ident) out (st', console)) = st'"
    by (rule settlePush_not_createPost) simp
  show "filter (\<lambda>p. c_id p = ident)
        (st_circlePosts (w_store (run (map (\<lambda>(k, out). PushSettles k out) kos)
                                     (perform (deleteCirclePost ident) w)))) = []"
    by (rule deleteCirclePost_absent)
qed (simp_all add: perform_def deleteCirclePost_def circle_def emptyStore_def deletePost_def
       writesFail_def okStore_def consoleError_def without_def older_def)


section \<open>Teardown with pushes in flight\<close>


lemma settleLoad_cancelled [simp]: "settleLoad True out sc = sc"
  by (simp add: settleLoad_def)








section \<open>GEDCOM import: failure and dangling references\<close>

lemma length_updLast [simp]: "length (updLast f xs) = length xs"
proof (cases "rev xs")
  case Nil
  then show ?thesis by (simp add: updLast_def)
next
  case (Cons y ys)
  then have "length xs = Suc (length ys)"
    by (metis length_rev length_Cons)
  with Cons show ?thesis by (simp add: updLast_def)
qed

lemma addToken_individuals:
  "length (b_indis (addToken b tok)) =
     length (b_indis b) + (if opensIndividual tok then 1 else 0)"
  by (cases "tk_xref tok"; cases "b_current b")
     (simp_all add: addToken_def opensIndividual_def Let_def)

lemma foldl_addToken_individuals:
  "length (b_indis (foldl addToken b toks)) =
     length (b_indis b) + length (filter opensIndividual toks)"
  by (induction toks arbitrary: b) (simp_all add: addToken_individuals)

lemma individuals_count:
  "length (g_indis (buildGraph toks)) = length (filter opensIndividual toks)"
  by (simp add: buildGraph_def Let_def foldl_addToken_individuals emptyBuilder_def)

lemma no_individuals_iff:
  "g_indis (buildGraph toks) = [] \<longleftrightarrow> filter opensIndividual toks = []"
  using individuals_count[of toks] by (metis length_0_conv)

declare bfs.simps [simp del]

lemma bfs_visited:
  "set v \<subseteq> set (bfs g m q v) \<and> set (bfs g m q v) \<subseteq> set v \<union> {x. known g x}
   \<and> (distinct v \<longrightarrow> distinct (bfs g m q v))"
proof (induction g m q v rule: bfs.induct)
  case (1 g m v)
  then show ?case by (simp add: bfs.simps)
next
  case (2 g m x generation queue v)
  show ?case
  proof (cases "x \<in> set v \<or> \<not> known g x")
    case True
    with 2(1) show ?thesis by (simp add: bfs.simps)
  next
    case False
    with 2(2) show ?thesis by (auto simp: bfs.simps)
  qed
qed

lemma find_known:
  "known g x \<Longrightarrow> \<exists>i. find (\<lambda>i. i_xref i = x) (g_indis g) = Some i \<and> i_xref i = x"
proof -
  assume "known g x"
  then have "\<exists>i \<in> set (g_indis g). i_xref i = x"
    by (auto simp: known_def)
  then obtain i where "find (\<lambda>i. i_xref i = x) (g_indis g) = Some i"
    by (cases "find (\<lambda>i. i_xref i = x) (g_indis g)") (auto simp: find_None_iff)
  moreover from this have "i_xref i = x"
    by (auto simp: find_Some_iff)
  ultimately show ?thesis by blast
qed

lemma persons_ids:
  "\<forall>x \<in> set vs. known g x \<Longrightarrow> map p_id (persons g ownerId vs) = vs"
proof (induction vs)
  case Nil
  then show ?case by (simp add: persons_def List.map_filter_def)
next
  case (Cons x vs)
  then obtain i where "find (\<lambda>i. i_xref i = x) (g_indis g) = Some i" "i_xref i = x"
    using find_known[of g x] by auto
  moreover from Cons have "map p_id (persons g ownerId vs) = vs"
    by simp
  ultimately show ?case
    by (simp add: persons_def List.map_filter_def toPerson_def)
qed

lemma persons_links_known:
  "p \<in> set (persons g ownerId vs) \<Longrightarrow>
   set (p_parentIds p) \<union> set (p_childIds p) \<union> set (p_spouseIds p) \<subseteq> {x. known g x}"
  by (auto simp: persons_def List.map_filter_def toPerson_def parentsOf_def childrenOf_def
        spousesOf_def)

lemma persons_owner:
  "p \<in> set (persons g ownerId vs) \<Longrightarrow> p_userId p = ownerId"
  by (auto simp: persons_def List.map_filter_def toPerson_def)

lemma parseGedcom_fails_iff:
  "isl (parseGedcom text ownerId maxGenerations treeId now) \<longleftrightarrow>
   filter opensIndividual (tokenize text) = []"
  using no_individuals_iff[of "tokenize text"]
  by (cases "g_indis (buildGraph (tokenize text))") (simp_all add: parseGedcom_def Let_def)

lemma parseGedcom_ParseError:
  "filter opensIndividual (tokenize text) = [] \<Longrightarrow>
   parseGedcom text ownerId maxGenerations treeId now =
     Inl (ParseError ''No individuals found in GEDCOM file'')"
  using no_individuals_iff[of "tokenize text"]
  by (simp add: parseGedcom_def Let_def)

lemma parseGedcom_result:
  assumes "parseGedcom text ownerId maxGenerations treeId now = Inr pi"
  shows "pi_importedProfiles pi \<noteq> []
     \<and> map p_id (pi_importedProfiles pi) = t_memberIds (pi_tree pi)
     \<and> distinct (t_memberIds (pi_tree pi))
     \<and> t_homePersonId (pi_tree pi) = []
     \<and> (\<forall>p \<in> set (pi_importedProfiles pi).
          p_userId p = ownerId
          \<and> set (p_parentIds p) \<union> set (p_childIds p) \<union> set (p_spouseIds p)
              \<subseteq> {x. known (buildGraph (tokenize text)) x})"
proof -
  let ?g = "buildGraph (tokenize text)"
  from assms obtain start others where indis: "g_indis ?g = start # others"
    by (cases "g_indis ?g") (simp_all add: parseGedcom_def Let_def)
  let ?visited = "bfs ?g maxGenerations [(i_xref start, 0)] []"
  from assms indis have pi: "pi = \<lparr> pi_importedProfiles = persons ?g ownerId ?visited,
      pi_tree = \<lparr> t_id = treeId, t_userId = ownerId, t_name = [], t_createdAt = now,
                  t_homePersonId = [], t_memberIds = ?visited \<rparr> \<rparr>"
    by (simp add: parseGedcom_def Let_def)
  have start: "known ?g (i_xref start)"
    by (simp add: known_def indis)
  let ?queue = "map (\<lambda>s. (s, 0)) (spousesOf ?g (i_xref start))
          @ (if 0 < maxGenerations
             then map (\<lambda>r. (r, Suc 0)) (parentsOf ?g (i_xref start) @ childrenOf ?g (i_xref start))
             else [])"
  have first: "?visited = bfs ?g maxGenerations ?queue [i_xref start]"
    using start by (simp add: bfs.simps)
  have "set [i_xref start] \<subseteq> set (bfs ?g maxGenerations ?queue [i_xref start])"
    using bfs_visited[of "[i_xref start]" ?g maxGenerations ?queue] by blast
  then have "i_xref start \<in> set (bfs ?g maxGenerations ?queue [i_xref start])"
    by simp
  then have "i_xref start \<in> set ?visited"
    by (simp only: first)
  then have nonempty: "?visited \<noteq> []"
    by auto
  have sub: "\<forall>x \<in> set ?visited. known ?g x"
    using bfs_visited[of "[]" ?g maxGenerations "[(i_xref start, 0)]"] by auto
  have dist: "distinct ?visited"
    using bfs_visited[of "[]" ?g maxGenerations "[(i_xref start, 0)]"] by simp
  have ids: "map p_id (persons ?g ownerId ?visited) = ?visited"
    using sub by (rule persons_ids)
  with nonempty have "persons ?g ownerId ?visited \<noteq> []"
    by auto
  with ids dist show ?thesis
    unfolding pi using persons_links_known[of _ ?g ownerId ?visited]
      persons_owner[of _ ?g ownerId ?visited]
    by simp
qed

lemma onload_failure:
  "parse text (u_id u) 4 = Inl e \<Longrightarrow>
   onload parse u (Some text) ui =
     ui\<lparr> ui_console := ui_console ui @ [message e],
         ui_toasts := ui_toasts ui @ [''Error parsing GEDCOM''] \<rparr>"
  by (simp add: onload_def)

text \<open>
  C5, against the import engine modelled from the specification. The import fails exactly
  when no line of the text opens an Individual record, and then with the
  \<^verbatim>\<open>ParseError\<close>; what the Family records refer to plays no part in that. When it
  succeeds it returns at least one Person, the Tree's members are the Persons' ids, each
  once, its home person is unset, and every id in a relationship id-set of a Person is the
  id of an Individual record of the text: a link end with no such record is left out. In
  \<^verbatim>\<open>handleGedcomUpload\<close> a failed import is caught at once: the error is printed, the
  toast \<^verbatim>\<open>Error parsing GEDCOM\<close> is shown, and the pending import and the view are as
  before, so no partial tree is kept.
\<close>
theorem c5_parse_error_iff_no_individuals:
  "(isl (parseGedcom text ownerId maxGenerations treeId now) \<longleftrightarrow>
      filter opensIndividual (tokenize text) = [])
   \<and> (filter opensIndividual (tokenize text) = [] \<longrightarrow>
        parseGedcom text ownerId maxGenerations treeId now =
          Inl (ParseError ''No individuals found in GEDCOM file''))
   \<and> (\<forall>pi. parseGedcom text ownerId maxGenerations treeId now = Inr pi \<longrightarrow>
        pi_importedProfiles pi \<noteq> []
        \<and> map p_id (pi_importedProfiles pi) = t_memberIds (pi_tree pi)
        \<and> distinct (t_memberIds (pi_tree pi))
        \<and> t_homePersonId (pi_tree pi) = []
        \<and> (\<forall>p \<in> set (pi_importedProfiles pi).
             p_userId p = ownerId
             \<and> set (p_parentIds p) \<union> set (p_childIds p) \<union> set (p_spouseIds p)
                 \<subseteq> {x. known (buildGraph (tokenize text)) x}))
   \<and> (\<forall>e. parseGedcom text (u_id u) 4 treeId now = Inl e \<longrightarrow>
        handleGedcomUpload (\<lambda>t ownr m. parseGedcom t ownr m treeId now) (Some u) (Some (Some text)) ui =
          (if u_id u = []
           then ui\<lparr> ui_toasts := ui_toasts ui @ [''Please sign in to import a family archive.''] \<rparr>
           else ui\<lparr> ui_console := ui_console ui @ [message e],
                    ui_toasts := ui_toasts ui @ [''Error parsing GEDCOM''] \<rparr>)
        \<and> ui_pendingImport (handleGedcomUpload (\<lambda>t ownr m. parseGedcom t ownr m treeId now)
                               (Some u) (Some (Some text)) ui) = ui_pendingImport ui
        \<and> ui_view (handleGedcomUpload (\<lambda>t ownr m. parseGedcom t ownr m treeId now)
                      (Some u) (Some (Some text)) ui) = ui_view ui)"
proof (intro conjI allI impI)
  show "isl (parseGedcom text ownerId maxGenerations treeId now) \<longleftrightarrow>
      filter opensIndividual (tokenize text) = []"
    by (rule parseGedcom_fails_iff)
next
  assume "filter opensIndividual (tokenize text) = []"
  then show "parseGedcom text ownerId maxGenerations treeId now =
          Inl (ParseError ''No individuals found in GEDCOM file'')"
    by (rule parseGedcom_ParseError)
next
  fix pi
  assume r: "parseGedcom text ownerId maxGenerations treeId now = Inr pi"
  note R = parseGedcom_result[OF r]
  from R show "pi_importedProfiles pi \<noteq> []" by blast
  from R show "map p_id (pi_importedProfiles pi) = t_memberIds (pi_tree pi)" by blast
  from R show "distinct (t_memberIds (pi_tree pi))" by blast
  from R show "t_homePersonId (pi_tree pi) = []" by blast
  from R show "\<forall>p \<in> set (pi_importedProfiles pi).
             p_userId p = ownerId
             \<and> set (p_parentIds p) \<union> set (p_childIds p) \<union> set (p_spouseIds p)
                 \<subseteq> {x. known (buildGraph (tokenize text)) x}" by blast
next
  fix e
  assume f: "parseGedcom text (u_id u) 4 treeId now = Inl e"
  then show up: "handleGedcomUpload (\<lambda>t ownr m. parseGedcom t ownr m treeId now) (Some u) (Some (Some text)) ui =
          (if u_id u = []
           then ui\<lparr> ui_toasts := ui_toasts ui @ [''Please sign in to import a family archive.''] \<rparr>
           else ui\<lparr> ui_console := ui_console ui @ [message e],
                    ui_toasts := ui_toasts ui @ [''Error parsing GEDCOM''] \<rparr>)"
    by (simp add: handleGedcomUpload_def assertAuthenticated_def onload_failure)
  show "ui_pendingImport (handleGedcomUpload (\<lambda>t ownr m. parseGedcom t ownr m treeId now)
                               (Some u) (Some (Some text)) ui) = ui_pendingImport ui"
    unfolding up by simp
  show "ui_view (handleGedcomUpload (\<lambda>t ownr m. parseGedcom t ownr m treeId now)
                      (Some u) (Some (Some text)) ui) = ui_view ui"
    unfolding up by simp
qed

lemmas gedcom_simps = tokenize_def unlines_def tokenizeLine_def word_def trim_def ltrim_def
  isSpace_def isDigit_def number_def digitValue_def isXref_def pointer_def List.map_filter_def
  buildGraph_def addToken_def indiLine_def famLine_def updLast_def emptyBuilder_def

lemma sample_graph: "buildGraph (tokenize sampleGedcom) =
  \<lparr>g_indis =
        [\<lparr>i_xref = ''I1'', i_name = ''Ann /Lee/'', i_sex = ''F'',
            i_birthDate = ''1900'', i_birthPlace = [], i_deathDate = [],
            i_deathPlace = []\<rparr>,
         \<lparr>i_xref = ''I2'', i_name = ''Ben /Lee/'', i_sex = ''M'',
            i_birthDate = [], i_birthPlace = [], i_deathDate = [],
            i_deathPlace = []\<rparr>,
         \<lparr>i_xref = ''I3'', i_name = ''Cy /Roe/'', i_sex = [],
            i_birthDate = [], i_birthPlace = [], i_deathDate = [],
            i_deathPlace = []\<rparr>],
        g_fams =
          [\<lparr>fa_xref = ''F1'', fa_husb = Some ''I9'', fa_wife = Some ''I1'',
              fa_chil = [''I2'', ''I7''], fa_marrDate = [],
              fa_marrPlace = []\<rparr>,
           \<lparr>fa_xref = ''F2'', fa_husb = Some ''I2'', fa_wife = Some ''I3'',
              fa_chil = [], fa_marrDate = [], fa_marrPlace = []\<rparr>]\<rparr>"
  by (simp add: sampleGedcom_def gedcom_simps)

lemma sample_import: "parseGedcom sampleGedcom ''u1'' 4 ''t1'' ''now'' = Inr sampleImport"
  unfolding parseGedcom_def sample_graph
  by (simp add: bfs.simps persons_def toPerson_def known_def couple_def familiesAsSpouse_def
      familiesAsChild_def parentsOf_def childrenOf_def spousesOf_def lifeEvent_def
      spouseName_def genderOf_def List.map_filter_def sampleImport_def ann_def ben_def cy_def)

lemma header_tokens: "filter opensIndividual (tokenize headerOnly) = []"
  by (simp add: headerOnly_def gedcom_simps opensIndividual_def)

lemma sample_known:
  "{x. known (buildGraph (tokenize sampleGedcom)) x} = {''I1'', ''I2'', ''I3''}"
  unfolding sample_graph by (auto simp: known_def)

theorem c5_parse_error_iff_no_individuals_witness:
  "filter opensIndividual (tokenize headerOnly) = []
   \<and> parseGedcom headerOnly ''u1'' 4 ''t1'' ''now'' =
       Inl (ParseError ''No individuals found in GEDCOM file'')
   \<and> handleGedcomUpload (\<lambda>t ownr m. parseGedcom t ownr m ''t1'' ''now'') (Some user1)
        (Some (Some headerOnly)) idle =
       idle\<lparr> ui_console := [''No individuals found in GEDCOM file''],
             ui_toasts := [''Error parsing GEDCOM''] \<rparr>
   \<and> parseGedcom sampleGedcom ''u1'' 4 ''t1'' ''now'' = Inr sampleImport
   \<and> \<not> isl (parseGedcom sampleGedcom ''u1'' 4 ''t1'' ''now'')
   \<and> set (p_parentIds ben) \<union> set (p_childIds ben) \<union> set (p_spouseIds ben)
       \<subseteq> {''I1'', ''I2'', ''I3''}
   \<and> p_parentIds ben = [''I1''] \<and> p_childIds ann = [''I2'']"
proof -
  note H = c5_parse_error_iff_no_individuals[of headerOnly "''u1''" 4 "''t1''" "''now''" user1 idle]
  note S = c5_parse_error_iff_no_individuals[of sampleGedcom "''u1''" 4 "''t1''" "''now''" user1 idle]
  have uid: "u_id user1 = ''u1''"
    by (simp add: user1_def)
  from H header_tokens have fail: "parseGedcom headerOnly ''u1'' 4 ''t1'' ''now'' =
       Inl (ParseError ''No individuals found in GEDCOM file'')"
    by blast
  with H uid have "handleGedcomUpload (\<lambda>t ownr m. parseGedcom t ownr m ''t1'' ''now'') (Some user1)
        (Some (Some headerOnly)) idle =
       (if u_id user1 = []
        then idle\<lparr> ui_toasts := ui_toasts idle @ [''Please sign in to import a family archive.''] \<rparr>
        else idle\<lparr> ui_console := ui_console idle
                        @ [message (ParseError ''No individuals found in GEDCOM file'')],
                   ui_toasts := ui_toasts idle @ [''Error parsing GEDCOM''] \<rparr>)"
    by simp
  then have handler: "handleGedcomUpload (\<lambda>t ownr m. parseGedcom t ownr m ''t1'' ''now'') (Some user1)
        (Some (Some headerOnly)) idle =
       idle\<lparr> ui_console := [''No individuals found in GEDCOM file''],
             ui_toasts := [''Error parsing GEDCOM''] \<rparr>"
    by (simp add: uid idle_def)
  from S sample_import have "\<forall>p \<in> set (pi_importedProfiles sampleImport).
       p_userId p = ''u1''
       \<and> set (p_parentIds p) \<union> set (p_childIds p) \<union> set (p_spouseIds p)
           \<subseteq> {x. known (buildGraph (tokenize sampleGedcom)) x}"
    by blast
  then have links: "set (p_parentIds ben) \<union> set (p_childIds ben) \<union> set (p_spouseIds ben)
       \<subseteq> {''I1'', ''I2'', ''I3''}"
    by (simp add: sampleImport_def sample_known)
  from S sample_import have "\<not> isl (parseGedcom sampleGedcom ''u1'' 4 ''t1'' ''now'')"
    by simp
  with header_tokens fail handler sample_import links show ?thesis
    by (simp add: ben_def ann_def)
qed
section \<open>Choosing the home person\<close>

lemma treeInvariant_updatedTree:
  "treeInvariant (updatedTree pendingImport selected) \<longleftrightarrow>
     p_id selected = [] \<or> p_id selected \<in> set (t_memberIds (pi_tree pendingImport))"
  by (simp add: treeInvariant_def updatedTree_def)

lemma chooseHome_trees:
  "assertAuthenticated user (Some ''GEDCOM home selection'') = Inr u \<Longrightarrow>
   ui_pendingImport ui = Some pendingImport \<Longrightarrow>
   st_familyTrees (fst (fst (chooseHome user selected (st, ui)))) =
     treeObject (updatedTree pendingImport selected) # st_familyTrees st"
  by (simp add: chooseHome_def setProfiles_def setFamilyTrees_def Let_def split: prod.splits)

lemma chooseHome_guard:
  "(\<exists>e. assertAuthenticated user (Some ''GEDCOM home selection'') = Inl e) \<or> ui_pendingImport ui = None \<Longrightarrow>
   fst (fst (chooseHome user selected (st, ui))) = st
   \<and> ui_pendingImport (snd (fst (chooseHome user selected (st, ui)))) = ui_pendingImport ui
   \<and> snd (chooseHome user selected (st, ui)) = []"
  by (auto simp: chooseHome_def split: sum.splits option.splits)

lemma imported_is_member:
  "map p_id (pi_importedProfiles pendingImport) = t_memberIds (pi_tree pendingImport) \<Longrightarrow>
   selected \<in> set (pi_importedProfiles pendingImport) \<Longrightarrow>
   p_id selected \<in> set (t_memberIds (pi_tree pendingImport))"
proof -
  assume members: "map p_id (pi_importedProfiles pendingImport) = t_memberIds (pi_tree pendingImport)"
    and chosen: "selected \<in> set (pi_importedProfiles pendingImport)"
  from chosen have "p_id selected \<in> set (map p_id (pi_importedProfiles pendingImport))"
    by simp
  then show ?thesis
    by (simp only: members)
qed

text \<open>
  C4, as stated, fails: \<^verbatim>\<open>chooseHome\<close> does not require the chosen profile to be a member
  of the tree. A signed-in user with the sample import pending chooses a profile that is
  not among the imported ones: the tree is stored with that profile's id as home person,
  which is none of its members, and the import is reported as successful.
\<close>
theorem c4_chooseHome_counterexample:
  "assertAuthenticated (Some user1) (Some ''GEDCOM home selection'') = Inr user1
   \<and> ui_pendingImport selecting = Some sampleImport
   \<and> map asTree (st_familyTrees (fst (fst (chooseHome (Some user1) ada (emptyStore, selecting))))) =
       [\<lparr> t_id = ''t1'', t_userId = ''u1'', t_name = ''The Ada Archive'', t_createdAt = ''now'',
          t_homePersonId = ''p1'', t_memberIds = [''I1'', ''I2'', ''I3''] \<rparr>]
   \<and> \<not> treeInvariant (asTree (hd (st_familyTrees
                                     (fst (fst (chooseHome (Some user1) ada (emptyStore, selecting)))))))
   \<and> ui_toasts (snd (fst (chooseHome (Some user1) ada (emptyStore, selecting)))) =
       [''Loaded 3 family members'', ''Archive successfully imported'']"
proof -
  have a: "assertAuthenticated (Some user1) (Some ''GEDCOM home selection'') = Inr user1"
    by (simp add: assertAuthenticated_def user1_def)
  have b: "ui_pendingImport selecting = Some sampleImport"
    by (simp add: selecting_def)
  have trees: "st_familyTrees (fst (fst (chooseHome (Some user1) ada (emptyStore, selecting)))) =
      [treeObject (updatedTree sampleImport ada)]"
    using chooseHome_trees[OF a b, of ada emptyStore] by (simp add: emptyStore_def)
  have tree: "updatedTree sampleImport ada =
      \<lparr> t_id = ''t1'', t_userId = ''u1'', t_name = ''The Ada Archive'', t_createdAt = ''now'',
        t_homePersonId = ''p1'', t_memberIds = [''I1'', ''I2'', ''I3''] \<rparr>"
    by (simp add: updatedTree_def sampleImport_def ada_def)
  have toasts: "ui_toasts (snd (fst (chooseHome (Some user1) ada (emptyStore, selecting)))) =
       [''Loaded 3 family members'', ''Archive successfully imported'']"
    using a by (simp add: chooseHome_def selecting_def Let_def split: prod.splits)
  have "\<not> treeInvariant (updatedTree sampleImport ada)"
    by (simp add: treeInvariant_updatedTree sampleImport_def ada_def)
  with a b trees tree toasts show ?thesis
    by simp
qed

text \<open>
  C4, amended. \<^verbatim>\<open>chooseHome\<close> sets the home person of the pending tree to the id of the
  chosen profile and keeps its members, so the tree satisfies the invariant exactly when
  that id is empty or one of its members; the function itself does not check this. An
  import returns a tree whose members are the ids of the profiles it returns. So for a
  signed-in user, a pending import whose tree has its profiles as members, and a chosen
  profile that is one of the imported ones, the chosen id is a member, the tree put in front
  of the trees held satisfies the invariant, and if every tree held satisfied it before,
  every tree held satisfies it after. Without a session or without a pending import nothing
  changes.
\<close>
theorem c4_chooseHome_invariant:
  "(treeInvariant (updatedTree pendingImport selected) \<longleftrightarrow>
      p_id selected = [] \<or> p_id selected \<in> set (t_memberIds (pi_tree pendingImport)))
   \<and> t_homePersonId (updatedTree pendingImport selected) = p_id selected
   \<and> t_memberIds (updatedTree pendingImport selected) = t_memberIds (pi_tree pendingImport)
   \<and> (\<forall>gedcom ownerId maxGenerations treeId now result.
        parseGedcom gedcom ownerId maxGenerations treeId now = Inr result \<longrightarrow>
        map p_id (pi_importedProfiles result) = t_memberIds (pi_tree result))
   \<and> (\<forall>u. assertAuthenticated user (Some ''GEDCOM home selection'') = Inr u
          \<and> ui_pendingImport ui = Some pendingImport
          \<and> map p_id (pi_importedProfiles pendingImport) = t_memberIds (pi_tree pendingImport)
          \<and> selected \<in> set (pi_importedProfiles pendingImport) \<longrightarrow>
        p_id selected \<in> set (t_memberIds (pi_tree pendingImport))
        \<and> st_familyTrees (fst (fst (chooseHome user selected (st, ui)))) =
            treeObject (updatedTree pendingImport selected) # st_familyTrees st
        \<and> asTree (treeObject (updatedTree pendingImport selected)) = updatedTree pendingImport selected
        \<and> treeInvariant (updatedTree pendingImport selected)
        \<and> ((\<forall>t \<in> set (st_familyTrees st). treeInvariant (asTree t)) \<longrightarrow>
             (\<forall>t \<in> set (st_familyTrees (fst (fst (chooseHome user selected (st, ui))))).
                treeInvariant (asTree t))))
   \<and> ((\<exists>e. assertAuthenticated user (Some ''GEDCOM home selection'') = Inl e)
        \<or> ui_pendingImport ui = None \<longrightarrow>
        fst (fst (chooseHome user selected (st, ui))) = st)"
proof (intro conjI allI impI)
  show "treeInvariant (updatedTree pendingImport selected) \<longleftrightarrow>
      p_id selected = [] \<or> p_id selected \<in> set (t_memberIds (pi_tree pendingImport))"
    by (rule treeInvariant_updatedTree)
  show "t_homePersonId (updatedTree pendingImport selected) = p_id selected"
    by (simp add: updatedTree_def)
  show "t_memberIds (updatedTree pendingImport selected) = t_memberIds (pi_tree pendingImport)"
    by (simp add: updatedTree_def)
next
  fix gedcom ownerId maxGenerations treeId now result
  assume "parseGedcom gedcom ownerId maxGenerations treeId now = Inr result"
  from parseGedcom_result[OF this]
  show "map p_id (pi_importedProfiles result) = t_memberIds (pi_tree result)"
    by (elim conjE)
next
  fix u
  assume a: "assertAuthenticated user (Some ''GEDCOM home selection'') = Inr u
          \<and> ui_pendingImport ui = Some pendingImport
          \<and> map p_id (pi_importedProfiles pendingImport) = t_memberIds (pi_tree pendingImport)
          \<and> selected \<in> set (pi_importedProfiles pendingImport)"
  then show member: "p_id selected \<in> set (t_memberIds (pi_tree pendingImport))"
    by (intro imported_is_member) (elim conjE, assumption)+
  from a show trees: "st_familyTrees (fst (fst (chooseHome user selected (st, ui)))) =
          treeObject (updatedTree pendingImport selected) # st_familyTrees st"
    by (simp add: chooseHome_trees)
  show "asTree (treeObject (updatedTree pendingImport selected)) = updatedTree pendingImport selected"
    by (rule asTree_treeObject)
  from member show inv: "treeInvariant (updatedTree pendingImport selected)"
    by (simp add: treeInvariant_updatedTree)
  assume "\<forall>t \<in> set (st_familyTrees st). treeInvariant (asTree t)"
  with inv show "\<forall>t \<in> set (st_familyTrees (fst (fst (chooseHome user selected (st, ui))))).
                treeInvariant (asTree t)"
    unfolding trees by simp
next
  assume "(\<exists>e. assertAuthenticated user (Some ''GEDCOM home selection'') = Inl e)
        \<or> ui_pendingImport ui = None"
  then show "fst (fst (chooseHome user selected (st, ui))) = st"
    using chooseHome_guard by blast
qed

theorem c4_chooseHome_invariant_witness:
  "parseGedcom sampleGedcom ''u1'' 4 ''t1'' ''now'' = Inr sampleImport
   \<and> assertAuthenticated (Some user1) (Some ''GEDCOM home selection'') = Inr user1
   \<and> ui_pendingImport selecting = Some sampleImport
   \<and> map p_id (pi_importedProfiles sampleImport) = t_memberIds (pi_tree sampleImport)
   \<and> ben \<in> set (pi_importedProfiles sampleImport)
   \<and> p_id ben \<in> set (t_memberIds (pi_tree sampleImport))
   \<and> map asTree (st_familyTrees (fst (fst (chooseHome (Some user1) ben (emptyStore, selecting))))) =
       [\<lparr> t_id = ''t1'', t_userId = ''u1'', t_name = ''The Ben /Lee/ Archive'', t_createdAt = ''now'',
          t_homePersonId = ''I2'', t_memberIds = [''I1'', ''I2'', ''I3''] \<rparr>]
   \<and> treeInvariant (updatedTree sampleImport ben)
   \<and> ui_pendingImport idle = None
   \<and> fst (fst (chooseHome (Some user1) ben (emptyStore, idle))) = emptyStore"
proof -
  note T = c4_chooseHome_invariant[of sampleImport ben "Some user1" selecting emptyStore]
  note G = c4_chooseHome_invariant[of sampleImport ben "Some user1" idle emptyStore]
  have p: "parseGedcom sampleGedcom ''u1'' 4 ''t1'' ''now'' = Inr sampleImport"
    by (rule sample_import)
  have a: "assertAuthenticated (Some user1) (Some ''GEDCOM home selection'') = Inr user1"
    by (simp add: assertAuthenticated_def user1_def)
  have b: "ui_pendingImport selecting = Some sampleImport"
    by (simp add: selecting_def)
  from T p have m: "map p_id (pi_importedProfiles sampleImport) = t_memberIds (pi_tree sampleImport)"
    by blast
  have c: "ben \<in> set (pi_importedProfiles sampleImport)"
    by (simp add: sampleImport_def)
  have d: "ui_pendingImport idle = None"
    by (simp add: idle_def)
  from T a b m c have r: "p_id ben \<in> set (t_memberIds (pi_tree sampleImport))
        \<and> st_familyTrees (fst (fst (chooseHome (Some user1) ben (emptyStore, selecting)))) =
            treeObject (updatedTree sampleImport ben) # st_familyTrees emptyStore
        \<and> asTree (treeObject (updatedTree sampleImport ben)) = updatedTree sampleImport ben
        \<and> treeInvariant (updatedTree sampleImport ben)"
    by blast
  from G d have g: "fst (fst (chooseHome (Some user1) ben (emptyStore, idle))) = emptyStore"
    by blast
  have tree: "updatedTree sampleImport ben =
      \<lparr> t_id = ''t1'', t_userId = ''u1'', t_name = ''The Ben /Lee/ Archive'', t_createdAt = ''now'',
        t_homePersonId = ''I2'', t_memberIds = [''I1'', ''I2'', ''I3''] \<rparr>"
    by (simp add: updatedTree_def sampleImport_def ben_def)
  from r have trees: "map asTree (st_familyTrees (fst (fst (chooseHome (Some user1) ben (emptyStore, selecting))))) =
      [updatedTree sampleImport ben]"
    by (simp add: emptyStore_def)
  from r have "p_id ben \<in> set (t_memberIds (pi_tree sampleImport))"
    "treeInvariant (updatedTree sampleImport ben)"
    by blast+
  with p a b m c d g trees show ?thesis
    unfolding tree by (intro conjI) assumption+
qed

end
